theory Spec2Isabelle
  imports Complex_Main "HOL-Library.AList" "HOL-Library.Log_Nat"
begin

section \<open>JavaScript values used by the plugin\<close>

text \<open>
  The plugin (TestCursorPlugin/index.js) is JavaScript running inside the Photoshop UXP
  host. Strings are modelled as lists of code units below 256, numbers as IEEE doubles
  (a real that is the value of a double, \<open>NaN\<close> or an infinity; every operation rounds
  to the nearest double), exceptions as the left summand of a sum type.
  Every call into the host (documents, layers, batchPlay, storage) is an input of the
  model: a record holds, for each host call a function makes, what the host answers.
\<close>

datatype error =
    Error string
  | PluginError string string "error list"

text \<open>
  \<open>Error m\<close> is a plain JavaScript or host error with message \<open>m\<close>;
  \<open>PluginError m code causes\<close> is the class \<open>PluginError\<close> of the source: message, code,
  and the errors stored in its details.
\<close>

fun message :: "error \<Rightarrow> string" where
  "message (Error m) = m"
| "message (PluginError m c ds) = m"

fun code :: "error \<Rightarrow> string option" where
  "code (Error m) = None"
| "code (PluginError m c ds) = Some c"

subsection \<open>Numbers\<close>

text \<open>
  A number is \<open>NaN\<close>, an infinity (\<open>Infinity True\<close> is the positive one) or \<open>Num x\<close>
  with \<open>x\<close> the value of a finite double; the two zeros are one value, which no
  operation of the plugin tells apart.
\<close>

datatype jsnum = NaN | Num real | Infinity bool

text \<open>Rounding to the nearest integer, a tie to the even one.\<close>

definition roundHalfEven :: "real \<Rightarrow> int" where
  "roundHalfEven z =
     (let f = \<lfloor>z\<rfloor>; d = z - of_int f
      in if d < 1 / 2 then f else if 1 / 2 < d then f + 1 else if even f then f else f + 1)"

text \<open>\<open>ilog2 a\<close> is the binary exponent of \<open>a > 0\<close>: \<open>2 powi ilog2 a \<le> a < 2 powi (ilog2 a + 1)\<close>.\<close>

definition ilog2 :: "real \<Rightarrow> int" where
  "ilog2 a = (if 1 \<le> a then bitlen \<lfloor>a\<rfloor> - 1 else - bitlen (\<lceil>1 / a\<rceil> - 1))"

text \<open>
  The double nearest to a magnitude \<open>a \<ge> 0\<close>, before the overflow check: a significand
  of 53 bits, the spacing never below \<open>2 powi - 1074\<close> (the subnormal range).
\<close>

definition nearest :: "real \<Rightarrow> real" where
  "nearest a =
     (let e = max (ilog2 a - 52) (- 1074)
      in of_int (roundHalfEven (a / 2 powi e)) * 2 powi e)"

text \<open>The number a real rounds to: to nearest, ties to even, overflow to an infinity.\<close>

definition roundToDouble :: "real \<Rightarrow> jsnum" where
  "roundToDouble x =
     (let v = nearest \<bar>x\<bar>
      in if 2 ^ 1024 \<le> v then Infinity (0 < x) else Num (if x < 0 then - v else v))"

text \<open>The operators \<open>a - b\<close>, \<open>Math.abs(a)\<close> and \<open>a < b\<close> on numbers.\<close>

fun minus_jsnum :: "jsnum \<Rightarrow> jsnum \<Rightarrow> jsnum" where
  "minus_jsnum (Num x) (Num y) = roundToDouble (x - y)"
| "minus_jsnum (Num x) (Infinity q) = Infinity (\<not> q)"
| "minus_jsnum (Infinity p) (Num y) = Infinity p"
| "minus_jsnum (Infinity p) (Infinity q) = (if p = q then NaN else Infinity p)"
| "minus_jsnum NaN b = NaN"
| "minus_jsnum a NaN = NaN"

fun Math_abs :: "jsnum \<Rightarrow> jsnum" where
  "Math_abs NaN = NaN"
| "Math_abs (Num x) = Num \<bar>x\<bar>"
| "Math_abs (Infinity p) = Infinity True"

fun less_jsnum :: "jsnum \<Rightarrow> jsnum \<Rightarrow> bool" where
  "less_jsnum (Num x) (Num y) \<longleftrightarrow> x < y"
| "less_jsnum (Num x) (Infinity q) \<longleftrightarrow> q"
| "less_jsnum (Infinity p) (Num y) \<longleftrightarrow> \<not> p"
| "less_jsnum (Infinity p) (Infinity q) \<longleftrightarrow> \<not> p \<and> q"
| "less_jsnum NaN b \<longleftrightarrow> False"
| "less_jsnum a NaN \<longleftrightarrow> False"

subsection \<open>JSON data\<close>

datatype json =
    JNull
  | JBool bool
  | JNumber jsnum
  | JString string
  | JArray "json list"
  | JObject "(string \<times> json) list"

text \<open>\<open>truthy d\<close>: the value \<open>d\<close> passes a test \<open>if (d)\<close>.\<close>

fun truthy :: "json \<Rightarrow> bool" where
  "truthy JNull \<longleftrightarrow> False"
| "truthy (JBool b) \<longleftrightarrow> b"
| "truthy (JNumber n) \<longleftrightarrow> n \<noteq> NaN \<and> n \<noteq> Num 0"
| "truthy (JString s) \<longleftrightarrow> s \<noteq> []"
| "truthy (JArray xs) \<longleftrightarrow> True"
| "truthy (JObject kvs) \<longleftrightarrow> True"

subsection \<open>String primitives\<close>

definition isWhiteSpace :: "char \<Rightarrow> bool" where
  "isWhiteSpace c \<longleftrightarrow>
     c \<in> {CHR 0x09, CHR 0x0A, CHR 0x0B, CHR 0x0C, CHR 0x0D, CHR 0x20, CHR 0xA0}"

definition trim :: "string \<Rightarrow> string" where
  "trim s = rev (dropWhile isWhiteSpace (rev (dropWhile isWhiteSpace s)))"

text \<open>\<open>split c s\<close> is \<open>s.split(c)\<close> for a one-character separator.\<close>

fun split :: "char \<Rightarrow> string \<Rightarrow> string list" where
  "split c [] = [[]]"
| "split c (x # xs) =
     (if x = c then [] # split c xs
      else (case split c xs of [] \<Rightarrow> [[x]] | f # fs \<Rightarrow> (x # f) # fs))"

definition startsWith :: "string \<Rightarrow> string \<Rightarrow> bool" where
  "startsWith s p \<longleftrightarrow> take (length p) s = p"

definition isDigit :: "char \<Rightarrow> bool" where
  "isDigit c \<longleftrightarrow> c \<in> set ''0123456789''"

definition digitVal :: "char \<Rightarrow> nat" where
  "digitVal c = of_char c - 48"

definition digitsVal :: "string \<Rightarrow> nat" where
  "digitsVal ds = foldl (\<lambda>a c. 10 * a + digitVal c) 0 ds"

definition stripSign :: "string \<Rightarrow> bool \<times> string" where
  "stripSign s =
     (case s of
        [] \<Rightarrow> (False, [])
      | c # r \<Rightarrow> if c = CHR ''-'' then (True, r)
                 else if c = CHR ''+'' then (False, r) else (False, s))"

definition exponentPart :: "string \<Rightarrow> int" where
  "exponentPart s =
     (case s of
        [] \<Rightarrow> 0
      | c # r \<Rightarrow>
          if c = CHR ''e'' \<or> c = CHR ''E'' then
            (let (neg, d) = stripSign r; ds = takeWhile isDigit d
             in if ds = [] then 0
                else if neg then - int (digitsVal ds) else int (digitsVal ds))
          else 0)"

definition scale10 :: "real \<Rightarrow> int \<Rightarrow> real" where
  "scale10 m e = (if 0 \<le> e then m * 10 ^ nat e else m / 10 ^ nat (- e))"

text \<open>
  \<open>parseFloat\<close>: skip leading white space, read the longest prefix that is a
  \<open>StrDecimalLiteral\<close> (sign, \<open>Infinity\<close> or digits with an optional fraction and
  exponent); \<open>NaN\<close> when there is none, and otherwise the double nearest to the
  decimal value read.
\<close>

definition parseFloat :: "string \<Rightarrow> jsnum" where
  "parseFloat s =
     (let (neg, u) = stripSign (dropWhile isWhiteSpace s) in
      if startsWith u ''Infinity'' then Infinity (\<not> neg)
      else
        let ip = takeWhile isDigit u;
            r1 = dropWhile isDigit u;
            (fp, r2) = (case r1 of
                          [] \<Rightarrow> ([], [])
                        | c # r \<Rightarrow> if c = CHR ''.''
                                   then (takeWhile isDigit r, dropWhile isDigit r)
                                   else ([], r1))
        in if ip = [] \<and> fp = [] then NaN
           else
             let mant = real (digitsVal ip) + real (digitsVal fp) / 10 ^ length fp;
                 v = scale10 mant (exponentPart r2)
             in roundToDouble (if neg then - v else v))"

definition isNaN :: "jsnum \<Rightarrow> bool" where
  "isNaN n \<longleftrightarrow> n = NaN"

section \<open>CSV loader: the parsing part of \<open>loadTextCSV\<close>\<close>

text \<open>
  A row is the object \<open>rowData\<close>: keys are the header names in insertion order, and
  \<open>rowData[header] = value\<close> is \<open>AList.update\<close> (a later column with the same name
  overwrites the earlier value).
\<close>

type_synonym row = "(string \<times> string) list"

definition headersOf :: "string \<Rightarrow> string list" where
  "headersOf fileContent = map trim (split CHR '','' (trim (hd (split CHR 0x0A fileContent))))"

definition textColumns :: "string list \<Rightarrow> string list" where
  "textColumns headers = filter (\<lambda>h. startsWith h ''text'') headers"

definition fontSizeColumns :: "string list \<Rightarrow> string list" where
  "fontSizeColumns headers = filter (\<lambda>h. startsWith h ''fontsize'') headers"

definition valuesOf :: "string \<Rightarrow> string list" where
  "valuesOf line = map trim (split CHR '','' (trim line))"

text \<open>One step of \<open>headers.forEach\<close>: the state is \<open>(rowData, hasData)\<close>.\<close>

definition columnStep :: "row \<times> bool \<Rightarrow> string \<times> string \<Rightarrow> row \<times> bool" where
  "columnStep acc hv =
     (let (rowData, hasData) = acc; (header, v) = hv;
          rowData1 = AList.update header v rowData;
          hasData1 = (hasData \<or> (startsWith header ''text'' \<and> v \<noteq> []));
          rowData2 = (if startsWith header ''fontsize'' \<and> v \<noteq> [] \<and> isNaN (parseFloat v)
                      then AList.update header [] rowData1 else rowData1)
      in (rowData2, hasData1))"

definition buildRow :: "string list \<Rightarrow> string list \<Rightarrow> row \<times> bool" where
  "buildRow headers vs = foldl columnStep ([], False) (zip headers vs)"

text \<open>The body of the loop over \<open>lines[1..]\<close>: \<open>data\<close> is the list built so far.\<close>

fun parseLines :: "string list \<Rightarrow> string list \<Rightarrow> row list \<Rightarrow> row list" where
  "parseLines headers [] data = data"
| "parseLines headers (l # ls) data =
     (if trim l = [] then parseLines headers ls data
      else if length (valuesOf l) \<noteq> length headers then parseLines headers ls data
      else (case buildRow headers (valuesOf l) of
              (rowData, hasData) \<Rightarrow>
                if hasData then parseLines headers ls (data @ [rowData])
                else parseLines headers ls data))"


section \<open>External relay sink: \<open>writeToMCPRelay\<close>\<close>

record entry =
  isFolder :: bool
  isEntry :: bool
  nativePath :: string

text \<open>
  What the host answers to each storage call of one \<open>writeToMCPRelay\<close> invocation.
  \<open>relay_createFile\<close> answers \<open>None\<close> for a handle without a \<open>write\<close> method;
  \<open>relay_stringify\<close> is \<open>JSON.stringify(data, null, 2)\<close>, the empty string standing for a
  falsy result.
\<close>

record relay_host =
  relay_utf8 :: bool
  relay_getTemporaryFolder :: "error + entry"
  relay_getEntry_mcp :: "error + entry"
  relay_createEntry_mcp :: "error + entry"
  relay_getEntry_logs :: "error + entry"
  relay_createEntry_logs :: "error + entry"
  relay_getTime :: nat
  relay_stringify :: "json \<Rightarrow> error + string"
  relay_createFile :: "error + entry option"
  relay_write :: "error + unit"
  relay_createTemporaryFile :: "error + unit"
  relay_tempWrite :: "error + unit"
  relay_moveTo :: "error + unit"

datatype relay_attempt = StandardWrite | FallbackWrite

fun showNat :: "nat \<Rightarrow> string" where
  "showNat n = (if n < 10 then [char_of (48 + n)]
                else showNat (n div 10) @ [char_of (48 + n mod 10)])"

declare showNat.simps [simp del]

text \<open>The get-or-create block used for the \<open>mcp-relay\<close> and \<open>logs\<close> folders.\<close>

definition relayFolder :: "error + entry \<Rightarrow> error + entry \<Rightarrow> error + entry" where
  "relayFolder got created =
     (case got of
        Inr e \<Rightarrow> if isFolder e then Inr e else created
      | Inl notFound \<Rightarrow> created)"

definition jsonString :: "relay_host \<Rightarrow> json \<Rightarrow> error + string" where
  "jsonString h d =
     (case relay_stringify h d of
        Inl jsonError \<Rightarrow>
          Inl (PluginError (''Failed to stringify data: '' @ message jsonError) ''JSON_ERROR''
                 [jsonError])
      | Inr s \<Rightarrow>
          if s = [] then
            Inl (PluginError
                   (''Failed to stringify data: JSON stringification resulted in empty string'')
                   ''JSON_ERROR'' [Error ''JSON stringification resulted in empty string''])
          else Inr s)"

definition standardWrite :: "relay_host \<Rightarrow> error + string" where
  "standardWrite h =
     (case relay_createFile h of
        Inl e \<Rightarrow> Inl e
      | Inr None \<Rightarrow>
          Inl (PluginError ''Invalid file handle: write() not available''
                 ''FILE_WRITE_TYPE_ERROR'' [])
      | Inr (Some file) \<Rightarrow>
          (case relay_write h of
             Inl e \<Rightarrow> Inl e
           | Inr u \<Rightarrow> Inr (nativePath file)))"

definition fallbackWrite :: "relay_host \<Rightarrow> string \<Rightarrow> error + string" where
  "fallbackWrite h finalPath =
     (case relay_createTemporaryFile h of
        Inl e \<Rightarrow> Inl e
      | Inr u \<Rightarrow>
          (case relay_tempWrite h of
             Inl e \<Rightarrow> Inl e
           | Inr u \<Rightarrow>
               (case relay_moveTo h of
                  Inl e \<Rightarrow> Inl e
                | Inr u \<Rightarrow> Inr finalPath)))"

definition bothFailed :: "error \<Rightarrow> error \<Rightarrow> error" where
  "bothFailed writeError fallbackError =
     PluginError ''Both standard and fallback write attempts failed'' ''FILE_WRITE_ERROR''
       [writeError, fallbackError]"

definition mcpWriteError :: "error \<Rightarrow> error" where
  "mcpWriteError e =
     PluginError (''Failed to write to MCP relay: '' @ message e) ''MCP_WRITE_ERROR'' [e]"

text \<open>
  The inner \<open>try\<close>/\<open>catch\<close>: the standard write and, when it throws, the fallback through
  a temporary file moved to \<open>finalPath\<close>. The result comes with the attempts made, in
  order.
\<close>

definition writeAttempts ::
  "relay_host \<Rightarrow> string \<Rightarrow> (error + string) \<times> relay_attempt list" where
  "writeAttempts h finalPath =
     (case standardWrite h of
        Inr path \<Rightarrow> (Inr path, [StandardWrite])
      | Inl writeError \<Rightarrow>
          (case fallbackWrite h finalPath of
             Inr movedTo \<Rightarrow> (Inr movedTo, [StandardWrite, FallbackWrite])
           | Inl fallbackError \<Rightarrow>
               (Inl (bothFailed writeError fallbackError), [StandardWrite, FallbackWrite])))"

text \<open>
  \<open>writeToMCPRelay\<close>: the returned path or the raised error, with the write attempts.
  The two guards before the outer \<open>try\<close> raise unwrapped; every error raised inside it
  is wrapped by the outer \<open>catch\<close>. The first guard, \<open>if (!data)\<close>, rejects a call
  without argument (\<open>None\<close>) and every value that is not truthy.
\<close>

definition writeToMCPRelay ::
  "relay_host \<Rightarrow> json option \<Rightarrow> (error + string) \<times> relay_attempt list" where
  "writeToMCPRelay h data =
     (case data of
        None \<Rightarrow> (Inl (PluginError ''No data provided for MCP relay'' ''INVALID_INPUT'' []), [])
      | Some d \<Rightarrow>
          if \<not> truthy d then
            (Inl (PluginError ''No data provided for MCP relay'' ''INVALID_INPUT'' []), [])
          else if \<not> relay_utf8 h then
            (Inl (PluginError ''UTF-8 format not available'' ''FORMAT_ERROR'' []), [])
          else
            (case relay_getTemporaryFolder h of
               Inl e \<Rightarrow> (Inl (mcpWriteError e), [])
             | Inr tempFolder \<Rightarrow>
                 (case relayFolder (relay_getEntry_mcp h) (relay_createEntry_mcp h) of
                    Inl e \<Rightarrow> (Inl (mcpWriteError e), [])
                  | Inr mcpRelayFolder \<Rightarrow>
                      (case relayFolder (relay_getEntry_logs h) (relay_createEntry_logs h) of
                         Inl e \<Rightarrow> (Inl (mcpWriteError e), [])
                       | Inr logsFolder \<Rightarrow>
                           (let fileName = ''mcp-out-'' @ showNat (relay_getTime h) @ ''.json''
                            in case jsonString h d of
                                 Inl e \<Rightarrow> (Inl (mcpWriteError e), [])
                               | Inr js \<Rightarrow>
                                   (case writeAttempts h
                                           (nativePath logsFolder @ ''/'' @ fileName) of
                                      (Inr path, tr) \<Rightarrow> (Inr path, tr)
                                    | (Inl e, tr) \<Rightarrow> (Inl (mcpWriteError e), tr)))))))"

section \<open>Layer mutation adapter\<close>

datatype jsval = JsUndefined | JsNull | JsNumber jsnum | JsString string

datatype layer_kind = KindName string | KindCode nat

text \<open>
  A layer handle with the host's answers for the operations the plugin performs on it
  while one row is processed: the two channels \<open>verifyFontSize\<close> reads, the three
  font-size mutation strategies, the modal text replacement, and the relay write that
  follows a font-size update.
\<close>

record layer =
  layer_name :: string
  layer_id :: nat
  layer_kind :: layer_kind
  read_textItem_size :: "error + jsval"
  read_style_size :: "error + jsval"
  set_textItem_size :: "error + unit"
  batchPlay_textStyle :: "error + unit"
  batchPlay_property :: "error + unit"
  replaceText_modal :: "error + unit"
  fontSize_relay :: relay_host

text \<open>
  \<open>parseFloat(v)\<close> for a value read from a layer or passed as the expected size. A number
  is first converted to its string, which reads back as the same number. A reading
  \<open>JsNumber (Num x)\<close> stands for the number that the numeral \<open>x\<close> denotes, the double
  nearest to \<open>x\<close>: when \<open>x\<close> is the value of a double this is \<open>x\<close> itself.
\<close>

definition toFloat :: "jsval \<Rightarrow> jsnum" where
  "toFloat v =
     (case v of
        JsNumber (Num x) \<Rightarrow> roundToDouble x
      | JsNumber n \<Rightarrow> n
      | JsString s \<Rightarrow> parseFloat s
      | _ \<Rightarrow> NaN)"

text \<open>\<open>const tolerance = 0.1\<close> and \<open>Math.abs(a - b) < tolerance\<close>.\<close>

definition tolerance :: jsnum where
  "tolerance = roundToDouble (1 / 10)"

definition withinTolerance :: "jsnum \<Rightarrow> jsnum \<Rightarrow> bool" where
  "withinTolerance a b \<longleftrightarrow> less_jsnum (Math_abs (minus_jsnum a b)) tolerance"

definition measurements :: "layer \<Rightarrow> (string \<times> jsval) list" where
  "measurements l =
     (let textItemSize = (case read_textItem_size l of Inl e \<Rightarrow> JsUndefined | Inr v \<Rightarrow> v);
          textStyleSize = (case read_style_size l of Inl e \<Rightarrow> JsUndefined | Inr v \<Rightarrow> v)
      in filter (\<lambda>m. snd m \<noteq> JsUndefined \<and> snd m \<noteq> JsNull)
           [(''TextItem'', textItemSize), (''Text Style'', textStyleSize)])"

text \<open>The body of the outer \<open>try\<close> of \<open>verifyFontSize\<close>; a null layer makes the first
  log line throw.\<close>

definition verifyFontSize_try :: "layer option \<Rightarrow> jsval \<Rightarrow> error + bool" where
  "verifyFontSize_try layer expectedSize =
     (case layer of
        None \<Rightarrow> Inl (Error ''Cannot read properties of null'')
      | Some l \<Rightarrow>
          if measurements l = [] then Inr False
          else Inr (list_all (\<lambda>m. withinTolerance (toFloat (snd m)) (toFloat expectedSize))
                      (measurements l)))"

definition verifyFontSize :: "layer option \<Rightarrow> jsval \<Rightarrow> error + bool" where
  "verifyFontSize layer expectedSize =
     (case verifyFontSize_try layer expectedSize of
        Inl e \<Rightarrow> Inr False
      | Inr b \<Rightarrow> Inr b)"

datatype font_event =
    DomAssign
  | BatchPlayTextStyle
  | BatchPlayProperty
  | Wait nat
  | RelayWrite "string list"

fun join :: "string \<Rightarrow> string list \<Rightarrow> string" where
  "join sep [] = []"
| "join sep [x] = x"
| "join sep (x # y # ys) = x @ sep @ join sep (y # ys)"

definition fontUpdate :: nat where
  "fontUpdate = 500"

text \<open>
  The object \<open>updateFontSize\<close> sends to the relay; its \<open>message\<close> and \<open>timestamp\<close>
  fields (formatted text of the same values, and the clock) are left out.
\<close>

definition fontSizeEvent :: "layer \<Rightarrow> jsnum \<Rightarrow> string list \<Rightarrow> json" where
  "fontSizeEvent l sz methods =
     JObject [(''command'', JString ''sendLog''),
              (''metrics'', JObject [(''layer'', JString (layer_name l)),
                                     (''targetSize'', JNumber sz),
                                     (''verified'', JBool True),
                                     (''methodsUsed'', JArray (map JString methods))])]"

text \<open>
  The body of the \<open>try\<close> of \<open>updateFontSize\<close>. Each strategy block pushes its name and
  sets \<open>updateSuccess\<close> when its host call returns; there is no read-back.
\<close>

definition updateFontSize_try ::
  "layer option \<Rightarrow> string \<Rightarrow> (error + bool) \<times> font_event list" where
  "updateFontSize_try layer fontSize =
     (case layer of
        None \<Rightarrow> (Inl (PluginError ''Invalid layer object'' ''INVALID_LAYER'' []), [])
      | Some l \<Rightarrow>
          if layer_name l = [] then
            (Inl (PluginError ''Invalid layer object'' ''INVALID_LAYER'' []), [])
          else if isNaN (parseFloat fontSize) then
            (Inl (PluginError ''Invalid font size'' ''INVALID_FONT_SIZE'' []), [])
          else
            let (ok1, methods1, tr1) =
                  (case set_textItem_size l of
                     Inr u \<Rightarrow> (True, [''DOM API''], [DomAssign, Wait fontUpdate])
                   | Inl domError \<Rightarrow> (False, [], [DomAssign]));
                (ok2, methods2, tr2) =
                  (if \<not> ok1 then
                     (case batchPlay_textStyle l of
                        Inr u \<Rightarrow> (True, methods1 @ [''batchPlay textStyle''],
                                  tr1 @ [BatchPlayTextStyle, Wait fontUpdate])
                      | Inl batchError \<Rightarrow> (False, methods1, tr1 @ [BatchPlayTextStyle]))
                   else (ok1, methods1, tr1));
                (ok3, methods3, tr3) =
                  (if \<not> ok2 then
                     (case batchPlay_property l of
                        Inr u \<Rightarrow> (True, methods2 @ [''batchPlay property''],
                                  tr2 @ [BatchPlayProperty, Wait fontUpdate])
                      | Inl altError \<Rightarrow> (False, methods2, tr2 @ [BatchPlayProperty]))
                   else (ok2, methods2, tr2))
            in if \<not> ok3 then
                 (Inl (Error (''Font size change could not be verified after trying multiple methods: ''
                              @ join '', '' methods3)), tr3)
               else
                 (case fst (writeToMCPRelay (fontSize_relay l)
                              (Some (fontSizeEvent l (parseFloat fontSize) methods3))) of
                    Inl relayError \<Rightarrow> (Inl relayError, tr3 @ [RelayWrite methods3])
                  | Inr path \<Rightarrow> (Inr True, tr3 @ [RelayWrite methods3])))"

definition layerNameOf :: "layer option \<Rightarrow> string" where
  "layerNameOf layer = (case layer of None \<Rightarrow> ''undefined'' | Some l \<Rightarrow> layer_name l)"

definition updateFontSize ::
  "layer option \<Rightarrow> string \<Rightarrow> (error + bool) \<times> font_event list" where
  "updateFontSize layer fontSize =
     (case updateFontSize_try layer fontSize of
        (Inl e, tr) \<Rightarrow>
          (Inl (PluginError (''Failed to update font size in layer '' @ layerNameOf layer)
                  ''FONT_SIZE_UPDATE_ERROR'' [e]), tr)
      | (Inr b, tr) \<Rightarrow> (Inr b, tr))"

subsection \<open>Text replacement and \<open>processLayer\<close>\<close>

text \<open>\<open>newText.replace(/\|br\|/g, '\r')\<close>.\<close>

fun replaceBr :: "string \<Rightarrow> string" where
  "replaceBr [] = []"
| "replaceBr (c # cs) =
     (if startsWith (c # cs) ''|br|'' then CHR 0x0D # replaceBr (drop 3 cs)
      else c # replaceBr cs)"

datatype layer_event = SetText string string | Font font_event

definition replaceText :: "layer option \<Rightarrow> string \<Rightarrow> (error + bool) \<times> layer_event list" where
  "replaceText layer newText =
     (let wrap = (\<lambda>e. PluginError (''Failed to replace text in layer '' @ layerNameOf layer)
                         ''TEXT_REPLACE_ERROR'' [e])
      in case layer of
           None \<Rightarrow> (Inl (wrap (PluginError ''Invalid layer object'' ''INVALID_LAYER'' [])), [])
         | Some l \<Rightarrow>
             if layer_name l = [] then
               (Inl (wrap (PluginError ''Invalid layer object'' ''INVALID_LAYER'' [])), [])
             else
               (case replaceText_modal l of
                  Inl e \<Rightarrow> (Inl (wrap e), [SetText (layer_name l) (replaceBr newText)])
                | Inr u \<Rightarrow> (Inr True, [SetText (layer_name l) (replaceBr newText)])))"

text \<open>\<open>rowData[key]\<close>: a missing key reads \<open>undefined\<close>, falsy like the empty string.\<close>

definition field :: "row \<Rightarrow> string \<Rightarrow> string" where
  "field r key = (case map_of r key of None \<Rightarrow> [] | Some v \<Rightarrow> v)"

record layer_update =
  update_layer :: string
  update_text :: bool
  update_fontSize :: bool

definition processLayer_try ::
  "layer option \<Rightarrow> row \<Rightarrow> string \<Rightarrow> (error + layer_update) \<times> layer_event list" where
  "processLayer_try layer rowData layerIndex =
     (if layerNameOf layer = [] \<or> layer = None \<or> layerIndex = [] then
        (Inl (PluginError ''Invalid layer processing parameters'' ''INVALID_LAYER_PARAMS'' []), [])
      else
        let (r1, tr1) =
              (if field rowData (''text'' @ layerIndex) \<noteq> [] then
                 (case replaceText layer (field rowData (''text'' @ layerIndex)) of
                    (Inl textError, tr) \<Rightarrow> (Inl textError, tr)
                  | (Inr b, tr) \<Rightarrow> (Inr True, tr))
               else (Inr False, []))
        in case r1 of
             Inl textError \<Rightarrow> (Inl textError, tr1)
           | Inr textDone \<Rightarrow>
               if field rowData (''fontsize'' @ layerIndex) \<noteq> [] then
                 (case updateFontSize layer (field rowData (''fontsize'' @ layerIndex)) of
                    (Inl fontError, tr) \<Rightarrow> (Inl fontError, tr1 @ map Font tr)
                  | (Inr b, tr) \<Rightarrow>
                      (Inr \<lparr>update_layer = layerNameOf layer, update_text = textDone,
                            update_fontSize = True\<rparr>, tr1 @ map Font tr))
               else
                 (Inr \<lparr>update_layer = layerNameOf layer, update_text = textDone,
                       update_fontSize = False\<rparr>, tr1))"

definition processLayer ::
  "layer option \<Rightarrow> row \<Rightarrow> string \<Rightarrow> (error + layer_update) \<times> layer_event list" where
  "processLayer layer rowData layerIndex =
     (case processLayer_try layer rowData layerIndex of
        (Inl e, tr) \<Rightarrow>
          (Inl (PluginError (''Failed to process layer '' @ layerNameOf layer)
                  ''LAYER_PROCESS_ERROR'' [e]), tr)
      | (Inr u, tr) \<Rightarrow> (Inr u, tr))"

section \<open>Document export adapter: \<open>saveAsPNG\<close>\<close>

record folders =
  baseFolder :: string
  pngFolder :: "entry option"
  pngNativePath :: string

record document =
  doc_id :: nat
  doc_name :: string
  doc_layers :: "layer list"

text \<open>
  The host's answers to the calls of one \<open>saveAsPNG\<close> invocation (the later of the two
  definitions in index.js, with a folder reference).
\<close>

record png_host =
  png_getFolder :: "error + unit"
  png_getEntry :: "error + entry option"
  png_createFile :: "error + entry"
  png_saveAs_png :: "error + unit"
  png_createFile_jpg :: "error + entry"
  png_saveAs_jpg :: "error + unit"
  png_jpg_exists :: "error + bool"
  png_jpg_getMetadata :: "error + nat"
  png_batchPlay_save :: "error + unit"
  png_exists :: "error + bool"
  png_getMetadata :: "error + nat"
  png_write :: "error + unit"

text \<open>
  The trace of one call: \<open>Method n\<close> is the log line \<open>Method n: ...\<close> written when the
  \<open>try\<close> block of method \<open>n\<close> is entered (method 4 writes the diagnostic file).
\<close>

datatype png_event =
    CreateFile string
  | Method nat
  | WriteDiagnostic "string list"

definition fileNameOf :: "string \<Rightarrow> string" where
  "fileNameOf outputPath =
     (case rev (split CHR ''/'' outputPath) of [] \<Rightarrow> [] | f # fs \<Rightarrow> f)"

text \<open>\<open>s.replace(p, q)\<close> with a string pattern: the first occurrence only.\<close>

fun replaceFirst :: "string \<Rightarrow> string \<Rightarrow> string \<Rightarrow> string" where
  "replaceFirst p q [] = (if p = [] then q else [])"
| "replaceFirst p q (c # cs) =
     (if startsWith (c # cs) p then q @ drop (length p) (c # cs)
      else c # replaceFirst p q cs)"

text \<open>The check after methods 2 and 3: the file exists and is larger than 1000 bytes;
  a throwing check is swallowed.\<close>

definition fileCheck :: "error + bool \<Rightarrow> error + nat \<Rightarrow> bool" where
  "fileCheck ex md =
     (case ex of
        Inl e \<Rightarrow> False
      | Inr fileExists \<Rightarrow>
          if fileExists then (case md of Inl e \<Rightarrow> False | Inr bytes \<Rightarrow> 1000 < bytes)
          else False)"

text \<open>Method 3 and, when it throws, the diagnostic file (method 4). \<open>None\<close> is the
  fall-through at the end of the function, which returns \<open>undefined\<close>.\<close>

definition saveMethod3 ::
  "png_host \<Rightarrow> error \<Rightarrow> error \<Rightarrow> (error + bool option) \<times> png_event list" where
  "saveMethod3 h domError jpegError =
     (case png_batchPlay_save h of
        Inr u \<Rightarrow>
          (if fileCheck (png_exists h) (png_getMetadata h) then (Inr (Some True), [Method 3])
           else (Inr None, [Method 3]))
      | Inl batchPlayError \<Rightarrow>
          (let report = [message domError, message jpegError, message batchPlayError]
           in case png_write h of
                Inl e \<Rightarrow> (Inl e, [Method 3, Method 4, WriteDiagnostic report])
              | Inr u \<Rightarrow> (Inr (Some False), [Method 3, Method 4, WriteDiagnostic report])))"

definition saveMethod2 ::
  "png_host \<Rightarrow> string \<Rightarrow> error \<Rightarrow> (error + bool option) \<times> png_event list" where
  "saveMethod2 h fileName domError =
     (let jpegFileName = replaceFirst ''.png'' ''.jpg'' fileName in
      case png_createFile_jpg h of
        Inl jpegError \<Rightarrow>
          (case saveMethod3 h domError jpegError of
             (r, tr) \<Rightarrow> (r, Method 2 # CreateFile jpegFileName # tr))
      | Inr jpegFile \<Rightarrow>
          (case png_saveAs_jpg h of
             Inl jpegError \<Rightarrow>
               (case saveMethod3 h domError jpegError of
                  (r, tr) \<Rightarrow> (r, Method 2 # CreateFile jpegFileName # tr))
           | Inr u \<Rightarrow>
               (if fileCheck (png_jpg_exists h) (png_jpg_getMetadata h)
                then (Inr (Some True), [Method 2, CreateFile jpegFileName])
                else (Inr None, [Method 2, CreateFile jpegFileName]))))"

definition saveAsPNG_try ::
  "png_host \<Rightarrow> document option \<Rightarrow> string \<Rightarrow> folders option \<Rightarrow>
     (error + bool option) \<times> png_event list" where
  "saveAsPNG_try h doc outputPath folderRef =
     (case doc of
        None \<Rightarrow> (Inl (Error ''No active document available''), [])
      | Some d \<Rightarrow>
          (let fileName = fileNameOf outputPath;
              textPngFolder =
                (case (case folderRef of None \<Rightarrow> None | Some f \<Rightarrow> pngFolder f) of
                   Some e \<Rightarrow> Inr e
                 | None \<Rightarrow>
                     (case png_getFolder h of
                        Inl e \<Rightarrow> Inl e
                      | Inr u \<Rightarrow>
                          (case png_getEntry h of
                             Inl e \<Rightarrow> Inl e
                           | Inr None \<Rightarrow> Inl (Error ''Text_PNG folder not found'')
                           | Inr (Some e) \<Rightarrow> Inr e)))
          in case textPngFolder of
               Inl e \<Rightarrow> (Inl e, [])
             | Inr folder \<Rightarrow>
                 (case png_createFile h of
                    Inl e \<Rightarrow> (Inl e, [CreateFile fileName])
                  | Inr outputFile \<Rightarrow>
                      (case png_saveAs_png h of
                         Inr u \<Rightarrow> (Inr (Some True), [CreateFile fileName, Method 1])
                       | Inl domError \<Rightarrow>
                           (case saveMethod2 h fileName domError of
                              (r, tr) \<Rightarrow> (r, CreateFile fileName # Method 1 # tr))))))"

definition saveAsPNG ::
  "png_host \<Rightarrow> document option \<Rightarrow> string \<Rightarrow> folders option \<Rightarrow>
     (error + bool option) \<times> png_event list" where
  "saveAsPNG h doc outputPath folderRef =
     (case saveAsPNG_try h doc outputPath folderRef of
        (Inl e, tr) \<Rightarrow> (Inr (Some False), tr)
      | (Inr b, tr) \<Rightarrow> (Inr b, tr))"

subsection \<open>The earlier definition of \<open>saveAsPNG\<close> (three batchPlay shapes)\<close>

record png_host_v1 =
  v1_getTemporaryFolder :: "error + unit"
  v1_getEntryWithUrl :: "error + entry option"
  v1_dir_createFile :: "error + entry"
  v1_temp_createFile :: "error + entry"
  v1_createSessionToken :: "error + string"
  v1_exportDocument :: "error + json"
  v1_save_path :: "error + json"
  v1_getTemporaryFolder2 :: "error + unit"
  v1_temp_createFile2 :: "error + entry"
  v1_createSessionToken2 :: "error + string"
  v1_save_token :: "error + json"

datatype export_strategy = ExportDocument | SaveToPath | SaveToTempFile

definition v1_outputFile :: "png_host_v1 \<Rightarrow> error + entry" where
  "v1_outputFile h =
     (case (case v1_getEntryWithUrl h of
              Inl e \<Rightarrow> Inl e
            | Inr None \<Rightarrow> Inl (Error ''Invalid output directory'')
            | Inr (Some outputDirEntry) \<Rightarrow>
                if \<not> isFolder outputDirEntry then Inl (Error ''Invalid output directory'')
                else v1_dir_createFile h) of
        Inr outputFile \<Rightarrow> Inr outputFile
      | Inl dirError \<Rightarrow> v1_temp_createFile h)"

definition v1_strategy1 :: "png_host_v1 \<Rightarrow> document option \<Rightarrow> error + json" where
  "v1_strategy1 h doc =
     (case v1_getTemporaryFolder h of
        Inl e \<Rightarrow> Inl e
      | Inr u \<Rightarrow>
          (case v1_outputFile h of
             Inl e \<Rightarrow> Inl e
           | Inr outputFile \<Rightarrow>
               (case v1_createSessionToken h of
                  Inl e \<Rightarrow> Inl e
                | Inr sessionToken \<Rightarrow>
                    (case doc of
                       None \<Rightarrow> Inl (Error ''Cannot read properties of null'')
                     | Some d \<Rightarrow> v1_exportDocument h))))"

definition v1_strategy3 :: "png_host_v1 \<Rightarrow> error + json" where
  "v1_strategy3 h =
     (case v1_getTemporaryFolder2 h of
        Inl e \<Rightarrow> Inl e
      | Inr u \<Rightarrow>
          (case v1_temp_createFile2 h of
             Inl e \<Rightarrow> Inl e
           | Inr tempFile \<Rightarrow>
               (case v1_createSessionToken2 h of
                  Inl e \<Rightarrow> Inl e
                | Inr saveToken \<Rightarrow> v1_save_token h)))"

definition saveAsPNG_v1 ::
  "png_host_v1 \<Rightarrow> document option \<Rightarrow> string \<Rightarrow> (error + json) \<times> export_strategy list" where
  "saveAsPNG_v1 h doc outputPath =
     (case v1_strategy1 h doc of
        Inr result \<Rightarrow> (Inr result, [ExportDocument])
      | Inl error \<Rightarrow>
          (case v1_save_path h of
             Inr fallbackResult \<Rightarrow> (Inr fallbackResult, [ExportDocument, SaveToPath])
           | Inl fallbackError \<Rightarrow>
               (case v1_strategy3 h of
                  Inr lastResult \<Rightarrow> (Inr lastResult, [ExportDocument, SaveToPath, SaveToTempFile])
                | Inl lastError \<Rightarrow>
                    (Inl (PluginError ''Failed to save PNG (all methods failed)'' ''PNG_SAVE_ERROR''
                            [error, fallbackError, lastError]),
                     [ExportDocument, SaveToPath, SaveToTempFile]))))"

section \<open>Folder provisioning: \<open>setupTextOutputFolders\<close>\<close>

text \<open>
  The output folder as the storage API presents it: its path, its entries by name, and
  whether the host lets the plugin create entries in it. \<open>getEntry\<close> throws when no
  entry has the name; \<open>createEntry\<close> (called without \<open>overwrite\<close>) throws when the name
  is taken or the folder is not writable, and otherwise adds a folder entry.
\<close>

record folder_store =
  store_path :: string
  store_entries :: "(string \<times> entry) list"
  store_writable :: bool

datatype storage_call = GetEntry string | CreateEntry string

definition getEntry :: "folder_store \<Rightarrow> string \<Rightarrow> error + entry" where
  "getEntry s name =
     (case map_of (store_entries s) name of
        None \<Rightarrow> Inl (Error ''Could not find an entry'')
      | Some e \<Rightarrow> Inr e)"

definition createEntry :: "folder_store \<Rightarrow> string \<Rightarrow> (error + entry) \<times> folder_store" where
  "createEntry s name =
     (if map_of (store_entries s) name \<noteq> None then (Inl (Error ''Entry already exists''), s)
      else if \<not> store_writable s then (Inl (Error ''Permission denied''), s)
      else
        let e = \<lparr>isFolder = True, isEntry = True, nativePath = store_path s @ ''/'' @ name\<rparr>
        in (Inr e, s\<lparr>store_entries := store_entries s @ [(name, e)]\<rparr>))"

definition slashes :: "string \<Rightarrow> string" where
  "slashes p = map (\<lambda>c. if c = CHR 0x5C then CHR ''/'' else c) p"

text \<open>The block that finds or creates \<open>Text_PNG\<close>, with its own \<open>catch\<close>.\<close>

definition pngFolderBlock ::
  "folder_store \<Rightarrow> (error + entry) \<times> folder_store \<times> storage_call list" where
  "pngFolderBlock s =
     (let wrap = (\<lambda>e. PluginError ''Failed to create Text_PNG folder'' ''FOLDER_CREATE_ERROR'' [e]);
          (found, s1, calls) =
            (case getEntry s ''Text_PNG'' of
               Inr e \<Rightarrow>
                 if isFolder e then (Inr e, s, [GetEntry ''Text_PNG''])
                 else (case createEntry s ''Text_PNG'' of
                         (r, s') \<Rightarrow> (r, s', [GetEntry ''Text_PNG'', CreateEntry ''Text_PNG'']))
             | Inl notFoundError \<Rightarrow>
                 (case createEntry s ''Text_PNG'' of
                    (r, s') \<Rightarrow> (r, s', [GetEntry ''Text_PNG'', CreateEntry ''Text_PNG''])))
      in case found of
           Inl e \<Rightarrow> (Inl (wrap e), s1, calls)
         | Inr e \<Rightarrow>
             if \<not> isFolder e then
               (Inl (wrap (PluginError ''Failed to create PNG folder'' ''FOLDER_CREATE_ERROR'' [])),
                s1, calls)
             else (Inr e, s1, calls))"

definition setupTextOutputFolders_try ::
  "folder_store option \<Rightarrow> (error + folders) \<times> folder_store option \<times> storage_call list" where
  "setupTextOutputFolders_try outputFolder =
     (case outputFolder of
        None \<Rightarrow> (Inl (PluginError ''Output folder not selected'' ''FOLDER_NOT_SELECTED'' []), None, [])
      | Some s \<Rightarrow>
          (case pngFolderBlock s of
             (Inl e, s1, calls) \<Rightarrow> (Inl e, Some s1, calls)
           | (Inr png, s1, calls) \<Rightarrow>
               if \<not> isEntry png then
                 (Inl (PluginError ''Failed to verify folder access'' ''FOLDER_VERIFY_ERROR''
                         [PluginError ''Could not verify PNG folder access'' ''FOLDER_ACCESS_ERROR'' []]),
                  Some s1, calls)
               else
                 (Inr \<lparr>baseFolder = store_path s, pngFolder = Some png,
                       pngNativePath = slashes (nativePath png)\<rparr>, Some s1, calls)))"

definition setupTextOutputFolders ::
  "folder_store option \<Rightarrow> (error + folders) \<times> folder_store option \<times> storage_call list" where
  "setupTextOutputFolders outputFolder =
     (case setupTextOutputFolders_try outputFolder of
        (Inl e, s, calls) \<Rightarrow>
          (Inl (PluginError ''Failed to setup output folders'' ''FOLDER_SETUP_ERROR'' [e]), s, calls)
      | (Inr f, s, calls) \<Rightarrow> (Inr f, s, calls))"

section \<open>Row pipeline: \<open>processTextRow\<close>\<close>

record row_host =
  activeDocument :: "document option"
  save_host :: png_host
  row_relay :: relay_host

datatype row_error =
    LayerError string string "string option"
  | PngSaveError string string
  | SaveError string

record row_result =
  success :: bool
  processed :: nat
  errors :: "row_error list"
  filesSaved_png :: bool

datatype row_event = OnLayer string layer_event | Png png_event | Relay json | Log string

definition isTextLayer :: "layer \<Rightarrow> bool" where
  "isTextLayer l \<longleftrightarrow> layer_kind l = KindName ''text'' \<or> layer_kind l = KindCode 3"

text \<open>\<open>layer.name.match(/\d+/)?.[0]\<close>: the first run of digits, empty when there is none.\<close>

definition layerIndexOf :: "string \<Rightarrow> string" where
  "layerIndexOf name = takeWhile isDigit (dropWhile (\<lambda>c. \<not> isDigit c) name)"

definition textLayersOf :: "document \<Rightarrow> layer list" where
  "textLayersOf doc =
     filter (\<lambda>l. isTextLayer l \<and> layerIndexOf (layer_name l) \<noteq> []) (doc_layers doc)"

text \<open>The loop over the text layers: a layer whose \<open>processLayer\<close> throws is recorded in
  \<open>errors\<close> and the loop continues.\<close>

fun layerLoop ::
  "row \<Rightarrow> layer list \<Rightarrow> layer_update list \<times> row_error list \<times> row_event list \<Rightarrow>
     layer_update list \<times> row_error list \<times> row_event list" where
  "layerLoop r [] acc = acc"
| "layerLoop r (l # ls) (layerUpdates, errs, tr) =
     (let layerIndex = layerIndexOf (layer_name l) in
      if field r (''text'' @ layerIndex) \<noteq> [] \<or> field r (''fontsize'' @ layerIndex) \<noteq> [] then
        (case processLayer (Some l) r layerIndex of
           (Inr result, ev) \<Rightarrow>
             layerLoop r ls (layerUpdates @ [result], errs,
                             tr @ map (OnLayer (layer_name l)) ev)
         | (Inl layerError, ev) \<Rightarrow>
             layerLoop r ls (layerUpdates,
                             errs @ [LayerError (layer_name l) (message layerError) (code layerError)],
                             tr @ map (OnLayer (layer_name l)) ev))
      else layerLoop r ls (layerUpdates, errs, tr))"

definition isAlnum :: "char \<Rightarrow> bool" where
  "isAlnum c \<longleftrightarrow>
     c \<in> set ''abcdefghijklmnopqrstuvwxyzABCDEFGHIJKLMNOPQRSTUVWXYZ0123456789''"

definition baseFileNameOf :: "row \<Rightarrow> string" where
  "baseFileNameOf r =
     (let text1Content = (if field r ''text1'' \<noteq> [] then field r ''text1'' else ''default'');
          text2Content = field r ''text2''
      in map (\<lambda>c. if isAlnum c then c else CHR ''_'') (text1Content @ ''_'' @ text2Content))"

definition successEvent :: "bool \<Rightarrow> string \<Rightarrow> json" where
  "successEvent pngSaved pngPath =
     JObject [(''status'', JString ''success''),
              (''files'', JObject [(''png'', if pngSaved then JString pngPath else JNull)])]"

text \<open>
  The save step of a row, run when at least one layer was updated. It returns the errors
  to append, the flag \<open>filesSaved.png\<close> and the events. The relay write at its end sits
  in its own \<open>try\<close>/\<open>catch\<close>, which only logs.
\<close>

definition saveStep ::
  "row_host \<Rightarrow> document \<Rightarrow> row \<Rightarrow> folders option \<Rightarrow> row_error list \<times> bool \<times> row_event list" where
  "saveStep h doc r fs =
     (case (case fs of None \<Rightarrow> None
            | Some f \<Rightarrow> (case pngFolder f of None \<Rightarrow> None | Some e \<Rightarrow> Some (f, e))) of
        None \<Rightarrow> ([SaveError ''Invalid folder structure for saving''], False, [])
      | Some (f, png) \<Rightarrow>
          let pngNative = (if pngNativePath f \<noteq> [] then pngNativePath f else nativePath png);
              pngPath = slashes pngNative @ ''/'' @ baseFileNameOf r @ ''.png'';
              (saved, ev) = saveAsPNG (save_host h) (Some doc) pngPath fs;
              (errs, pngSaved) =
                (case saved of
                   Inl pngError \<Rightarrow> ([PngSaveError (message pngError) pngPath], False)
                 | Inr pngSaveResult \<Rightarrow> ([], True));
              relayTr =
                (case fst (writeToMCPRelay (row_relay h) (Some (successEvent pngSaved pngPath))) of
                   Inl mcpError \<Rightarrow>
                     [Relay (successEvent pngSaved pngPath),
                      Log (''[DEBUG] MCP relay write failed: '' @ message mcpError)]
                 | Inr path \<Rightarrow> [Relay (successEvent pngSaved pngPath)])
          in (errs, pngSaved, map Png ev @ relayTr))"

definition processTextRow ::
  "row_host \<Rightarrow> row \<Rightarrow> nat \<Rightarrow> nat \<Rightarrow> folders option \<Rightarrow> (error + row_result) \<times> row_event list" where
  "processTextRow h r index totalRows fs =
     (case activeDocument h of
        None \<Rightarrow> (Inl (PluginError ''No active document found'' ''NO_ACTIVE_DOC'' []), [])
      | Some doc \<Rightarrow>
          if textLayersOf doc = [] then
            (Inl (PluginError ''No text layers found in document'' ''NO_TEXT_LAYERS'' []), [])
          else
            let (layerUpdates, errs, tr) = layerLoop r (textLayersOf doc) ([], [], []);
                (saveErrs, png, saveTr) =
                  (if layerUpdates \<noteq> [] then saveStep h doc r fs else ([], False, []))
            in (Inr \<lparr>success = (layerUpdates \<noteq> []), processed = length layerUpdates,
                      errors = errs @ saveErrs, filesSaved_png = png\<rparr>, tr @ saveTr))"

section \<open>Progress and control state\<close>

text \<open>
  \<open>textReplaceState\<close> and the module-level flag \<open>stopProcessingRequested\<close>. The output
  folder is held with the directory it denotes; the timing fields are left out.
\<close>

record plugin_state =
  isProcessing :: bool
  currentOperation :: "string option"
  csvLoaded :: bool
  totalRows :: nat
  processedRows :: nat
  csvData :: "row list option"
  outputFolder :: "folder_store option"
  stopProcessingRequested :: bool

definition shouldStopProcessing :: "plugin_state \<Rightarrow> bool" where
  "shouldStopProcessing st = stopProcessingRequested st"

definition requestStopProcessing :: "plugin_state \<Rightarrow> plugin_state" where
  "requestStopProcessing st = st\<lparr>stopProcessingRequested := True\<rparr>"

definition resetStopProcessing :: "plugin_state \<Rightarrow> plugin_state" where
  "resetStopProcessing st = st\<lparr>stopProcessingRequested := False\<rparr>"

section \<open>\<open>loadTextCSV\<close>\<close>

definition csvLoadedEvent :: "string list \<Rightarrow> row list \<Rightarrow> json" where
  "csvLoadedEvent headers data =
     JObject [(''command'', JString ''sendLog''),
              (''metrics'', JObject
                 [(''rowCount'', JNumber (Num (real (length data)))),
                  (''textColumns'', JNumber (Num (real (length (textColumns headers))))),
                  (''fontSizeColumns'', JNumber (Num (real (length (fontSizeColumns headers)))))])]"

text \<open>The body of the \<open>try\<close>: \<open>file_read\<close> is what \<open>file.read()\<close> answers.\<close>

definition loadTextCSV_try ::
  "error + string \<Rightarrow> relay_host \<Rightarrow> plugin_state \<Rightarrow> (error + row list) \<times> plugin_state" where
  "loadTextCSV_try file_read relay st =
     (case file_read of
        Inl e \<Rightarrow> (Inl e, st)
      | Inr fileContent \<Rightarrow>
          (let lines = split CHR 0x0A fileContent;
               headers = headersOf fileContent
           in if textColumns headers = [] then
               (Inl (PluginError ''No text columns found in CSV'' ''INVALID_CSV_FORMAT'' []), st)
             else
               let data = parseLines headers (tl lines) [] in
               if data = [] then
                 (Inl (PluginError ''No valid data rows found in CSV'' ''EMPTY_CSV_DATA'' []), st)
               else
                 (let st1 = st\<lparr>csvData := Some data, csvLoaded := True, totalRows := length data\<rparr>
                  in case fst (writeToMCPRelay relay (Some (csvLoadedEvent headers data))) of
                       Inl e \<Rightarrow> (Inl e, st1)
                     | Inr path \<Rightarrow> (Inr data, st1))))"

definition loadTextCSV ::
  "error + string \<Rightarrow> relay_host \<Rightarrow> plugin_state \<Rightarrow> (error + row list) \<times> plugin_state" where
  "loadTextCSV file_read relay st =
     (case loadTextCSV_try file_read relay st of
        (Inl e, st1) \<Rightarrow>
          (Inl (PluginError ''Failed to load CSV file'' ''CSV_LOAD_ERROR'' [e]),
           st1\<lparr>csvLoaded := False\<rparr>)
      | (Inr data, st1) \<Rightarrow> (Inr data, st1))"

section \<open>Batch controller: \<open>processTextReplacement\<close> and \<open>processCSV\<close>\<close>

text \<open>
  What the host and the operator do during one batch run: the checked process type, the
  active document when the run starts, for every row index the host's answers while that
  row is processed, whether the operator presses the stop button during folder setup or
  while row \<open>i\<close> is in flight, and the host's answers for the relay write at the end.
\<close>

record run_host =
  processType :: "string option"
  run_activeDocument :: "document option"
  stopDuringSetup :: bool
  row_hosts :: "nat \<Rightarrow> row_host"
  stopDuringRow :: "nat \<Rightarrow> bool"
  completion_relay :: relay_host

datatype run_event =
    StopObserved nat
  | ProcessedRow nat "error + row_result"
  | RunLog string

definition clicks :: "bool \<Rightarrow> plugin_state \<Rightarrow> plugin_state" where
  "clicks pressed st = (if pressed then requestStopProcessing st else st)"

text \<open>The \<open>for\<close> loop of the all-rows branch, from index \<open>i\<close>. A throwing
  \<open>processTextRow\<close> leaves the loop and the function.\<close>

function rowLoop ::
  "run_host \<Rightarrow> row list \<Rightarrow> folders \<Rightarrow> nat \<Rightarrow> plugin_state \<Rightarrow>
     (error + unit) \<times> plugin_state \<times> run_event list" where
  "rowLoop h csv fs i st =
     (if i < length csv then
        if shouldStopProcessing st then (Inr (), st, [StopObserved i])
        else
          (case fst (processTextRow (row_hosts h i) (csv ! i) i (length csv) (Some fs)) of
             Inl e \<Rightarrow> (Inl e, clicks (stopDuringRow h i) st, [ProcessedRow i (Inl e)])
           | Inr result \<Rightarrow>
               (case rowLoop h csv fs (i + 1)
                       ((clicks (stopDuringRow h i) st)\<lparr>processedRows := i + 1\<rparr>) of
                  (res, st', tr) \<Rightarrow> (res, st', ProcessedRow i (Inr result) # tr)))
      else (Inr (), st, []))"
  by pat_completeness auto
termination
  by (relation "measure (\<lambda>(h, csv, fs, i, st). length csv - i)") auto

declare rowLoop.simps [simp del]

definition currentRow ::
  "run_host \<Rightarrow> row list \<Rightarrow> folders \<Rightarrow> plugin_state \<Rightarrow>
     (error + unit) \<times> plugin_state \<times> run_event list" where
  "currentRow h csv fs st =
     (let currentRowIndex = processedRows st in
      if currentRowIndex < length csv then
        (case fst (processTextRow (row_hosts h currentRowIndex) (csv ! currentRowIndex)
                     currentRowIndex (length csv) (Some fs)) of
           Inl e \<Rightarrow> (Inl e, clicks (stopDuringRow h currentRowIndex) st,
                     [ProcessedRow currentRowIndex (Inl e)])
         | Inr result \<Rightarrow>
             (Inr (), (clicks (stopDuringRow h currentRowIndex) st)
                        \<lparr>processedRows := currentRowIndex + 1\<rparr>,
              [ProcessedRow currentRowIndex (Inr result)]))
      else (Inr (), st, []))"

definition completedEvent :: "string \<Rightarrow> plugin_state \<Rightarrow> json" where
  "completedEvent pt st =
     JObject [(''command'', JString ''sendLog''),
              (''metrics'', JObject
                 [(''processType'', JString pt),
                  (''totalRows'', JNumber (Num (real (length (case csvData st of None \<Rightarrow> [] | Some d \<Rightarrow> d))))),
                  (''processedRows'', JNumber (Num (real (processedRows st))))])]"

text \<open>The outer \<open>try\<close> of \<open>processTextReplacement\<close>, for the process type \<open>pt\<close>.\<close>

definition processTextReplacement_try ::
  "run_host \<Rightarrow> string \<Rightarrow> plugin_state \<Rightarrow> (error + unit) \<times> plugin_state \<times> run_event list" where
  "processTextReplacement_try h pt st =
     (case csvData st of
        None \<Rightarrow> (Inl (PluginError ''No CSV data available'' ''CSV_NOT_LOADED'' []), st, [])
      | Some csv \<Rightarrow>
          if csv = [] then
            (Inl (PluginError ''No CSV data available'' ''CSV_NOT_LOADED'' []), st, [])
          else if outputFolder st = None then
            (Inl (PluginError ''Output folder not selected'' ''FOLDER_NOT_SELECTED'' []), st, [])
          else if run_activeDocument h = None then
            (Inl (PluginError ''No active document found'' ''NO_DOCUMENT'' []), st, [])
          else
            (let st1 = st\<lparr>isProcessing := True, currentOperation := Some ''text_replacement''\<rparr>;
                 (setup, store, calls) = setupTextOutputFolders (outputFolder st1);
                 st2 = clicks (stopDuringSetup h) (st1\<lparr>outputFolder := store\<rparr>)
             in case setup of
                 Inl folderError \<Rightarrow>
                   (Inl (PluginError ''Failed to setup output folders'' ''FOLDER_SETUP_FAILED''
                           [folderError]), st2, [])
               | Inr fs \<Rightarrow>
                   (case (if pt = ''current'' then currentRow h csv fs st2
                          else rowLoop h csv fs (processedRows st2) st2) of
                      (Inl e, st3, tr) \<Rightarrow> (Inl e, st3, tr)
                    | (Inr u, st3, tr) \<Rightarrow>
                        (let st4 = resetStopProcessing st3 in
                         case fst (writeToMCPRelay (completion_relay h)
                                     (Some (completedEvent pt st4))) of
                           Inl e \<Rightarrow> (Inl e, st4, tr)
                         | Inr path \<Rightarrow> (Inr (), st4, tr)))))"

text \<open>
  \<open>processTextReplacement\<close>: the stop flag is reset on entry; with no process type
  checked the function returns at once; otherwise the \<open>finally\<close> block resets the flag
  again and clears \<open>isProcessing\<close>, and an error of the \<open>try\<close> is rethrown.
\<close>

definition processTextReplacement ::
  "run_host \<Rightarrow> plugin_state \<Rightarrow> (error + unit) \<times> plugin_state \<times> run_event list" where
  "processTextReplacement h st0 =
     (let st = resetStopProcessing st0 in
      case processType h of
        None \<Rightarrow> (Inr (), st, [])
      | Some pt \<Rightarrow>
          (case processTextReplacement_try h pt st of
             (res, st', tr) \<Rightarrow> (res, (resetStopProcessing st')\<lparr>isProcessing := False\<rparr>, tr)))"

subsection \<open>\<open>processCSV\<close>\<close>

record csv_summary =
  summary_success :: bool
  summary_processed :: nat
  summary_total :: nat
  summary_errors :: nat
  summary_stopped :: bool
  summary_savedFiles :: nat
  summary_results :: "(error + row_result) list"

record csv_counters =
  processedCount :: nat
  errorCount :: nat
  savedFileCount :: nat
  results :: "(error + row_result) list"

definition countRow :: "csv_counters \<Rightarrow> row_result \<Rightarrow> csv_counters" where
  "countRow c result =
     c\<lparr>processedCount := (if success result then processedCount c + 1 else processedCount c),
       savedFileCount := (if success result \<and> filesSaved_png result
                          then savedFileCount c + 1 else savedFileCount c),
       errorCount := errorCount c + length (errors result),
       results := results c @ [Inr result]\<rparr>"

definition countRowError :: "csv_counters \<Rightarrow> error \<Rightarrow> csv_counters" where
  "countRowError c rowError =
     c\<lparr>errorCount := errorCount c + 1, results := results c @ [Inl rowError]\<rparr>"

text \<open>The \<open>for\<close> loop of \<open>processCSV\<close>: each row sits in its own \<open>try\<close>/\<open>catch\<close>, and
  the \<open>catch\<close> counts the error and continues with the next row.\<close>

function csvLoop ::
  "run_host \<Rightarrow> row list \<Rightarrow> folders \<Rightarrow> nat \<Rightarrow> plugin_state \<Rightarrow> csv_counters \<Rightarrow>
     plugin_state \<times> csv_counters \<times> run_event list" where
  "csvLoop h csv fs i st c =
     (if i < length csv then
        if shouldStopProcessing st then (st, c, [StopObserved i])
        else
          (case fst (processTextRow (row_hosts h i) (csv ! i) (i + 1) (length csv) (Some fs)) of
             Inl rowError \<Rightarrow>
               (case csvLoop h csv fs (i + 1) (clicks (stopDuringRow h i) st)
                       (countRowError c rowError) of
                  (st', c', tr) \<Rightarrow> (st', c', ProcessedRow i (Inl rowError) # tr))
           | Inr result \<Rightarrow>
               (case csvLoop h csv fs (i + 1) (clicks (stopDuringRow h i) st)
                       (countRow c result) of
                  (st', c', tr) \<Rightarrow> (st', c', ProcessedRow i (Inr result) # tr)))
      else (st, c, []))"
  by pat_completeness auto
termination
  by (relation "measure (\<lambda>(h, csv, fs, i, st, c). length csv - i)") auto

declare csvLoop.simps [simp del]

definition finalStatusEvent :: "plugin_state \<Rightarrow> nat \<Rightarrow> csv_counters \<Rightarrow> json" where
  "finalStatusEvent st n c =
     JObject [(''status'', JString (if stopProcessingRequested st then ''stopped'' else ''completed'')),
              (''statistics'', JObject
                 [(''totalRows'', JNumber (Num (real n))),
                  (''processedRows'', JNumber (Num (real (processedCount c)))),
                  (''savedFiles'', JNumber (Num (real (savedFileCount c)))),
                  (''errors'', JNumber (Num (real (errorCount c))))])]"

text \<open>\<open>processCSV\<close>: setup errors and a missing process type are rethrown; the relay
  write of the final status sits in a \<open>try\<close>/\<open>catch\<close> that only logs.\<close>

definition processCSV ::
  "run_host \<Rightarrow> row list \<Rightarrow> plugin_state \<Rightarrow> (error + csv_summary) \<times> plugin_state \<times> run_event list" where
  "processCSV h csv st0 =
     (let st = st0\<lparr>stopProcessingRequested := False\<rparr>;
          (setup, store, calls) = setupTextOutputFolders (outputFolder st);
          st1 = clicks (stopDuringSetup h) (st\<lparr>outputFolder := store\<rparr>)
      in case setup of
           Inl e \<Rightarrow> (Inl e, st1, [])
         | Inr fs \<Rightarrow>
             (case processType h of
                None \<Rightarrow> (Inl (Error ''Cannot read properties of null''), st1, [])
              | Some pt \<Rightarrow>
                  if pt = ''current'' then
                    (Inl (PluginError ''No current row selected'' ''NO_CURRENT_ROW'' []), st1, [])
                  else
                    (case csvLoop h csv fs 0 st1
                            \<lparr>processedCount = 0, errorCount = 0, savedFileCount = 0, results = []\<rparr> of
                       (st2, c, tr) \<Rightarrow>
                         (Inr \<lparr>summary_success = (0 < processedCount c),
                               summary_processed = processedCount c,
                               summary_total = length csv,
                               summary_errors = errorCount c,
                               summary_stopped = stopProcessingRequested st2,
                               summary_savedFiles = savedFileCount c,
                               summary_results = results c\<rparr>, st2,
                          (case fst (writeToMCPRelay (completion_relay h)
                                       (Some (finalStatusEvent st2 (length csv) c))) of
                             Inl mcpError \<Rightarrow>
                               tr @ [RunLog (''[DEBUG] Failed to write final status to MCP relay: ''
                                             @ message mcpError)]
                           | Inr path \<Rightarrow> tr)))))"

section \<open>Notions used to state the properties\<close>

text \<open>
  A data line is malformed when it is not blank and its field count differs from the
  header's; it survives when it is not blank, has the header's field count and holds
  some non-empty value in a column whose name starts with \<open>text\<close>.
\<close>

definition malformed :: "string list \<Rightarrow> string \<Rightarrow> bool" where
  "malformed headers l \<longleftrightarrow> trim l \<noteq> [] \<and> length (valuesOf l) \<noteq> length headers"

definition survives :: "string list \<Rightarrow> string \<Rightarrow> bool" where
  "survives headers l \<longleftrightarrow>
     trim l \<noteq> [] \<and> length (valuesOf l) = length headers \<and> snd (buildRow headers (valuesOf l))"

definition rowOf :: "string list \<Rightarrow> string \<Rightarrow> row" where
  "rowOf headers l = fst (buildRow headers (valuesOf l))"

text \<open>What one column stores under its header, and the store as a map.\<close>

definition cell :: "string \<Rightarrow> string \<Rightarrow> string" where
  "cell header v =
     (if startsWith header ''fontsize'' \<and> v \<noteq> [] \<and> isNaN (parseFloat v) then [] else v)"

definition put :: "(string \<rightharpoonup> string) \<Rightarrow> string \<times> string \<Rightarrow> (string \<rightharpoonup> string)" where
  "put m hv = m(fst hv \<mapsto> cell (fst hv) (snd hv))"

text \<open>The name \<open>updateFontSize\<close> records for the first strategy whose host call returns.\<close>

definition strategyUsed :: "layer \<Rightarrow> string" where
  "strategyUsed l =
     (if \<not> isl (set_textItem_size l) then ''DOM API''
      else if \<not> isl (batchPlay_textStyle l) then ''batchPlay textStyle''
      else ''batchPlay property'')"

text \<open>The methods a trace of \<open>saveAsPNG\<close> entered, in order.\<close>

definition methodsOf :: "png_event list \<Rightarrow> nat list" where
  "methodsOf tr = concat (map (\<lambda>ev. case ev of Method n \<Rightarrow> [n] | _ \<Rightarrow> []) tr)"

text \<open>The state with which the rows of a run are entered, and the rows of a run for a
  process type.\<close>

definition afterSetup :: "run_host \<Rightarrow> plugin_state \<Rightarrow> folder_store option \<Rightarrow> plugin_state" where
  "afterSetup h st store =
     clicks (stopDuringSetup h)
       (st\<lparr>isProcessing := True, currentOperation := Some ''text_replacement'',
           outputFolder := store\<rparr>)"


section \<open>Concrete inputs\<close>

definition folder_entry :: "string \<Rightarrow> entry" where
  "folder_entry p = \<lparr>isFolder = True, isEntry = True, nativePath = p\<rparr>"

definition file_entry :: "string \<Rightarrow> entry" where
  "file_entry p = \<lparr>isFolder = False, isEntry = True, nativePath = p\<rparr>"

text \<open>A relay host where every storage call succeeds, one whose primary write fails, and
  one where both the primary write and the temporary file fail.\<close>

definition relay_ok :: relay_host where
  "relay_ok =
     \<lparr>relay_utf8 = True,
      relay_getTemporaryFolder = Inr (folder_entry ''/tmp''),
      relay_getEntry_mcp = Inr (folder_entry ''/tmp/mcp-relay''),
      relay_createEntry_mcp = Inl (Error ''Entry already exists''),
      relay_getEntry_logs = Inr (folder_entry ''/tmp/mcp-relay/logs''),
      relay_createEntry_logs = Inl (Error ''Entry already exists''),
      relay_getTime = 42,
      relay_stringify = (\<lambda>d. Inr ''{}''),
      relay_createFile = Inr (Some (file_entry ''/tmp/mcp-relay/logs/mcp-out-42.json'')),
      relay_write = Inr (),
      relay_createTemporaryFile = Inr (),
      relay_tempWrite = Inr (),
      relay_moveTo = Inr ()\<rparr>"

definition relay_primary_fails :: relay_host where
  "relay_primary_fails = relay_ok\<lparr>relay_write := Inl (Error ''write failed'')\<rparr>"

definition relay_down :: relay_host where
  "relay_down =
     relay_ok\<lparr>relay_write := Inl (Error ''write failed''),
              relay_createTemporaryFile := Inl (Error ''no temporary file'')\<rparr>"

definition relay_no_temp :: relay_host where
  "relay_no_temp = relay_ok\<lparr>relay_getTemporaryFolder := Inl (Error ''no temporary folder'')\<rparr>"

definition state0 :: plugin_state where
  "state0 =
     \<lparr>isProcessing = False, currentOperation = None, csvLoaded = False, totalRows = 0,
      processedRows = 0, csvData = None, outputFolder = None,
      stopProcessingRequested = False\<rparr>"

definition csv_no_text :: string where
  "csv_no_text = ''name,fontsize1'' @ [CHR 0x0A] @ ''Bob,12''"

definition csv_broken_line :: string where
  "csv_broken_line =
     ''text1,fontsize1'' @ [CHR 0x0A] @ ''hello,12'' @ [CHR 0x0A] @ ''broken'' @ [CHR 0x0A]
       @ ''world,14''"

definition csv_twice_fontsize :: string where
  "csv_twice_fontsize = ''text1,fontsize1,fontsize1'' @ [CHR 0x0A] @ ''hi,abc,12''"

definition csv_bad_fontsize :: string where
  "csv_bad_fontsize = ''text1,fontsize1'' @ [CHR 0x0A] @ ''hi,abc''"

text \<open>A text layer named \<open>text1\<close> on which every host call succeeds and whose font size
  reads 12 on both channels, and variants of it.\<close>

definition layer0 :: layer where
  "layer0 =
     \<lparr>layer_name = ''text1'', layer_id = 7, layer_kind = KindName ''text'',
      read_textItem_size = Inr (JsNumber (Num 12)),
      read_style_size = Inr (JsNumber (Num 12)),
      set_textItem_size = Inr (),
      batchPlay_textStyle = Inr (),
      batchPlay_property = Inr (),
      replaceText_modal = Inr (),
      fontSize_relay = relay_ok\<rparr>"

definition layer_one_channel :: layer where
  "layer_one_channel =
     layer0\<lparr>read_textItem_size := Inr (JsNumber (Num 24)),
            read_style_size := Inl (Error ''style not available'')\<rparr>"

text \<open>The same with the reading 12.4 and with the reading \<open>'1e309'\<close>, and a layer
  neither channel of which can be read.\<close>

definition layer_reads_12_4 :: layer where
  "layer_reads_12_4 = layer_one_channel\<lparr>read_textItem_size := Inr (JsNumber (Num (124 / 10)))\<rparr>"

definition layer_reads_1e309 :: layer where
  "layer_reads_1e309 = layer_one_channel\<lparr>read_textItem_size := Inr (JsString ''1e309'')\<rparr>"

definition layer_no_channel :: layer where
  "layer_no_channel =
     layer_one_channel\<lparr>read_textItem_size := Inl (Error ''textItem not available'')\<rparr>"

text \<open>An output folder without entries, one that holds the folder \<open>Text_PNG\<close>, and one
  where \<open>Text_PNG\<close> is a file.\<close>

definition store_empty :: folder_store where
  "store_empty = \<lparr>store_path = ''/out'', store_entries = [], store_writable = True\<rparr>"

definition store_ready :: folder_store where
  "store_ready =
     \<lparr>store_path = ''/out'',
      store_entries = [(''Text_PNG'', folder_entry ''/out/Text_PNG'')],
      store_writable = True\<rparr>"

definition store_conflict :: folder_store where
  "store_conflict =
     \<lparr>store_path = ''/out'',
      store_entries = [(''Text_PNG'', file_entry ''/out/Text_PNG'')],
      store_writable = True\<rparr>"

definition folders_ready :: folders where
  "folders_ready =
     \<lparr>baseFolder = ''/out'', pngFolder = Some (folder_entry ''/out/Text_PNG''),
      pngNativePath = ''/out/Text_PNG''\<rparr>"

text \<open>Hosts for the export adapter: every strategy throws; and, for the later
  \<open>saveAsPNG\<close>, the JPEG is written but too small.\<close>

definition png_all_fail :: png_host where
  "png_all_fail =
     \<lparr>png_getFolder = Inr (),
      png_getEntry = Inr (Some (folder_entry ''/out/Text_PNG'')),
      png_createFile = Inr (file_entry ''/out/Text_PNG/Hello_.png''),
      png_saveAs_png = Inl (Error ''png failed''),
      png_createFile_jpg = Inr (file_entry ''/out/Text_PNG/Hello_.jpg''),
      png_saveAs_jpg = Inl (Error ''jpg failed''),
      png_jpg_exists = Inr False,
      png_jpg_getMetadata = Inr 0,
      png_batchPlay_save = Inl (Error ''batchPlay failed''),
      png_exists = Inr True,
      png_getMetadata = Inr 0,
      png_write = Inr ()\<rparr>"

definition png_ok :: png_host where
  "png_ok = png_all_fail\<lparr>png_saveAs_png := Inr ()\<rparr>"

definition png_v1_all_fail :: png_host_v1 where
  "png_v1_all_fail =
     \<lparr>v1_getTemporaryFolder = Inr (),
      v1_getEntryWithUrl = Inr (Some (folder_entry ''/out/Text_PNG'')),
      v1_dir_createFile = Inr (file_entry ''/out/Text_PNG/Hello_.png''),
      v1_temp_createFile = Inr (file_entry ''/tmp/Hello_.png''),
      v1_createSessionToken = Inr ''token-1'',
      v1_exportDocument = Inl (Error ''export failed''),
      v1_save_path = Inl (Error ''save failed''),
      v1_getTemporaryFolder2 = Inr (),
      v1_temp_createFile2 = Inr (file_entry ''/tmp/Hello_.png''),
      v1_createSessionToken2 = Inr ''token-2'',
      v1_save_token = Inl (Error ''last resort failed'')\<rparr>"

definition doc0 :: document where
  "doc0 = \<lparr>doc_id = 1, doc_name = ''card.psd'', doc_layers = [layer0]\<rparr>"

text \<open>Layers for the font-size mutation: every strategy throws; only the third
  strategy returns; and the relay is down after a successful first strategy.\<close>

definition layer_all_throw :: layer where
  "layer_all_throw =
     layer0\<lparr>set_textItem_size := Inl (Error ''textItem is read-only''),
            batchPlay_textStyle := Inl (Error ''command not available''),
            batchPlay_property := Inl (Error ''command not available'')\<rparr>"

definition layer_third :: layer where
  "layer_third =
     layer0\<lparr>set_textItem_size := Inl (Error ''textItem is read-only''),
            batchPlay_textStyle := Inl (Error ''command not available'')\<rparr>"

definition layer_relay_down :: layer where
  "layer_relay_down = layer0\<lparr>fontSize_relay := relay_down\<rparr>"

text \<open>Rows, documents and hosts for the row pipeline and the batch controller.\<close>

definition row1 :: row where
  "row1 = [(''text1'', ''Hello''), (''fontsize1'', ''24'')]"

definition row2 :: row where
  "row2 = [(''text1'', ''World''), (''fontsize1'', ''30'')]"

definition doc_relay_down :: document where
  "doc_relay_down = \<lparr>doc_id = 1, doc_name = ''card.psd'', doc_layers = [layer_relay_down]\<rparr>"

definition doc_no_text :: document where
  "doc_no_text = \<lparr>doc_id = 2, doc_name = ''photo.psd'', doc_layers = []\<rparr>"

definition rowhost_ok :: row_host where
  "rowhost_ok = \<lparr>activeDocument = Some doc0, save_host = png_ok, row_relay = relay_ok\<rparr>"

definition rowhost_relay_down :: row_host where
  "rowhost_relay_down =
     \<lparr>activeDocument = Some doc_relay_down, save_host = png_ok, row_relay = relay_ok\<rparr>"

definition rowhost_no_text :: row_host where
  "rowhost_no_text =
     \<lparr>activeDocument = Some doc_no_text, save_host = png_ok, row_relay = relay_ok\<rparr>"

text \<open>A run over all rows in which the document active while row 0 is processed has no
  text layer; and a run in which the operator presses stop while row 0 is in flight.\<close>

definition run_row0_throws :: run_host where
  "run_row0_throws =
     \<lparr>processType = Some ''all'', run_activeDocument = Some doc0, stopDuringSetup = False,
      row_hosts = (\<lambda>i. if i = 0 then rowhost_no_text else rowhost_ok),
      stopDuringRow = (\<lambda>i. False), completion_relay = relay_ok\<rparr>"



definition state_loaded :: plugin_state where
  "state_loaded =
     state0\<lparr>csvData := Some [row1, row2], csvLoaded := True, totalRows := 2,
            outputFolder := Some store_ready\<rparr>"

definition result_ok :: row_result where
  "result_ok = \<lparr>success = True, processed = 1, errors = [], filesSaved_png = True\<rparr>"


definition no_text_layers :: error where
  "no_text_layers = PluginError ''No text layers found in document'' ''NO_TEXT_LAYERS'' []"

section \<open>Unfolding rules for evaluation\<close>

named_theorems model_defs

declare isWhiteSpace_def [model_defs]
declare trim_def [model_defs]
declare startsWith_def [model_defs]
declare isDigit_def [model_defs]
declare digitVal_def [model_defs]
declare digitsVal_def [model_defs]
declare stripSign_def [model_defs]
declare exponentPart_def [model_defs]
declare scale10_def [model_defs]
declare parseFloat_def [model_defs]
declare isNaN_def [model_defs]
declare headersOf_def [model_defs]
declare textColumns_def [model_defs]
declare fontSizeColumns_def [model_defs]
declare valuesOf_def [model_defs]
declare columnStep_def [model_defs]
declare buildRow_def [model_defs]
declare relayFolder_def [model_defs]
declare jsonString_def [model_defs]
declare standardWrite_def [model_defs]
declare fallbackWrite_def [model_defs]
declare bothFailed_def [model_defs]
declare mcpWriteError_def [model_defs]
declare writeAttempts_def [model_defs]
declare writeToMCPRelay_def [model_defs]
declare folder_entry_def [model_defs]
declare file_entry_def [model_defs]
declare relay_ok_def [model_defs]
declare relay_primary_fails_def [model_defs]
declare relay_down_def [model_defs]
declare relay_no_temp_def [model_defs]
declare state0_def [model_defs]
declare loadTextCSV_try_def [model_defs]
declare loadTextCSV_def [model_defs]
declare csvLoadedEvent_def [model_defs]
declare layer0_def [model_defs]
declare layer_one_channel_def [model_defs]
declare layer_reads_12_4_def [model_defs]
declare layer_no_channel_def [model_defs]
declare layer_reads_1e309_def [model_defs]
declare toFloat_def [model_defs]
declare withinTolerance_def [model_defs]
declare measurements_def [model_defs]
declare verifyFontSize_try_def [model_defs]
declare verifyFontSize_def [model_defs]
declare store_empty_def [model_defs]
declare store_ready_def [model_defs]
declare store_conflict_def [model_defs]
declare folders_ready_def [model_defs]
declare getEntry_def [model_defs]
declare createEntry_def [model_defs]
declare slashes_def [model_defs]
declare pngFolderBlock_def [model_defs]
declare setupTextOutputFolders_try_def [model_defs]
declare setupTextOutputFolders_def [model_defs]
declare png_all_fail_def [model_defs]
declare png_ok_def [model_defs]
declare png_v1_all_fail_def [model_defs]
declare doc0_def [model_defs]
declare fileNameOf_def [model_defs]
declare fileCheck_def [model_defs]
declare saveMethod3_def [model_defs]
declare saveMethod2_def [model_defs]
declare saveAsPNG_try_def [model_defs]
declare saveAsPNG_def [model_defs]
declare v1_outputFile_def [model_defs]
declare v1_strategy1_def [model_defs]
declare v1_strategy3_def [model_defs]
declare saveAsPNG_v1_def [model_defs]
declare methodsOf_def [model_defs]
declare layer_all_throw_def [model_defs]
declare layer_third_def [model_defs]
declare layer_relay_down_def [model_defs]
declare fontUpdate_def [model_defs]
declare fontSizeEvent_def [model_defs]
declare layerNameOf_def [model_defs]
declare updateFontSize_try_def [model_defs]
declare updateFontSize_def [model_defs]
declare row1_def [model_defs]
declare row2_def [model_defs]
declare doc_relay_down_def [model_defs]
declare doc_no_text_def [model_defs]
declare rowhost_ok_def [model_defs]
declare rowhost_relay_down_def [model_defs]
declare rowhost_no_text_def [model_defs]
declare run_row0_throws_def [model_defs]
declare state_loaded_def [model_defs]
declare result_ok_def [model_defs]
declare replaceText_def [model_defs]
declare field_def [model_defs]
declare processLayer_try_def [model_defs]
declare processLayer_def [model_defs]
declare isTextLayer_def [model_defs]
declare layerIndexOf_def [model_defs]
declare textLayersOf_def [model_defs]
declare isAlnum_def [model_defs]
declare baseFileNameOf_def [model_defs]
declare successEvent_def [model_defs]
declare saveStep_def [model_defs]
declare processTextRow_def [model_defs]
declare shouldStopProcessing_def [model_defs]
declare requestStopProcessing_def [model_defs]
declare resetStopProcessing_def [model_defs]
declare clicks_def [model_defs]
declare completedEvent_def [model_defs]
declare processTextReplacement_try_def [model_defs]
declare processTextReplacement_def [model_defs]
declare countRow_def [model_defs]
declare countRowError_def [model_defs]
declare processCSV_def [model_defs]
declare finalStatusEvent_def [model_defs]
declare no_text_layers_def [model_defs]

section \<open>Rounding to doubles\<close>

lemma ilog2_bounds:
  assumes "0 < a"
  shows "2 powi (ilog2 a) \<le> a" and "a < 2 powi (ilog2 a + 1)"
proof -
  have "2 powi (ilog2 a) \<le> a \<and> a < 2 powi (ilog2 a + 1)"
  proof (cases "1 \<le> a")
    case True
    define n where "n = \<lfloor>a\<rfloor>"
    have n: "0 < n" using True by (simp add: n_def)
    have k: "1 \<le> bitlen n" using n bitlen_eq_zero_iff [of n] bitlen_nonneg [of n] by linarith
    from bitlen_bounds [OF n] have b: "2 ^ nat (bitlen n - 1) \<le> n" "n < 2 ^ nat (bitlen n)"
      by simp_all
    have "real_of_int (2 ^ nat (bitlen n - 1)) \<le> real_of_int n" using b(1) by linarith
    also have "\<dots> \<le> a" by (simp add: n_def)
    finally have lo: "2 powi (bitlen n - 1) \<le> a" using k by (simp add: power_int_def)
    have "n + 1 \<le> 2 ^ nat (bitlen n)" using b(2) by simp
    then have "real_of_int (n + 1) \<le> real_of_int (2 ^ nat (bitlen n))" by linarith
    moreover have "a < real_of_int (n + 1)" by (simp add: n_def)
    ultimately have hi: "a < 2 powi (bitlen n)" using k by (simp add: power_int_def)
    from lo hi True show ?thesis by (simp add: ilog2_def n_def)
  next
    case False
    define n where "n = \<lceil>1 / a\<rceil> - 1"
    have inv: "1 < 1 / a" using False assms by simp
    have n: "0 < n" using inv by (simp add: n_def less_ceiling_iff)
    have k: "1 \<le> bitlen n" using n bitlen_eq_zero_iff [of n] bitlen_nonneg [of n] by linarith
    from bitlen_bounds [OF n] have b: "2 ^ nat (bitlen n - 1) \<le> n" "n < 2 ^ nat (bitlen n)"
      by simp_all
    have nlt: "real_of_int n < 1 / a" by (simp add: n_def) linarith
    have nge: "1 / a \<le> real_of_int (n + 1)" by (simp add: n_def)
    have "n + 1 \<le> 2 ^ nat (bitlen n)" using b(2) by simp
    then have "real_of_int (n + 1) \<le> real_of_int (2 ^ nat (bitlen n))" by linarith
    with nge have "1 / a \<le> 2 ^ nat (bitlen n)" by simp
    then have "1 \<le> a * 2 ^ nat (bitlen n)" using assms by (simp add: field_simps)
    then have lo: "2 powi (- bitlen n) \<le> a"
      using k by (simp add: power_int_def field_simps)
    have "(2::real) ^ nat (bitlen n - 1) \<le> real_of_int n"
      using b(1) of_int_le_iff [of "2 ^ nat (bitlen n - 1)" n, where ?'a = real] by simp
    with nlt have "2 ^ nat (bitlen n - 1) < 1 / a" by linarith
    then have "a * 2 ^ nat (bitlen n - 1) < 1" using assms by (simp add: field_simps)
    then have "a < 1 / 2 ^ nat (bitlen n - 1)" by (simp add: field_simps)
    moreover have "- bitlen n + 1 = - int (nat (bitlen n - 1))" using k by simp
    ultimately have hi: "a < 2 powi (- bitlen n + 1)"
      by (simp only: power_int_minus power_int_of_nat inverse_eq_divide)
    from lo hi False show ?thesis by (simp add: ilog2_def n_def)
  qed
  then show "2 powi (ilog2 a) \<le> a" and "a < 2 powi (ilog2 a + 1)" by simp_all
qed

lemma roundHalfEven_bounds:
  "z - 1 / 2 \<le> real_of_int (roundHalfEven z)" "real_of_int (roundHalfEven z) \<le> z + 1 / 2"
  by (simp_all add: roundHalfEven_def Let_def) linarith+

lemma roundHalfEven_of_int: "roundHalfEven (of_int n) = n"
  by (simp add: roundHalfEven_def)


lemma pow2_less_imp: "(2::real) powi i < 2 powi j \<Longrightarrow> i < j"
  using power_int_increasing [of j i "2::real"] by (cases "i < j") auto

lemma ilog2_unique:
  assumes "2 powi k \<le> a" and "a < 2 powi (k + 1)"
  shows "ilog2 a = k"
proof -
  have pos: "0 < a" using assms(1) zero_less_power_int [of "2::real" k] by linarith
  from ilog2_bounds [OF pos] assms
  have "(2::real) powi k < 2 powi (ilog2 a + 1)" "(2::real) powi (ilog2 a) < 2 powi (k + 1)"
    by linarith+
  then have "k < ilog2 a + 1" "ilog2 a < k + 1" by (auto dest: pow2_less_imp)
  then show ?thesis by simp
qed

lemma nearest_tolerance:
  assumes "1 / 10 \<le> a"
  shows "7205759403792794 / 2 ^ 56 \<le> nearest a"
proof -
  have pos: "0 < a" using assms by simp
  note b = ilog2_bounds [OF pos]
  have "(2::real) powi (- 4) \<le> 1 / 10" by simp
  with assms b(2) have "(2::real) powi (- 4) < 2 powi (ilog2 a + 1)" by linarith
  then have L: "- 4 \<le> ilog2 a" using pow2_less_imp [of "- 4" "ilog2 a + 1"] by simp
  define e where "e = ilog2 a - 52"
  have e: "max (ilog2 a - 52) (- 1074) = e" using L by (simp add: e_def)
  define m where "m = roundHalfEven (a / 2 powi e)"
  have near: "nearest a = of_int m * 2 powi e"
    by (simp add: nearest_def e m_def)
  have mlow: "a / 2 powi e - 1 / 2 \<le> of_int m"
    unfolding m_def by (rule roundHalfEven_bounds)
  show ?thesis
  proof (cases "e = - 56")
    case True
    have "a / 2 powi e = a * 2 ^ 56" by (simp add: True)
    with mlow assms have "7205759403792793 < real_of_int m" by simp
    then have "7205759403792794 \<le> m" by linarith
    then have "7205759403792794 \<le> real_of_int m" by linarith
    then show ?thesis by (simp add: near True field_simps)
  next
    case False
    with L have e55: "- 55 \<le> e" by (simp add: e_def)
    have "2 powi 52 * 2 powi e = (2::real) powi (ilog2 a)"
      by (simp add: e_def power_int_add [symmetric] del: power_int_numeral)
    with b(1) have "2 powi 52 * 2 powi e \<le> a" by simp
    then have "(2::real) powi 52 \<le> a / 2 powi e" by (simp add: field_simps)
    with mlow have "2 ^ 52 - 1 / 2 \<le> real_of_int m" by simp
    then have "4503599627370495 < real_of_int m" by simp
    then have "4503599627370496 \<le> m" by linarith
    then have "4503599627370496 \<le> real_of_int m" by linarith
    then have m52: "2 ^ 52 \<le> real_of_int m" by simp
    have "(2::real) powi (- 55) \<le> 2 powi e" using e55 by (intro power_int_increasing) simp_all
    then have "1 / 2 ^ 55 \<le> (2::real) powi e" by simp
    then have "2 ^ 52 * (1 / 2 ^ 55) \<le> real_of_int m * 2 powi e"
      using m52 by (intro mult_mono) simp_all
    then show ?thesis by (simp add: near)
  qed
qed


lemma pow2_add_53: "(2::real) powi (e + 53) = 2 ^ 53 * 2 powi e"
  by (subst power_int_add) simp_all

lemma pow2_add_52: "(2::real) powi (e + 52) = 2 ^ 52 * 2 powi e"
  by (subst power_int_add) simp_all

lemma pow2_add_1: "(2::real) powi (e + 1) = 2 * 2 powi e"
  by (subst power_int_add) simp_all

lemma nearest_0: "nearest 0 = 0"
  by (simp add: nearest_def roundHalfEven_def)

lemma nearest_scaled:
  assumes "max (ilog2 w - 52) (- 1074) = e'" and "w = of_int n * 2 powi e'"
  shows "nearest w = w"
proof -
  have "w / 2 powi e' = of_int n" using assms(2) by simp
  then show ?thesis
    by (simp add: nearest_def assms(1) roundHalfEven_of_int Let_def del: max.absorb1 max.absorb2 max.absorb3 max.absorb4) (simp add: assms(2))
qed

lemma nearest_idem:
  assumes "0 \<le> a"
  shows "nearest (nearest a) = nearest a"
proof (cases "a = 0")
  case True
  then show ?thesis by (simp add: nearest_0)
next
  case False
  with assms have pos: "0 < a" by simp
  note b = ilog2_bounds [OF pos]
  define e where "e = max (ilog2 a - 52) (- 1074)"
  define m where "m = roundHalfEven (a / 2 powi e)"
  define w where "w = real_of_int m * 2 powi e"
  have near: "nearest a = w" by (simp add: nearest_def e_def m_def w_def Let_def)
  have p: "0 < (2::real) powi e" by simp
  have zpos: "0 < a / 2 powi e" using pos p by simp
  have mlow: "a / 2 powi e - 1 / 2 \<le> of_int m"
    and mup: "of_int m \<le> a / 2 powi e + 1 / 2"
    unfolding m_def by (rule roundHalfEven_bounds)+
  from mlow zpos have "- 1 < real_of_int m" by linarith
  then have m0: "0 \<le> m" by linarith
  have "a < 2 powi (ilog2 a + 1)" by (rule b(2))
  also have "(2::real) powi (ilog2 a + 1) \<le> 2 powi (e + 53)"
    by (intro power_int_increasing) (simp_all add: e_def)
  also have "\<dots> = 2 ^ 53 * 2 powi e"
    by (rule pow2_add_53)
  finally have "a / 2 powi e < 2 ^ 53" using p by (simp add: field_simps)
  with mup have "real_of_int m < 9007199254740993" by simp
  then have m53: "m \<le> 2 ^ 53" by simp
  show ?thesis
  proof (cases "m = 0")
    case True
    then show ?thesis by (simp add: near w_def nearest_0)
  next
    case mne: False
    with m0 have m1: "1 \<le> m" by simp
    have wpos: "0 < w" using m1 p by (simp add: w_def)
    show ?thesis
    proof (cases "m = 2 ^ 53")
      case True
      have w: "w = 2 powi (e + 53)"
        by (simp add: w_def True pow2_add_53)
      have "(2::real) powi (e + 53) < 2 powi (e + 53 + 1)"
        by (intro power_int_strict_increasing) simp_all
      then have il: "ilog2 w = e + 53"
        by (intro ilog2_unique) (simp_all add: w)
      have e1074: "- 1074 \<le> e" by (simp add: e_def)
      have e': "max (ilog2 w - 52) (- 1074) = e + 1" using e1074 by (simp add: il)
      have "w = of_int (2 ^ 52) * 2 powi (e + 1)"
        by (simp add: w pow2_add_53 pow2_add_1)
      from nearest_scaled [OF e' this] show ?thesis by (simp add: near)
    next
      case False
      with m53 have mlt: "m < 2 ^ 53" by simp
      then have "real_of_int m < 2 ^ 53"
        using of_int_less_iff [of m "2 ^ 53", where ?'a = real] by simp
      then have "w < 2 ^ 53 * 2 powi e" using p by (simp add: w_def)
      also have "\<dots> = 2 powi (e + 53)"
        by (simp add: pow2_add_53)
      finally have wup: "w < 2 powi (e + 53)" .
      have il_le: "ilog2 w \<le> e + 52"
      proof -
        from ilog2_bounds(1) [OF wpos] wup have "(2::real) powi (ilog2 w) < 2 powi (e + 53)"
          by linarith
        then show ?thesis using pow2_less_imp [of "ilog2 w" "e + 53"] by simp
      qed
      show ?thesis
      proof (cases "e = - 1074")
        case True
        have e': "max (ilog2 w - 52) (- 1074) = e" using il_le True by simp
        from nearest_scaled [OF e'] show ?thesis by (simp add: near w_def)
      next
        case enorm: False
        then have el: "e = ilog2 a - 52" by (simp add: e_def max_def split: if_splits)
        have "2 powi 52 * 2 powi e = (2::real) powi (ilog2 a)"
          by (simp add: el power_int_add [symmetric] del: power_int_numeral)
        with b(1) have "2 powi 52 * 2 powi e \<le> a" by simp
        then have "(2::real) powi 52 \<le> a / 2 powi e" using p by (simp add: field_simps)
        with mlow have "4503599627370495 < real_of_int m" by simp
        then have "4503599627370496 \<le> m" by linarith
        then have "4503599627370496 \<le> real_of_int m" by linarith
        then have "2 ^ 52 * 2 powi e \<le> w" using p by (simp add: w_def)
        moreover have "2 ^ 52 * 2 powi e = (2::real) powi (e + 52)"
          by (simp add: pow2_add_52)
        ultimately have "(2::real) powi (e + 52) \<le> w" by simp
        moreover have "w < 2 powi (e + 52 + 1)" using wup by (simp add: add.commute)
        ultimately have "ilog2 w = e + 52" by (rule ilog2_unique)
        then have e': "max (ilog2 w - 52) (- 1074) = e" using enorm by (simp add: e_def)
        from nearest_scaled [OF e'] show ?thesis by (simp add: near w_def)
      qed
    qed
  qed
qed

lemma nearest_nonneg: "0 \<le> a \<Longrightarrow> 0 \<le> nearest a"
proof -
  assume a: "0 \<le> a"
  define e where "e = max (ilog2 a - 52) (- 1074)"
  have "0 \<le> a / 2 powi e" using a by simp
  with roundHalfEven_bounds(1) [of "a / 2 powi e"]
  have "- 1 < real_of_int (roundHalfEven (a / 2 powi e))" by linarith
  then have "0 \<le> roundHalfEven (a / 2 powi e)" by linarith
  then show ?thesis by (simp add: nearest_def e_def Let_def)
qed

lemma nearest_normal:
  assumes "0 < a" and "- 1022 \<le> ilog2 a"
  shows "2 powi (ilog2 a) \<le> nearest a"
proof -
  note b = ilog2_bounds [OF assms(1)]
  define e where "e = ilog2 a - 52"
  have e: "max (ilog2 a - 52) (- 1074) = e" using assms(2) by (simp add: e_def)
  define m where "m = roundHalfEven (a / 2 powi e)"
  have near: "nearest a = of_int m * 2 powi e"
    by (simp add: nearest_def e m_def)
  have mlow: "a / 2 powi e - 1 / 2 \<le> of_int m"
    unfolding m_def by (rule roundHalfEven_bounds)
  have il: "ilog2 a = e + 52" by (simp add: e_def)
  from b(1) have "2 ^ 52 * 2 powi e \<le> a" by (simp add: il pow2_add_52)
  then have "(2::real) ^ 52 \<le> a / 2 powi e" by (simp add: field_simps)
  with mlow have "4503599627370495 < real_of_int m" by simp
  then have "4503599627370496 \<le> m" by linarith
  then have "4503599627370496 \<le> real_of_int m" by linarith
  then have "2 ^ 52 * 2 powi e \<le> real_of_int m * 2 powi e" by simp
  then show ?thesis by (simp add: near il pow2_add_52)
qed

text \<open>A real from \<open>2 ^ 1024\<close> on rounds to the positive infinity.\<close>

lemma roundToDouble_overflow:
  assumes "2 ^ 1024 \<le> x"
  shows "roundToDouble x = Infinity True"
proof -
  have pos: "0 < x" using assms by (rule less_le_trans [rotated]) simp
  have "(2::real) powi 1024 \<le> x" using assms by simp
  with ilog2_bounds(2) [OF pos] have "(2::real) powi 1024 < 2 powi (ilog2 x + 1)" by linarith
  then have L: "1024 \<le> ilog2 x" using pow2_less_imp [of 1024 "ilog2 x + 1"] by simp
  then have "(2::real) powi 1024 \<le> 2 powi (ilog2 x)" by (intro power_int_increasing) simp_all
  also have "\<dots> \<le> nearest x" using pos L by (intro nearest_normal) simp_all
  finally have "2 ^ 1024 \<le> nearest x" by simp
  then show ?thesis using pos by (simp add: roundToDouble_def Let_def)
qed

text \<open>Rounding leaves the value of a double as it is.\<close>

lemma roundToDouble_idem:
  assumes "roundToDouble x = Num v"
  shows "roundToDouble v = Num v"
proof -
  define w where "w = nearest \<bar>x\<bar>"
  have w0: "0 \<le> w" unfolding w_def by (rule nearest_nonneg) simp
  from assms have fin: "\<not> 2 ^ 1024 \<le> w" and v: "v = (if x < 0 then - w else w)"
    by (simp_all add: roundToDouble_def w_def Let_def split: if_splits)
  have idem: "nearest w = w" unfolding w_def by (rule nearest_idem) simp
  show ?thesis
  proof (cases "v < 0")
    case True
    then have "v = - w" "0 < w" using w0 by (simp_all add: v split: if_splits)
    then show ?thesis using fin by (simp add: roundToDouble_def idem Let_def)
  next
    case False
    then have "v = w" using w0 by (simp add: v split: if_splits)
    then show ?thesis using w0 fin by (simp add: roundToDouble_def idem Let_def)
  qed
qed

text \<open>
  A difference that rounds below the tolerance is below one tenth: the tolerance is the
  double next above \<open>1 / 10\<close>, and no real from \<open>1 / 10\<close> on rounds below it.
\<close>

lemma roundToDouble_below_tolerance:
  assumes "roundToDouble r = Num v" and "\<bar>v\<bar> < 7205759403792794 / 2 ^ 56"
  shows "\<bar>r\<bar> < 1 / 10"
proof (rule ccontr)
  assume "\<not> \<bar>r\<bar> < 1 / 10"
  then have "1 / 10 \<le> \<bar>r\<bar>" by simp
  then have t: "7205759403792794 / 2 ^ 56 \<le> nearest \<bar>r\<bar>" by (rule nearest_tolerance)
  from assms(1) have "\<bar>v\<bar> = \<bar>nearest \<bar>r\<bar>\<bar>"
    by (simp add: roundToDouble_def Let_def split: if_splits)
  with t assms(2) show False by linarith
qed

subsection \<open>Evaluation\<close>

lemma bitlen_Bit0: "bitlen (numeral (Num.Bit0 n)) = bitlen (numeral n) + 1"
  by (subst compute_bitlen) simp

lemma bitlen_Bit1: "bitlen (numeral (Num.Bit1 n)) = bitlen (numeral n) + 1"
  by (subst compute_bitlen) simp

lemma bitlen_One: "bitlen 1 = 1"
  by (subst compute_bitlen) simp

lemmas double_defs =
  roundToDouble_def nearest_def ilog2_def roundHalfEven_def Let_def
  bitlen_Bit0 bitlen_Bit1 bitlen_One

lemma tolerance_value: "tolerance = Num (7205759403792794 / 2 ^ 56)"
  by (simp add: tolerance_def double_defs)

lemma roundToDouble_12: "roundToDouble 12 = Num 12"
  by (simp add: double_defs)

lemma roundToDouble_24: "roundToDouble 24 = Num 24"
  by (simp add: double_defs)

lemma roundToDouble_0: "roundToDouble 0 = Num 0"
  by (simp add: double_defs)

lemma roundToDouble_not_NaN [simp]: "roundToDouble x \<noteq> NaN" "NaN \<noteq> roundToDouble x"
  by (simp_all add: roundToDouble_def Let_def)

subsection \<open>Events sent to the relay\<close>

lemma truthy_csvLoadedEvent [simp]: "truthy (csvLoadedEvent headers data)"
  by (simp add: csvLoadedEvent_def)

lemma truthy_fontSizeEvent [simp]: "truthy (fontSizeEvent l sz methods)"
  by (simp add: fontSizeEvent_def)

lemma truthy_successEvent [simp]: "truthy (successEvent pngSaved pngPath)"
  by (simp add: successEvent_def)

lemma truthy_completedEvent [simp]: "truthy (completedEvent pt st)"
  by (simp add: completedEvent_def)

lemma truthy_finalStatusEvent [simp]: "truthy (finalStatusEvent st n c)"
  by (simp add: finalStatusEvent_def)

section \<open>CSV loader\<close>

lemma split_nonempty: "split c s \<noteq> []"
  by (induction s) (auto split: list.splits)

lemma parseLines_filter:
  "parseLines hs ls data = data @ map (rowOf hs) (filter (survives hs) ls)"
  by (induction ls arbitrary: data) (auto simp: survives_def rowOf_def split: prod.splits)

lemma survives_not_malformed: "survives hs l \<Longrightarrow> \<not> malformed hs l"
  by (simp add: survives_def malformed_def)

lemma filter_survives_wellformed:
  "filter (survives hs) (filter (\<lambda>l. \<not> malformed hs l) ls) = filter (survives hs) ls"
  by (induction ls) (auto dest: survives_not_malformed)

lemma loadTextCSV_Inr:
  assumes "fst (loadTextCSV (Inr fileContent) relay st) = Inr data"
  shows "data = parseLines (headersOf fileContent) (tl (split CHR 0x0A fileContent)) []"
  using assms
  by (auto simp: loadTextCSV_def loadTextCSV_try_def Let_def split: if_splits sum.splits prod.splits)

lemma relay_ok_writes:
  "truthy d \<Longrightarrow>
     fst (writeToMCPRelay relay_ok (Some d)) = Inr ''/tmp/mcp-relay/logs/mcp-out-42.json''"
  by (simp add: model_defs)

text \<open>
  C5. When no header column starts with \<open>text\<close>, \<open>loadTextCSV\<close> returns no rows: it
  raises \<open>CSV_LOAD_ERROR\<close>, whose cause is the \<open>INVALID_CSV_FORMAT\<close> error
  "No text columns found in CSV", whatever the data lines and the relay are.
\<close>

theorem loadTextCSV_no_text_column:
  assumes "textColumns (headersOf fileContent) = []"
  shows "fst (loadTextCSV (Inr fileContent) relay st) =
           Inl (PluginError ''Failed to load CSV file'' ''CSV_LOAD_ERROR''
                  [PluginError ''No text columns found in CSV'' ''INVALID_CSV_FORMAT'' []])"
  using assms by (simp add: loadTextCSV_def loadTextCSV_try_def Let_def)

lemma csv_no_text_headers: "headersOf csv_no_text = [''name'', ''fontsize1'']"
  by (simp add: csv_no_text_def headersOf_def trim_def isWhiteSpace_def)

theorem loadTextCSV_no_text_column_witness:
  "textColumns (headersOf csv_no_text) = [] \<and>
   fst (loadTextCSV (Inr csv_no_text) relay_ok state0) =
     Inl (PluginError ''Failed to load CSV file'' ''CSV_LOAD_ERROR''
            [PluginError ''No text columns found in CSV'' ''INVALID_CSV_FORMAT'' []])"
proof -
  have h: "textColumns (headersOf csv_no_text) = []"
    by (simp add: csv_no_text_headers textColumns_def startsWith_def)
  from loadTextCSV_no_text_column [OF h, of relay_ok state0] h show ?thesis by simp
qed

text \<open>
  C6. When \<open>loadTextCSV\<close> returns rows, they are the rows of the surviving data lines, in
  the order of the file; a line whose field count differs from the header's never
  survives; and the result is the one obtained from the file with those lines deleted, so
  the rows of the other lines are what they would be without them.
\<close>

theorem loadTextCSV_skips_malformed_lines:
  assumes "fst (loadTextCSV (Inr fileContent) relay st) = Inr data"
  shows "data = map (rowOf (headersOf fileContent))
                  (filter (survives (headersOf fileContent)) (tl (split CHR 0x0A fileContent)))
       \<and> (\<forall>l \<in> set (tl (split CHR 0x0A fileContent)).
             malformed (headersOf fileContent) l \<longrightarrow> \<not> survives (headersOf fileContent) l)
       \<and> data = parseLines (headersOf fileContent)
                  (filter (\<lambda>l. \<not> malformed (headersOf fileContent) l)
                     (tl (split CHR 0x0A fileContent))) []"
proof -
  let ?hs = "headersOf fileContent"
  let ?ls = "tl (split CHR 0x0A fileContent)"
  have d: "data = parseLines ?hs ?ls []" by (rule loadTextCSV_Inr [OF assms])
  have a: "data = map (rowOf ?hs) (filter (survives ?hs) ?ls)"
    by (simp add: d parseLines_filter)
  have b: "\<forall>l \<in> set ?ls. malformed ?hs l \<longrightarrow> \<not> survives ?hs l"
    using survives_not_malformed by blast
  have "parseLines ?hs (filter (\<lambda>l. \<not> malformed ?hs l) ?ls) [] =
          map (rowOf ?hs) (filter (survives ?hs) (filter (\<lambda>l. \<not> malformed ?hs l) ?ls))"
    by (simp only: parseLines_filter append_Nil)
  then have c: "data = parseLines ?hs (filter (\<lambda>l. \<not> malformed ?hs l) ?ls) []"
    by (simp only: a filter_survives_wellformed)
  from a b c show ?thesis by blast
qed

lemma csv_broken_line_headers: "headersOf csv_broken_line = [''text1'', ''fontsize1'']"
  by (simp add: csv_broken_line_def headersOf_def trim_def isWhiteSpace_def)

lemma csv_broken_line_lines:
  "tl (split CHR 0x0A csv_broken_line) = [''hello,12'', ''broken'', ''world,14'']"
  by (simp add: csv_broken_line_def)

lemma csv_broken_line_rows:
  "parseLines [''text1'', ''fontsize1''] [''hello,12'', ''broken'', ''world,14''] [] =
     [[(''text1'', ''hello''), (''fontsize1'', ''12'')],
      [(''text1'', ''world''), (''fontsize1'', ''14'')]]"
  by (simp add: model_defs Let_def)

lemma csv_broken_line_loads:
  "fst (loadTextCSV (Inr csv_broken_line) relay_ok state0) =
     Inr [[(''text1'', ''hello''), (''fontsize1'', ''12'')],
          [(''text1'', ''world''), (''fontsize1'', ''14'')]]"
  by (simp add: loadTextCSV_def loadTextCSV_try_def Let_def csv_broken_line_headers
        csv_broken_line_lines csv_broken_line_rows textColumns_def startsWith_def relay_ok_writes
        del: parseLines.simps)

theorem loadTextCSV_skips_malformed_lines_witness:
  "fst (loadTextCSV (Inr csv_broken_line) relay_ok state0) =
     Inr [[(''text1'', ''hello''), (''fontsize1'', ''12'')],
          [(''text1'', ''world''), (''fontsize1'', ''14'')]]
   \<and> malformed (headersOf csv_broken_line) ''broken''
   \<and> [[(''text1'', ''hello''), (''fontsize1'', ''12'')],
       [(''text1'', ''world''), (''fontsize1'', ''14'')]] =
      map (rowOf (headersOf csv_broken_line))
        (filter (survives (headersOf csv_broken_line)) (tl (split CHR 0x0A csv_broken_line)))"
proof -
  have m: "malformed (headersOf csv_broken_line) ''broken''"
    by (simp add: csv_broken_line_headers malformed_def valuesOf_def trim_def isWhiteSpace_def)
  from loadTextCSV_skips_malformed_lines [OF csv_broken_line_loads] csv_broken_line_loads m
  show ?thesis by blast
qed

subsection \<open>Font-size columns\<close>

lemma columnStep_map:
  "map_of (fst (columnStep acc hv)) = put (map_of (fst acc)) hv"
  by (cases acc; cases hv) (auto simp: columnStep_def cell_def put_def update_conv' Let_def)

lemma columnStep_flag:
  "snd (columnStep acc hv) = (snd acc \<or> (startsWith (fst hv) ''text'' \<and> snd hv \<noteq> []))"
  by (cases acc; cases hv) (simp add: columnStep_def Let_def)

lemma foldl_columnStep_map:
  "map_of (fst (foldl columnStep acc xs)) = foldl put (map_of (fst acc)) xs"
  by (induction xs arbitrary: acc) (simp_all add: columnStep_map)

lemma foldl_columnStep_flag:
  "snd (foldl columnStep acc xs) =
     (snd acc \<or> (\<exists>hv \<in> set xs. startsWith (fst hv) ''text'' \<and> snd hv \<noteq> []))"
  by (induction xs arbitrary: acc) (auto simp: columnStep_flag)

lemma foldl_put_other:
  "k \<notin> fst ` set xs \<Longrightarrow> foldl put m xs k = m k"
  by (induction xs arbitrary: m) (auto simp: put_def)

lemma foldl_put_source:
  "foldl put m xs k = Some v \<Longrightarrow>
     m k = Some v \<or> (\<exists>hv \<in> set xs. fst hv = k \<and> cell k (snd hv) = v)"
proof (induction xs arbitrary: m)
  case Nil
  then show ?case by simp
next
  case (Cons x xs)
  from Cons.prems have "foldl put (put m x) xs k = Some v" by simp
  from Cons.IH [OF this] show ?case
    by (auto simp: put_def split: if_splits)
qed

lemma text_not_fontsize: "startsWith h ''text'' \<Longrightarrow> \<not> startsWith h ''fontsize''"
  by (cases h) (auto simp: startsWith_def)

lemma buildRow_last_column:
  assumes len: "length vs = length hs" and j: "j < length hs"
    and last: "\<forall>k. j < k \<and> k < length hs \<longrightarrow> hs ! k \<noteq> hs ! j"
  shows "map_of (fst (buildRow hs vs)) (hs ! j) = Some (cell (hs ! j) (vs ! j))"
proof -
  let ?xs = "zip hs vs"
  have jz: "j < length ?xs" using len j by simp
  have parts: "?xs = take j ?xs @ (hs ! j, vs ! j) # drop (Suc j) ?xs"
    using id_take_nth_drop [OF jz] len j by simp
  have notin: "hs ! j \<notin> fst ` set (drop (Suc j) ?xs)"
  proof
    assume "hs ! j \<in> fst ` set (drop (Suc j) ?xs)"
    then obtain hv where hv: "hv \<in> set (drop (Suc j) ?xs)" "fst hv = hs ! j" by auto
    then obtain n where n: "n < length (drop (Suc j) ?xs)" "drop (Suc j) ?xs ! n = hv"
      by (auto simp: in_set_conv_nth)
    then have "Suc j + n < length hs" using len by simp
    moreover have "hv = (hs ! (Suc j + n), vs ! (Suc j + n))"
      using n len by simp
    ultimately show False using last hv(2) by auto
  qed
  have "map_of (fst (buildRow hs vs)) (hs ! j) = foldl put Map.empty ?xs (hs ! j)"
    by (simp add: buildRow_def foldl_columnStep_map)
  also have "foldl put Map.empty ?xs =
      foldl put ((foldl put Map.empty (take j ?xs))(hs ! j \<mapsto> cell (hs ! j) (vs ! j)))
        (drop (Suc j) ?xs)"
    by (subst parts) (simp add: put_def)
  also have "\<dots> (hs ! j) = Some (cell (hs ! j) (vs ! j))"
    using foldl_put_other [OF notin] by simp
  finally show ?thesis .
qed

lemma buildRow_content:
  assumes "startsWith h ''text''" and "field (fst (buildRow hs vs)) h \<noteq> []"
  shows "snd (buildRow hs vs)"
proof -
  from assms(2) obtain v where v: "map_of (fst (buildRow hs vs)) h = Some v" "v \<noteq> []"
    by (auto simp: field_def split: option.splits)
  then have "foldl put Map.empty (zip hs vs) h = Some v"
    by (simp add: buildRow_def foldl_columnStep_map)
  from foldl_put_source [OF this] obtain hv where
    hv: "hv \<in> set (zip hs vs)" "fst hv = h" "cell h (snd hv) = v" by auto
  from assms(1) have "cell h (snd hv) = snd hv"
    by (simp add: cell_def text_not_fontsize)
  with hv v(2) assms(1) show ?thesis
    by (auto simp: buildRow_def foldl_columnStep_flag)
qed

lemma csv_twice_fontsize_headers:
  "headersOf csv_twice_fontsize = [''text1'', ''fontsize1'', ''fontsize1'']"
  by (simp add: csv_twice_fontsize_def headersOf_def trim_def isWhiteSpace_def)

lemma csv_twice_fontsize_lines:
  "tl (split CHR 0x0A csv_twice_fontsize) = [''hi,abc,12'']"
  by (simp add: csv_twice_fontsize_def)

lemma csv_twice_fontsize_rows:
  "parseLines [''text1'', ''fontsize1'', ''fontsize1''] [''hi,abc,12''] [] =
     [[(''text1'', ''hi''), (''fontsize1'', ''12'')]]"
  by (simp add: model_defs Let_def)

text \<open>
  C7, as stated, fails when two columns carry the same name: in the file
  \<open>text1,fontsize1,fontsize1 / hi,abc,12\<close> the second column is a font-size column
  holding \<open>abc\<close>, which does not parse as a number, and the row's field \<open>fontsize1\<close> is
  \<open>12\<close>, the value of the later column.
\<close>

theorem fontsize_column_overwritten_counterexample:
  "fst (loadTextCSV (Inr csv_twice_fontsize) relay_ok state0) =
     Inr [[(''text1'', ''hi''), (''fontsize1'', ''12'')]]
   \<and> headersOf csv_twice_fontsize ! 1 = ''fontsize1''
   \<and> startsWith ''fontsize1'' ''fontsize''
   \<and> valuesOf ''hi,abc,12'' ! 1 = ''abc''
   \<and> isNaN (parseFloat ''abc'')
   \<and> field [(''text1'', ''hi''), (''fontsize1'', ''12'')] ''fontsize1'' = ''12''"
proof -
  have "fst (loadTextCSV (Inr csv_twice_fontsize) relay_ok state0) =
          Inr [[(''text1'', ''hi''), (''fontsize1'', ''12'')]]"
    by (simp add: loadTextCSV_def loadTextCSV_try_def Let_def csv_twice_fontsize_headers
          csv_twice_fontsize_lines csv_twice_fontsize_rows textColumns_def startsWith_def
          relay_ok_writes del: parseLines.simps)
  moreover have "valuesOf ''hi,abc,12'' ! 1 = ''abc''"
    by (simp add: valuesOf_def trim_def isWhiteSpace_def)
  moreover have "isNaN (parseFloat ''abc'')"
    by (simp add: model_defs)
  ultimately show ?thesis
    by (simp add: csv_twice_fontsize_headers startsWith_def field_def)
qed

text \<open>
  C7, amended. In a data line with the header's field count, a font-size column whose
  value does not parse as a number, and whose name no later column repeats, leaves the
  row's field of that name empty; and if some field of the row whose name starts with
  \<open>text\<close> is non-empty, the row is in the sequence \<open>loadTextCSV\<close> returns.
\<close>

theorem loadTextCSV_clears_non_numeric_fontsize:
  assumes "fst (loadTextCSV (Inr fileContent) relay st) = Inr data"
    and "l \<in> set (tl (split CHR 0x0A fileContent))"
    and "trim l \<noteq> []"
    and "length (valuesOf l) = length (headersOf fileContent)"
    and "j < length (headersOf fileContent)"
    and "startsWith (headersOf fileContent ! j) ''fontsize''"
    and "isNaN (parseFloat (valuesOf l ! j))"
    and "\<forall>k. j < k \<and> k < length (headersOf fileContent) \<longrightarrow>
             headersOf fileContent ! k \<noteq> headersOf fileContent ! j"
  shows "field (rowOf (headersOf fileContent) l) (headersOf fileContent ! j) = []
       \<and> ((\<exists>h. startsWith h ''text'' \<and> field (rowOf (headersOf fileContent) l) h \<noteq> []) \<longrightarrow>
            rowOf (headersOf fileContent) l \<in> set data)"
proof -
  let ?hs = "headersOf fileContent"
  have "map_of (fst (buildRow ?hs (valuesOf l))) (?hs ! j) = Some (cell (?hs ! j) (valuesOf l ! j))"
    by (rule buildRow_last_column [OF assms(4) assms(5) assms(8)])
  moreover have "cell (?hs ! j) (valuesOf l ! j) = []"
    using assms(6) assms(7) by (simp add: cell_def)
  ultimately have cleared: "field (rowOf ?hs l) (?hs ! j) = []"
    by (simp add: field_def rowOf_def)
  have kept: "rowOf ?hs l \<in> set data"
    if "\<exists>h. startsWith h ''text'' \<and> field (rowOf ?hs l) h \<noteq> []"
  proof -
    from that have "snd (buildRow ?hs (valuesOf l))"
      by (auto simp: rowOf_def intro: buildRow_content)
    with assms(3) assms(4) have "survives ?hs l" by (simp add: survives_def)
    moreover have "data = map (rowOf ?hs) (filter (survives ?hs) (tl (split CHR 0x0A fileContent)))"
      using loadTextCSV_Inr [OF assms(1)] by (simp add: parseLines_filter)
    ultimately show ?thesis using assms(2) by simp
  qed
  from cleared kept show ?thesis by blast
qed

lemma csv_bad_fontsize_headers: "headersOf csv_bad_fontsize = [''text1'', ''fontsize1'']"
  by (simp add: csv_bad_fontsize_def headersOf_def trim_def isWhiteSpace_def)

lemma csv_bad_fontsize_lines:
  "tl (split CHR 0x0A csv_bad_fontsize) = [''hi,abc'']"
  by (simp add: csv_bad_fontsize_def)

lemma csv_bad_fontsize_row:
  "buildRow [''text1'', ''fontsize1''] [''hi'', ''abc''] =
     ([(''text1'', ''hi''), (''fontsize1'', [])], True)"
  by (simp add: model_defs Let_def)

lemma csv_bad_fontsize_rows:
  "parseLines [''text1'', ''fontsize1''] [''hi,abc''] [] =
     [[(''text1'', ''hi''), (''fontsize1'', [])]]"
  by (simp add: model_defs Let_def)

lemma csv_bad_fontsize_loads:
  "fst (loadTextCSV (Inr csv_bad_fontsize) relay_ok state0) =
     Inr [[(''text1'', ''hi''), (''fontsize1'', [])]]"
  by (simp add: loadTextCSV_def loadTextCSV_try_def Let_def csv_bad_fontsize_headers
        csv_bad_fontsize_lines csv_bad_fontsize_rows textColumns_def startsWith_def
        relay_ok_writes del: parseLines.simps)

theorem loadTextCSV_clears_non_numeric_fontsize_witness:
  "fst (loadTextCSV (Inr csv_bad_fontsize) relay_ok state0) =
     Inr [[(''text1'', ''hi''), (''fontsize1'', [])]]
   \<and> valuesOf ''hi,abc'' ! 1 = ''abc''
   \<and> isNaN (parseFloat ''abc'')
   \<and> field (rowOf (headersOf csv_bad_fontsize) ''hi,abc'') ''fontsize1'' = []
   \<and> field (rowOf (headersOf csv_bad_fontsize) ''hi,abc'') ''text1'' = ''hi''
   \<and> rowOf (headersOf csv_bad_fontsize) ''hi,abc'' \<in> set [[(''text1'', ''hi''), (''fontsize1'', [])]]"
proof -
  let ?hs = "headersOf csv_bad_fontsize"
  have vals: "valuesOf ''hi,abc'' = [''hi'', ''abc'']"
    by (simp add: valuesOf_def trim_def isWhiteSpace_def)
  have nan: "isNaN (parseFloat ''abc'')" by (simp add: model_defs)
  have row: "rowOf ?hs ''hi,abc'' = [(''text1'', ''hi''), (''fontsize1'', [])]"
    by (simp add: rowOf_def csv_bad_fontsize_headers vals csv_bad_fontsize_row)
  have h2: "''hi,abc'' \<in> set (tl (split CHR 0x0A csv_bad_fontsize))"
    by (simp add: csv_bad_fontsize_lines)
  have h3: "trim ''hi,abc'' \<noteq> []" by (simp add: trim_def isWhiteSpace_def)
  have h4: "length (valuesOf ''hi,abc'') = length ?hs"
    by (simp add: vals csv_bad_fontsize_headers)
  have h5: "1 < length ?hs" by (simp add: csv_bad_fontsize_headers)
  have h6: "startsWith (?hs ! 1) ''fontsize''"
    by (simp add: csv_bad_fontsize_headers startsWith_def)
  have h7: "isNaN (parseFloat (valuesOf ''hi,abc'' ! 1))" using nan by (simp add: vals)
  have h8: "\<forall>k. 1 < k \<and> k < length ?hs \<longrightarrow> ?hs ! k \<noteq> ?hs ! 1"
    by (simp add: csv_bad_fontsize_headers)
  have content: "\<exists>h. startsWith h ''text'' \<and> field (rowOf ?hs ''hi,abc'') h \<noteq> []"
    by (rule exI [of _ "''text1''"]) (simp add: row field_def startsWith_def)
  from loadTextCSV_clears_non_numeric_fontsize
         [OF csv_bad_fontsize_loads h2 h3 h4 h5 h6 h7 h8] content
  have "field (rowOf ?hs ''hi,abc'') (?hs ! 1) = []
        \<and> rowOf ?hs ''hi,abc'' \<in> set [[(''text1'', ''hi''), (''fontsize1'', [])]]"
    by blast
  then show ?thesis
    using csv_bad_fontsize_loads nan
    by (simp add: vals csv_bad_fontsize_headers row field_def)
qed

section \<open>Font-size verification\<close>

text \<open>
  Two numbers pass the comparison \<open>Math.abs(a - b) < 0.1\<close> only if both are finite and
  their values differ by less than one tenth.
\<close>

lemma withinTolerance_bound:
  assumes "withinTolerance a b"
  shows "\<exists>x y. a = Num x \<and> b = Num y \<and> \<bar>x - y\<bar> < 1 / 10"
proof -
  from assms have l: "less_jsnum (Math_abs (minus_jsnum a b)) (Num (7205759403792794 / 2 ^ 56))"
    by (simp add: withinTolerance_def tolerance_value)
  show ?thesis
  proof (cases a)
    case NaN
    with l show ?thesis by simp
  next
    case (Infinity p)
    with l show ?thesis by (cases b) (simp_all split: if_splits)
  next
    case (Num x)
    show ?thesis
    proof (cases b)
      case NaN
      with l Num show ?thesis by simp
    next
      case (Infinity q)
      with l Num show ?thesis by simp
    next
      case y: (Num y)
      show ?thesis
      proof (cases "roundToDouble (x - y)")
        case NaN
        with l Num y show ?thesis by simp
      next
        case (Infinity p)
        with l Num y show ?thesis by simp
      next
        case v: (Num v)
        with l Num y have "\<bar>v\<bar> < 7205759403792794 / 2 ^ 56" by simp
        from roundToDouble_below_tolerance [OF v this] Num y show ?thesis by simp
      qed
    qed
  qed
qed

lemma verifyFontSize_returns: "\<exists>b. verifyFontSize layer expectedSize = Inr b"
  by (cases layer) (auto simp: verifyFontSize_def verifyFontSize_try_def)

lemma verifyFontSize_true_iff:
  "verifyFontSize layer expectedSize = Inr True \<longleftrightarrow>
     (\<exists>l. layer = Some l \<and> measurements l \<noteq> []
          \<and> (\<forall>m \<in> set (measurements l).
                withinTolerance (toFloat (snd m)) (toFloat expectedSize)))"
  by (cases layer) (auto simp: verifyFontSize_def verifyFontSize_try_def list_all_iff)

lemma verifyFontSize_no_measurement:
  "(\<forall>l. layer = Some l \<longrightarrow> measurements l = []) \<Longrightarrow>
     verifyFontSize layer expectedSize = Inr False"
  by (cases layer) (auto simp: verifyFontSize_def verifyFontSize_try_def)

text \<open>
  C10. \<open>verifyFontSize\<close> always returns a boolean and never an error. It returns true
  exactly when the layer is there, at least one channel gave a measurement, and every
  measurement passes the comparison \<open>Math.abs(parseFloat(m.size) - parseFloat(expectedSize))
  < 0.1\<close> as the doubles compute it; then every measurement and the expected size are
  finite numbers whose values differ by less than one tenth. With no measurement, or no
  layer, it returns false.
\<close>

theorem verifyFontSize_total:
  "(\<exists>b. verifyFontSize layer expectedSize = Inr b)
   \<and> (verifyFontSize layer expectedSize = Inr True \<longleftrightarrow>
        (\<exists>l. layer = Some l \<and> measurements l \<noteq> []
             \<and> (\<forall>m \<in> set (measurements l).
                   withinTolerance (toFloat (snd m)) (toFloat expectedSize))))
   \<and> (verifyFontSize layer expectedSize = Inr True \<longrightarrow>
        (\<forall>l. layer = Some l \<longrightarrow>
           (\<forall>m \<in> set (measurements l).
              \<exists>x y. toFloat (snd m) = Num x \<and> toFloat expectedSize = Num y
                    \<and> \<bar>x - y\<bar> < 1 / 10)))
   \<and> ((\<forall>l. layer = Some l \<longrightarrow> measurements l = []) \<longrightarrow>
        verifyFontSize layer expectedSize = Inr False)"
proof -
  have c: "verifyFontSize layer expectedSize = Inr True \<longrightarrow>
        (\<forall>l. layer = Some l \<longrightarrow>
           (\<forall>m \<in> set (measurements l).
              \<exists>x y. toFloat (snd m) = Num x \<and> toFloat expectedSize = Num y
                    \<and> \<bar>x - y\<bar> < 1 / 10))"
  proof (intro impI allI ballI)
    fix l m
    assume t: "verifyFontSize layer expectedSize = Inr True"
      and l: "layer = Some l" and m: "m \<in> set (measurements l)"
    from t l m have "withinTolerance (toFloat (snd m)) (toFloat expectedSize)"
      by (auto simp: verifyFontSize_true_iff)
    then show "\<exists>x y. toFloat (snd m) = Num x \<and> toFloat expectedSize = Num y
                    \<and> \<bar>x - y\<bar> < 1 / 10"
      by (rule withinTolerance_bound)
  qed
  have d: "(\<forall>l. layer = Some l \<longrightarrow> measurements l = []) \<longrightarrow>
        verifyFontSize layer expectedSize = Inr False"
    using verifyFontSize_no_measurement by blast
  from verifyFontSize_returns [of layer expectedSize]
    verifyFontSize_true_iff [of layer expectedSize] c d
  show ?thesis by (intro conjI)
qed

lemma toFloat_24: "toFloat (JsNumber (Num 24)) = Num 24"
  by (simp add: toFloat_def roundToDouble_24)

lemma toFloat_12: "toFloat (JsNumber (Num 12)) = Num 12"
  by (simp add: toFloat_def roundToDouble_12)

lemma toFloat_24_05: "toFloat (JsString ''24.05'') = Num (6769473189891277 / 2 ^ 48)"
  by (simp add: model_defs double_defs)

lemma toFloat_25: "toFloat (JsString ''25'') = Num 25"
  by (simp add: model_defs double_defs)

lemma toFloat_12_4: "toFloat (JsNumber (Num (124 / 10))) = Num (6980579422424269 / 2 ^ 49)"
  by (simp add: toFloat_def double_defs)

lemma toFloat_12_3: "toFloat (JsString ''12.3'') = Num (6924284427082138 / 2 ^ 49)"
  by (simp add: model_defs double_defs)

lemma toFloat_1e309: "toFloat (JsString ''1e309'') = Infinity True"
  by (simp add: model_defs roundToDouble_overflow)

lemma within_infinite: "\<not> withinTolerance (Infinity True) (Infinity True)"
  by (simp add: withinTolerance_def)

lemma within_24_05: "withinTolerance (Num 24) (Num (6769473189891277 / 2 ^ 48))"
  by (simp add: withinTolerance_def tolerance_value double_defs)

lemma within_25: "\<not> withinTolerance (Num 24) (Num 25)"
  by (simp add: withinTolerance_def tolerance_value double_defs)

lemma within_12_4:
  "withinTolerance (Num (6980579422424269 / 2 ^ 49)) (Num (6924284427082138 / 2 ^ 49))"
  by (simp add: withinTolerance_def tolerance_value double_defs)

lemma measurements_one_channel:
  "measurements layer_one_channel = [(''TextItem'', JsNumber (Num 24))]"
  by (simp add: model_defs)

lemma measurements_reads_12_4:
  "measurements layer_reads_12_4 = [(''TextItem'', JsNumber (Num (124 / 10)))]"
  by (simp add: model_defs)

lemma measurements_reads_1e309:
  "measurements layer_reads_1e309 = [(''TextItem'', JsString ''1e309'')]"
  by (simp add: model_defs)

lemma measurements_no_channel: "measurements layer_no_channel = []"
  by (simp add: model_defs)

theorem verifyFontSize_total_witness:
  "measurements layer_one_channel = [(''TextItem'', JsNumber (Num 24))]
   \<and> verifyFontSize (Some layer_one_channel) (JsString ''24.05'') = Inr True
   \<and> toFloat (JsString ''24.05'') = Num (6769473189891277 / 2 ^ 48)
   \<and> \<bar>24 - 6769473189891277 / 2 ^ 48\<bar> < (1 / 10 :: real)
   \<and> verifyFontSize (Some layer_one_channel) (JsString ''25'') = Inr False
   \<and> measurements layer_reads_12_4 = [(''TextItem'', JsNumber (Num (124 / 10)))]
   \<and> verifyFontSize (Some layer_reads_12_4) (JsString ''12.3'') = Inr True
   \<and> measurements layer_reads_1e309 = [(''TextItem'', JsString ''1e309'')]
   \<and> verifyFontSize (Some layer_reads_1e309) (JsString ''1e309'') = Inr False
   \<and> measurements layer_no_channel = []
   \<and> verifyFontSize (Some layer_no_channel) (JsString ''24'') = Inr False
   \<and> verifyFontSize None (JsString ''24'') = Inr False"
proof -
  note one = verifyFontSize_total [of "Some layer_one_channel" "JsString ''24.05''"]
  have w: "\<forall>m \<in> set (measurements layer_one_channel).
             withinTolerance (toFloat (snd m)) (toFloat (JsString ''24.05''))"
    using within_24_05 by (simp add: measurements_one_channel toFloat_24 toFloat_24_05)
  have a: "verifyFontSize (Some layer_one_channel) (JsString ''24.05'') = Inr True"
    using one [THEN conjunct2, THEN conjunct1] w by (simp add: measurements_one_channel)
  have "\<forall>m \<in> set (measurements layer_one_channel).
          \<exists>x y. toFloat (snd m) = Num x \<and> toFloat (JsString ''24.05'') = Num y
                \<and> \<bar>x - y\<bar> < 1 / 10"
    using one [THEN conjunct2, THEN conjunct2, THEN conjunct1, rule_format, OF a] by blast
  then have bound: "\<bar>24 - 6769473189891277 / 2 ^ 48\<bar> < (1 / 10 :: real)"
    by (simp add: measurements_one_channel toFloat_24 toFloat_24_05)
  have w': "\<not> (\<forall>m \<in> set (measurements layer_one_channel).
             withinTolerance (toFloat (snd m)) (toFloat (JsString ''25'')))"
    using within_25 by (simp add: measurements_one_channel toFloat_24 toFloat_25)
  obtain b where b: "verifyFontSize (Some layer_one_channel) (JsString ''25'') = Inr b"
    using verifyFontSize_total [of "Some layer_one_channel" "JsString ''25''", THEN conjunct1]
    by blast
  have "b = False"
    using verifyFontSize_total [of "Some layer_one_channel" "JsString ''25''",
        THEN conjunct2, THEN conjunct1] w' b
    by (cases b) simp_all
  with b have c: "verifyFontSize (Some layer_one_channel) (JsString ''25'') = Inr False"
    by simp
  have w2: "\<forall>m \<in> set (measurements layer_reads_12_4).
             withinTolerance (toFloat (snd m)) (toFloat (JsString ''12.3''))"
    using within_12_4 toFloat_12_4 by (simp add: measurements_reads_12_4 toFloat_12_3)
  have d: "verifyFontSize (Some layer_reads_12_4) (JsString ''12.3'') = Inr True"
    using verifyFontSize_total [of "Some layer_reads_12_4" "JsString ''12.3''",
        THEN conjunct2, THEN conjunct1] w2
    by (simp add: measurements_reads_12_4)
  have w3: "\<not> (\<forall>m \<in> set (measurements layer_reads_1e309).
             withinTolerance (toFloat (snd m)) (toFloat (JsString ''1e309'')))"
    using within_infinite by (simp add: measurements_reads_1e309 toFloat_1e309)
  obtain b' where b': "verifyFontSize (Some layer_reads_1e309) (JsString ''1e309'') = Inr b'"
    using verifyFontSize_total [of "Some layer_reads_1e309" "JsString ''1e309''", THEN conjunct1]
    by blast
  have "b' = False"
    using verifyFontSize_total [of "Some layer_reads_1e309" "JsString ''1e309''",
        THEN conjunct2, THEN conjunct1] w3 b'
    by (cases b') simp_all
  with b' have d': "verifyFontSize (Some layer_reads_1e309) (JsString ''1e309'') = Inr False"
    by simp
  have e: "verifyFontSize (Some layer_no_channel) (JsString ''24'') = Inr False"
    using verifyFontSize_total [of "Some layer_no_channel" "JsString ''24''",
        THEN conjunct2, THEN conjunct2, THEN conjunct2]
    by (simp add: measurements_no_channel)
  have f: "verifyFontSize None (JsString ''24'') = Inr False"
    using verifyFontSize_total [of None "JsString ''24''",
        THEN conjunct2, THEN conjunct2, THEN conjunct2]
    by simp
  from measurements_one_channel a toFloat_24_05 bound c measurements_reads_12_4 d
    measurements_reads_1e309 d' measurements_no_channel e f
  show ?thesis by (intro conjI)
qed

section \<open>Folder provisioning\<close>

lemma getEntry_after_create:
  assumes "map_of (store_entries s) name = None" and "store_writable s"
  shows "createEntry s name =
           (Inr \<lparr>isFolder = True, isEntry = True, nativePath = store_path s @ ''/'' @ name\<rparr>,
            s\<lparr>store_entries := store_entries s @
                 [(name, \<lparr>isFolder = True, isEntry = True,
                          nativePath = store_path s @ ''/'' @ name\<rparr>)]\<rparr>)"
  using assms by (simp add: createEntry_def Let_def)

lemma setup_found:
  assumes "getEntry s ''Text_PNG'' = Inr e" and "isFolder e" and "isEntry e"
  shows "setupTextOutputFolders (Some s) =
           (Inr \<lparr>baseFolder = store_path s, pngFolder = Some e,
                 pngNativePath = slashes (nativePath e)\<rparr>, Some s, [GetEntry ''Text_PNG''])"
  using assms
  by (simp add: setupTextOutputFolders_def setupTextOutputFolders_try_def pngFolderBlock_def)

lemma setup_conflict:
  assumes "getEntry s ''Text_PNG'' = Inr e" and "\<not> isFolder e"
  shows "setupTextOutputFolders (Some s) =
           (Inl (PluginError ''Failed to setup output folders'' ''FOLDER_SETUP_ERROR''
                   [PluginError ''Failed to create Text_PNG folder'' ''FOLDER_CREATE_ERROR''
                      [Error ''Entry already exists'']]),
            Some s, [GetEntry ''Text_PNG'', CreateEntry ''Text_PNG''])"
  using assms
  by (auto simp: setupTextOutputFolders_def setupTextOutputFolders_try_def pngFolderBlock_def
        getEntry_def createEntry_def split: option.splits)

lemma setup_store_unchanged_on_error:
  assumes "setupTextOutputFolders out = (Inl e, out', calls)"
  shows "out' = out"
  using assms
  by (auto simp: setupTextOutputFolders_def setupTextOutputFolders_try_def pngFolderBlock_def
        getEntry_def createEntry_def Let_def
        split: option.splits sum.splits if_splits prod.splits)

lemma map_of_snoc_new:
  "map_of xs k = None \<Longrightarrow> map_of (xs @ [(k, v)]) k = Some v"
  by (simp add: map_add_def)

lemma setup_success_cases:
  assumes "setupTextOutputFolders out = (Inr f, out', calls)"
  shows "\<exists>s. out = Some s \<and>
           ((\<exists>e. map_of (store_entries s) ''Text_PNG'' = Some e \<and> isFolder e \<and> isEntry e
                 \<and> out' = Some s
                 \<and> f = \<lparr>baseFolder = store_path s, pngFolder = Some e,
                        pngNativePath = slashes (nativePath e)\<rparr>)
            \<or> (map_of (store_entries s) ''Text_PNG'' = None \<and> store_writable s
               \<and> out' = Some (s\<lparr>store_entries := store_entries s @
                    [(''Text_PNG'', \<lparr>isFolder = True, isEntry = True,
                                     nativePath = store_path s @ ''/Text_PNG''\<rparr>)]\<rparr>)
               \<and> f = \<lparr>baseFolder = store_path s,
                      pngFolder = Some \<lparr>isFolder = True, isEntry = True,
                                        nativePath = store_path s @ ''/Text_PNG''\<rparr>,
                      pngNativePath = slashes (store_path s @ ''/Text_PNG'')\<rparr>))"
  using assms
  by (auto simp: setupTextOutputFolders_def setupTextOutputFolders_try_def pngFolderBlock_def
        getEntry_def createEntry_def Let_def
        split: option.splits sum.splits if_splits prod.splits)

lemma setup_success_leaves_folder:
  assumes "setupTextOutputFolders out = (Inr f, out', calls)"
  shows "\<exists>s' e. out' = Some s' \<and> getEntry s' ''Text_PNG'' = Inr e \<and> isFolder e \<and> isEntry e
               \<and> f = \<lparr>baseFolder = store_path s', pngFolder = Some e,
                      pngNativePath = slashes (nativePath e)\<rparr>"
proof -
  from setup_success_cases [OF assms] obtain s where s: "out = Some s"
    and cases: "(\<exists>e. map_of (store_entries s) ''Text_PNG'' = Some e \<and> isFolder e \<and> isEntry e
                 \<and> out' = Some s
                 \<and> f = \<lparr>baseFolder = store_path s, pngFolder = Some e,
                        pngNativePath = slashes (nativePath e)\<rparr>)
            \<or> (map_of (store_entries s) ''Text_PNG'' = None \<and> store_writable s
               \<and> out' = Some (s\<lparr>store_entries := store_entries s @
                    [(''Text_PNG'', \<lparr>isFolder = True, isEntry = True,
                                     nativePath = store_path s @ ''/Text_PNG''\<rparr>)]\<rparr>)
               \<and> f = \<lparr>baseFolder = store_path s,
                      pngFolder = Some \<lparr>isFolder = True, isEntry = True,
                                        nativePath = store_path s @ ''/Text_PNG''\<rparr>,
                      pngNativePath = slashes (store_path s @ ''/Text_PNG'')\<rparr>)"
    by blast
  from cases show ?thesis
  proof
    assume "\<exists>e. map_of (store_entries s) ''Text_PNG'' = Some e \<and> isFolder e \<and> isEntry e
                 \<and> out' = Some s
                 \<and> f = \<lparr>baseFolder = store_path s, pngFolder = Some e,
                        pngNativePath = slashes (nativePath e)\<rparr>"
    then show ?thesis by (auto simp: getEntry_def)
  next
    let ?e = "\<lparr>isFolder = True, isEntry = True, nativePath = store_path s @ ''/Text_PNG''\<rparr>"
    let ?s' = "s\<lparr>store_entries := store_entries s @ [(''Text_PNG'', ?e)]\<rparr>"
    assume c: "map_of (store_entries s) ''Text_PNG'' = None \<and> store_writable s
               \<and> out' = Some ?s'
               \<and> f = \<lparr>baseFolder = store_path s, pngFolder = Some ?e,
                      pngNativePath = slashes (store_path s @ ''/Text_PNG'')\<rparr>"
    then have "getEntry ?s' ''Text_PNG'' = Inr ?e"
      by (simp add: getEntry_def map_of_snoc_new del: map_of_append)
    with c show ?thesis by auto
  qed
qed

lemma setup_again:
  assumes "setupTextOutputFolders out = (r, out', calls)"
  shows "\<exists>calls'. setupTextOutputFolders out' = (r, out', calls')
                 \<and> (\<forall>f. r = Inr f \<longrightarrow> calls' = [GetEntry ''Text_PNG''])"
proof (cases r)
  case (Inl e)
  with assms have "out' = out" by (auto dest: setup_store_unchanged_on_error)
  with assms Inl show ?thesis by auto
next
  case (Inr f)
  with assms obtain s' e where
    s': "out' = Some s'" "getEntry s' ''Text_PNG'' = Inr e" "isFolder e" "isEntry e"
        "f = \<lparr>baseFolder = store_path s', pngFolder = Some e,
              pngNativePath = slashes (nativePath e)\<rparr>"
    using setup_success_leaves_folder by blast
  from setup_found [OF s'(2) s'(3) s'(4)] s' Inr show ?thesis by simp
qed

text \<open>
  C8. Running \<open>setupTextOutputFolders\<close> again on the folder a first run left behind gives
  the same result (the same folder references, or the same error) and leaves the folder
  as it is; after a successful run the second run only looks \<open>Text_PNG\<close> up and creates
  nothing. An existing \<open>Text_PNG\<close> folder is reused without a creation. When \<open>Text_PNG\<close>
  exists and is not a folder, the operation fails: \<open>FOLDER_SETUP_ERROR\<close>, caused by
  \<open>FOLDER_CREATE_ERROR\<close>, and the folder is left as it is.
\<close>

theorem setupTextOutputFolders_idempotent:
  assumes "setupTextOutputFolders out = (r, out', calls)"
  shows "(\<exists>calls'. setupTextOutputFolders out' = (r, out', calls')
                   \<and> (\<forall>f. r = Inr f \<longrightarrow> calls' = [GetEntry ''Text_PNG'']))
       \<and> (\<forall>s e. out = Some s \<and> getEntry s ''Text_PNG'' = Inr e \<and> isFolder e \<and> isEntry e \<longrightarrow>
             (\<exists>f. r = Inr f \<and> pngFolder f = Some e) \<and> out' = out
             \<and> calls = [GetEntry ''Text_PNG''])
       \<and> (\<forall>s e. out = Some s \<and> getEntry s ''Text_PNG'' = Inr e \<and> \<not> isFolder e \<longrightarrow>
             r = Inl (PluginError ''Failed to setup output folders'' ''FOLDER_SETUP_ERROR''
                        [PluginError ''Failed to create Text_PNG folder'' ''FOLDER_CREATE_ERROR''
                           [Error ''Entry already exists'']])
             \<and> out' = out)"
proof -
  have a: "\<exists>calls'. setupTextOutputFolders out' = (r, out', calls')
                   \<and> (\<forall>f. r = Inr f \<longrightarrow> calls' = [GetEntry ''Text_PNG''])"
    by (rule setup_again [OF assms])
  have b: "(\<exists>f. r = Inr f \<and> pngFolder f = Some e) \<and> out' = out \<and> calls = [GetEntry ''Text_PNG'']"
    if "out = Some s" "getEntry s ''Text_PNG'' = Inr e" "isFolder e" "isEntry e" for s e
    using setup_found [OF that(2) that(3) that(4)] assms that(1) by auto
  have c: "r = Inl (PluginError ''Failed to setup output folders'' ''FOLDER_SETUP_ERROR''
                      [PluginError ''Failed to create Text_PNG folder'' ''FOLDER_CREATE_ERROR''
                         [Error ''Entry already exists'']]) \<and> out' = out"
    if "out = Some s" "getEntry s ''Text_PNG'' = Inr e" "\<not> isFolder e" for s e
    using setup_conflict [OF that(2) that(3)] assms that(1) by auto
  from a b c show ?thesis by blast
qed

lemma setup_store_empty:
  "setupTextOutputFolders (Some store_empty) =
     (Inr folders_ready, Some store_ready, [GetEntry ''Text_PNG'', CreateEntry ''Text_PNG''])"
  by (simp add: model_defs Let_def)

lemma setup_store_conflict:
  "setupTextOutputFolders (Some store_conflict) =
     (Inl (PluginError ''Failed to setup output folders'' ''FOLDER_SETUP_ERROR''
             [PluginError ''Failed to create Text_PNG folder'' ''FOLDER_CREATE_ERROR''
                [Error ''Entry already exists'']]),
      Some store_conflict, [GetEntry ''Text_PNG'', CreateEntry ''Text_PNG''])"
  by (simp add: model_defs Let_def)

theorem setupTextOutputFolders_idempotent_witness:
  "setupTextOutputFolders (Some store_empty) =
     (Inr folders_ready, Some store_ready, [GetEntry ''Text_PNG'', CreateEntry ''Text_PNG''])
   \<and> setupTextOutputFolders (Some store_ready) =
       (Inr folders_ready, Some store_ready, [GetEntry ''Text_PNG''])
   \<and> getEntry store_conflict ''Text_PNG'' = Inr (file_entry ''/out/Text_PNG'')
   \<and> fst (setupTextOutputFolders (Some store_conflict)) =
       Inl (PluginError ''Failed to setup output folders'' ''FOLDER_SETUP_ERROR''
              [PluginError ''Failed to create Text_PNG folder'' ''FOLDER_CREATE_ERROR''
                 [Error ''Entry already exists'']])"
proof -
  from setupTextOutputFolders_idempotent [OF setup_store_empty]
  have "\<exists>calls'. setupTextOutputFolders (Some store_ready) =
                    (Inr folders_ready, Some store_ready, calls')
                 \<and> calls' = [GetEntry ''Text_PNG'']"
    by blast
  then have again: "setupTextOutputFolders (Some store_ready) =
                      (Inr folders_ready, Some store_ready, [GetEntry ''Text_PNG''])"
    by auto
  have g: "getEntry store_conflict ''Text_PNG'' = Inr (file_entry ''/out/Text_PNG'')"
    by (simp add: model_defs)
  have nf: "\<not> isFolder (file_entry ''/out/Text_PNG'')" by (simp add: file_entry_def)
  from setupTextOutputFolders_idempotent [OF setup_store_conflict] g nf
  have "fst (setupTextOutputFolders (Some store_conflict)) =
       Inl (PluginError ''Failed to setup output folders'' ''FOLDER_SETUP_ERROR''
              [PluginError ''Failed to create Text_PNG folder'' ''FOLDER_CREATE_ERROR''
                 [Error ''Entry already exists'']])"
    by (simp add: setup_store_conflict)
  with setup_store_empty again g show ?thesis by simp
qed

section \<open>Document export adapter\<close>

lemma v1_raises:
  "fst (saveAsPNG_v1 h doc p) = Inl e \<Longrightarrow>
     \<exists>e1 e2 e3. v1_strategy1 h doc = Inl e1 \<and> v1_save_path h = Inl e2 \<and> v1_strategy3 h = Inl e3
       \<and> e = PluginError ''Failed to save PNG (all methods failed)'' ''PNG_SAVE_ERROR'' [e1, e2, e3]"
  by (auto simp: saveAsPNG_v1_def split: sum.splits)

lemma v1_all_fail:
  "v1_strategy1 h doc = Inl e1 \<Longrightarrow> v1_save_path h = Inl e2 \<Longrightarrow> v1_strategy3 h = Inl e3 \<Longrightarrow>
     fst (saveAsPNG_v1 h doc p) =
       Inl (PluginError ''Failed to save PNG (all methods failed)'' ''PNG_SAVE_ERROR'' [e1, e2, e3])"
  by (simp add: saveAsPNG_v1_def)

lemma v1_trace:
  "snd (saveAsPNG_v1 h doc p) =
     (if isl (v1_strategy1 h doc) then
        (if isl (v1_save_path h) then [ExportDocument, SaveToPath, SaveToTempFile]
         else [ExportDocument, SaveToPath])
      else [ExportDocument])"
  by (auto simp: saveAsPNG_v1_def split: sum.splits)

lemma saveAsPNG_never_raises: "\<exists>b. fst (saveAsPNG h doc p f) = Inr b"
  by (auto simp: saveAsPNG_def split: sum.splits prod.splits)

lemma methodsOf_simps [simp]:
  "methodsOf [] = []"
  "methodsOf (Method n # tr) = n # methodsOf tr"
  "methodsOf (CreateFile s # tr) = methodsOf tr"
  "methodsOf (WriteDiagnostic r # tr) = methodsOf tr"
  by (simp_all add: methodsOf_def)

lemma method3_methods:
  "methodsOf (snd (saveMethod3 h d j)) = 3 # (if isl (png_batchPlay_save h) then [4] else [])"
  by (simp add: saveMethod3_def Let_def split: sum.splits)

lemma method2_methods:
  "methodsOf (snd (saveMethod2 h fn d)) =
     2 # (if isl (png_createFile_jpg h) \<or> isl (png_saveAs_jpg h)
          then 3 # (if isl (png_batchPlay_save h) then [4] else []) else [])"
  by (simp add: saveMethod2_def Let_def case_prod_beta method3_methods split: sum.splits)

lemma try_methods:
  "methodsOf (snd (saveAsPNG_try h doc p f)) = [] \<or>
   methodsOf (snd (saveAsPNG_try h doc p f)) =
     1 # (if isl (png_saveAs_png h) then
            2 # (if isl (png_createFile_jpg h) \<or> isl (png_saveAs_jpg h)
                 then 3 # (if isl (png_batchPlay_save h) then [4] else []) else [])
          else [])"
  by (simp add: saveAsPNG_try_def Let_def case_prod_beta method2_methods
        split: sum.splits option.splits)

lemma snd_saveAsPNG: "snd (saveAsPNG h doc p f) = snd (saveAsPNG_try h doc p f)"
  by (simp add: saveAsPNG_def split: prod.splits sum.splits)

lemma fst_saveAsPNG:
  "fst (saveAsPNG h doc p f) =
     (case fst (saveAsPNG_try h doc p f) of Inl e \<Rightarrow> Inr (Some False) | Inr b \<Rightarrow> Inr b)"
  by (simp add: saveAsPNG_def split: prod.splits sum.splits)

lemma method3_all_fail:
  assumes "png_batchPlay_save h = Inl e3"
  shows "(case fst (saveMethod3 h d j) of Inl e \<Rightarrow> Inr (Some False) | Inr b \<Rightarrow> Inr b)
           = (Inr (Some False) :: error + bool option)
       \<and> WriteDiagnostic [message d, message j, message e3] \<in> set (snd (saveMethod3 h d j))"
  using assms by (simp add: saveMethod3_def Let_def split: sum.splits)

lemma method2_all_fail:
  assumes "png_createFile_jpg h = Inl e2 \<or> (\<not> isl (png_createFile_jpg h) \<and> png_saveAs_jpg h = Inl e2)"
    and "png_batchPlay_save h = Inl e3"
  shows "(case fst (saveMethod2 h fn d) of Inl e \<Rightarrow> Inr (Some False) | Inr b \<Rightarrow> Inr b)
           = (Inr (Some False) :: error + bool option)
       \<and> WriteDiagnostic [message d, message e2, message e3] \<in> set (snd (saveMethod2 h fn d))"
proof (cases "png_createFile_jpg h")
  case (Inl e)
  with assms(1) have "e = e2" by auto
  with Inl method3_all_fail [OF assms(2), of d e2] show ?thesis
    by (simp add: saveMethod2_def Let_def case_prod_beta)
next
  case (Inr jpegFile)
  with assms(1) have "png_saveAs_jpg h = Inl e2" by auto
  with Inr method3_all_fail [OF assms(2), of d e2] show ?thesis
    by (simp add: saveMethod2_def Let_def case_prod_beta)
qed

lemma saveAsPNG_first_success:
  assumes "methodsOf (snd (saveAsPNG h doc p f)) \<noteq> []" and "\<not> isl (png_saveAs_png h)"
  shows "fst (saveAsPNG h doc p f) = Inr (Some True)"
  using assms
  by (auto simp: fst_saveAsPNG snd_saveAsPNG saveAsPNG_try_def Let_def
        split: sum.splits option.splits)

lemma saveAsPNG_all_fail:
  assumes "methodsOf (snd (saveAsPNG h doc p f)) \<noteq> []"
    and "png_saveAs_png h = Inl e1"
    and "png_createFile_jpg h = Inl e2 \<or> (\<not> isl (png_createFile_jpg h) \<and> png_saveAs_jpg h = Inl e2)"
    and "png_batchPlay_save h = Inl e3"
  shows "fst (saveAsPNG h doc p f) = Inr (Some False)
       \<and> WriteDiagnostic [message e1, message e2, message e3] \<in> set (snd (saveAsPNG h doc p f))"
  using assms(1) assms(2) method2_all_fail [OF assms(3) assms(4), of "fileNameOf p" e1]
  by (auto simp: fst_saveAsPNG snd_saveAsPNG saveAsPNG_try_def Let_def case_prod_beta
        split: sum.splits option.splits)

lemma png_all_fail_run:
  "saveAsPNG png_all_fail (Some doc0) ''/out/Text_PNG/Hello_.png'' (Some folders_ready) =
     (Inr (Some False),
      [CreateFile ''Hello_.png'', Method 1, Method 2, CreateFile ''Hello_.jpg'', Method 3,
       Method 4, WriteDiagnostic [''png failed'', ''jpg failed'', ''batchPlay failed'']])"
  by (simp add: model_defs Let_def)

text \<open>
  C2, as stated, fails on the later definition of \<open>saveAsPNG\<close>: with all three strategies
  throwing, every strategy is attempted, a diagnostic report is written into the output
  file, and the call returns \<open>false\<close>; no error reaches the caller.
\<close>

theorem saveAsPNG_returns_false_counterexample:
  "png_saveAs_png png_all_fail = Inl (Error ''png failed'')
   \<and> png_saveAs_jpg png_all_fail = Inl (Error ''jpg failed'')
   \<and> png_batchPlay_save png_all_fail = Inl (Error ''batchPlay failed'')
   \<and> saveAsPNG png_all_fail (Some doc0) ''/out/Text_PNG/Hello_.png'' (Some folders_ready) =
       (Inr (Some False),
        [CreateFile ''Hello_.png'', Method 1, Method 2, CreateFile ''Hello_.jpg'', Method 3,
         Method 4, WriteDiagnostic [''png failed'', ''jpg failed'', ''batchPlay failed'']])"
  by (simp add: png_all_fail_run) (simp add: png_all_fail_def)

text \<open>
  C2, amended. Both definitions of \<open>saveAsPNG\<close> try their strategies in a fixed order and
  stop at the first success. The earlier one raises exactly when its three strategies
  all failed, and the \<open>PNG_SAVE_ERROR\<close> it raises carries the three failures in order.
  The later one never raises: once its first method is entered, method 2 is entered
  exactly when method 1 threw, method 3 exactly when method 2 threw and the diagnostic
  step exactly when method 3 threw; a first method that returns gives \<open>true\<close>; and when
  all three throw, the report written to the file lists the three failures and the call
  returns \<open>false\<close>.
\<close>

theorem saveAsPNG_fallback_chain:
  "(\<forall>e. fst (saveAsPNG_v1 h1 doc p) = Inl e \<longrightarrow>
      (\<exists>e1 e2 e3. v1_strategy1 h1 doc = Inl e1 \<and> v1_save_path h1 = Inl e2
         \<and> v1_strategy3 h1 = Inl e3
         \<and> e = PluginError ''Failed to save PNG (all methods failed)'' ''PNG_SAVE_ERROR''
                 [e1, e2, e3]))
   \<and> (\<forall>e1 e2 e3. v1_strategy1 h1 doc = Inl e1 \<and> v1_save_path h1 = Inl e2
         \<and> v1_strategy3 h1 = Inl e3 \<longrightarrow>
         fst (saveAsPNG_v1 h1 doc p) =
           Inl (PluginError ''Failed to save PNG (all methods failed)'' ''PNG_SAVE_ERROR''
                  [e1, e2, e3]))
   \<and> snd (saveAsPNG_v1 h1 doc p) =
       (if isl (v1_strategy1 h1 doc) then
          (if isl (v1_save_path h1) then [ExportDocument, SaveToPath, SaveToTempFile]
           else [ExportDocument, SaveToPath])
        else [ExportDocument])
   \<and> (\<exists>b. fst (saveAsPNG h doc p f) = Inr b)
   \<and> (methodsOf (snd (saveAsPNG h doc p f)) = [] \<or>
      methodsOf (snd (saveAsPNG h doc p f)) =
        1 # (if isl (png_saveAs_png h) then
               2 # (if isl (png_createFile_jpg h) \<or> isl (png_saveAs_jpg h)
                    then 3 # (if isl (png_batchPlay_save h) then [4] else []) else [])
             else []))
   \<and> (methodsOf (snd (saveAsPNG h doc p f)) \<noteq> [] \<and> \<not> isl (png_saveAs_png h) \<longrightarrow>
        fst (saveAsPNG h doc p f) = Inr (Some True))
   \<and> (\<forall>e1 e2 e3.
        methodsOf (snd (saveAsPNG h doc p f)) \<noteq> [] \<and> png_saveAs_png h = Inl e1
        \<and> (png_createFile_jpg h = Inl e2
           \<or> (\<not> isl (png_createFile_jpg h) \<and> png_saveAs_jpg h = Inl e2))
        \<and> png_batchPlay_save h = Inl e3 \<longrightarrow>
        fst (saveAsPNG h doc p f) = Inr (Some False)
        \<and> WriteDiagnostic [message e1, message e2, message e3]
            \<in> set (snd (saveAsPNG h doc p f)))"
proof -
  have a: "\<forall>e. fst (saveAsPNG_v1 h1 doc p) = Inl e \<longrightarrow>
      (\<exists>e1 e2 e3. v1_strategy1 h1 doc = Inl e1 \<and> v1_save_path h1 = Inl e2
         \<and> v1_strategy3 h1 = Inl e3
         \<and> e = PluginError ''Failed to save PNG (all methods failed)'' ''PNG_SAVE_ERROR''
                 [e1, e2, e3])"
    using v1_raises by blast
  have b: "\<forall>e1 e2 e3. v1_strategy1 h1 doc = Inl e1 \<and> v1_save_path h1 = Inl e2
         \<and> v1_strategy3 h1 = Inl e3 \<longrightarrow>
         fst (saveAsPNG_v1 h1 doc p) =
           Inl (PluginError ''Failed to save PNG (all methods failed)'' ''PNG_SAVE_ERROR''
                  [e1, e2, e3])"
    using v1_all_fail by blast
  have d: "methodsOf (snd (saveAsPNG h doc p f)) = [] \<or>
      methodsOf (snd (saveAsPNG h doc p f)) =
        1 # (if isl (png_saveAs_png h) then
               2 # (if isl (png_createFile_jpg h) \<or> isl (png_saveAs_jpg h)
                    then 3 # (if isl (png_batchPlay_save h) then [4] else []) else [])
             else [])"
    unfolding snd_saveAsPNG by (rule try_methods)
  have e: "methodsOf (snd (saveAsPNG h doc p f)) \<noteq> [] \<and> \<not> isl (png_saveAs_png h) \<longrightarrow>
        fst (saveAsPNG h doc p f) = Inr (Some True)"
    using saveAsPNG_first_success by blast
  have g: "\<forall>e1 e2 e3.
        methodsOf (snd (saveAsPNG h doc p f)) \<noteq> [] \<and> png_saveAs_png h = Inl e1
        \<and> (png_createFile_jpg h = Inl e2
           \<or> (\<not> isl (png_createFile_jpg h) \<and> png_saveAs_jpg h = Inl e2))
        \<and> png_batchPlay_save h = Inl e3 \<longrightarrow>
        fst (saveAsPNG h doc p f) = Inr (Some False)
        \<and> WriteDiagnostic [message e1, message e2, message e3]
            \<in> set (snd (saveAsPNG h doc p f))"
    using saveAsPNG_all_fail by blast
  from a b v1_trace [of h1 doc p] saveAsPNG_never_raises [of h doc p f] d e g
  show ?thesis by (intro conjI)
qed

lemma v1_all_fail_strategies:
  "v1_strategy1 png_v1_all_fail (Some doc0) = Inl (Error ''export failed'')
   \<and> v1_save_path png_v1_all_fail = Inl (Error ''save failed'')
   \<and> v1_strategy3 png_v1_all_fail = Inl (Error ''last resort failed'')"
  by (simp add: model_defs)

lemma png_ok_run:
  "saveAsPNG png_ok (Some doc0) ''/out/Text_PNG/Hello_.png'' (Some folders_ready) =
     (Inr (Some True), [CreateFile ''Hello_.png'', Method 1])"
  by (simp add: model_defs Let_def)

theorem saveAsPNG_fallback_chain_witness:
  "fst (saveAsPNG_v1 png_v1_all_fail (Some doc0) ''/out/Text_PNG/Hello_.png'') =
     Inl (PluginError ''Failed to save PNG (all methods failed)'' ''PNG_SAVE_ERROR''
            [Error ''export failed'', Error ''save failed'', Error ''last resort failed''])
   \<and> methodsOf (snd (saveAsPNG png_ok (Some doc0) ''/out/Text_PNG/Hello_.png''
                        (Some folders_ready))) = [1]
   \<and> fst (saveAsPNG png_ok (Some doc0) ''/out/Text_PNG/Hello_.png'' (Some folders_ready)) =
       Inr (Some True)"
proof -
  note chain = saveAsPNG_fallback_chain
         [of png_v1_all_fail "Some doc0" "''/out/Text_PNG/Hello_.png''" png_ok "Some folders_ready"]
  note raised = chain [THEN conjunct2, THEN conjunct1, rule_format]
  note first = chain [THEN conjunct2, THEN conjunct2, THEN conjunct2, THEN conjunct2,
                      THEN conjunct2, THEN conjunct1, rule_format]
  have m: "methodsOf (snd (saveAsPNG png_ok (Some doc0) ''/out/Text_PNG/Hello_.png''
                        (Some folders_ready))) = [1]"
    by (simp only: png_ok_run snd_conv methodsOf_simps)
  have ok: "\<not> isl (png_saveAs_png png_ok)"
    by (simp add: png_ok_def png_all_fail_def)
  have a: "fst (saveAsPNG_v1 png_v1_all_fail (Some doc0) ''/out/Text_PNG/Hello_.png'') =
     Inl (PluginError ''Failed to save PNG (all methods failed)'' ''PNG_SAVE_ERROR''
            [Error ''export failed'', Error ''save failed'', Error ''last resort failed''])"
    by (rule raised) (rule v1_all_fail_strategies)
  have nonempty: "methodsOf (snd (saveAsPNG png_ok (Some doc0) ''/out/Text_PNG/Hello_.png''
                        (Some folders_ready))) \<noteq> []"
    by (simp only: m) simp
  have b: "fst (saveAsPNG png_ok (Some doc0) ''/out/Text_PNG/Hello_.png'' (Some folders_ready)) =
       Inr (Some True)"
    by (rule first) (rule conjI [OF nonempty ok])
  from a m b show ?thesis by (intro conjI)
qed

section \<open>Font-size mutation\<close>

lemma relay_ok_run:
  "truthy d \<Longrightarrow>
     writeToMCPRelay relay_ok (Some d) =
       (Inr ''/tmp/mcp-relay/logs/mcp-out-42.json'', [StandardWrite])"
  by (simp add: model_defs)

lemma parse24: "parseFloat ''24'' = Num 24"
  by (simp add: model_defs roundToDouble_24)

lemma silent_run:
  "updateFontSize (Some layer0) ''24'' =
     (Inr True, [DomAssign, Wait 500, RelayWrite [''DOM API'']])"
  by (simp add: updateFontSize_def updateFontSize_try_def layerNameOf_def parse24 isNaN_def
        relay_ok_writes fontUpdate_def layer0_def)

lemma within_12_24: "\<not> withinTolerance (Num 12) (Num 24)"
  by (simp add: withinTolerance_def tolerance_value double_defs)

lemma silent_verify:
  "verifyFontSize (Some layer0) (JsNumber (parseFloat ''24'')) = Inr False"
  by (simp add: parse24 verifyFontSize_def verifyFontSize_try_def measurements_def
        toFloat_12 toFloat_24 within_12_24 layer0_def Let_def)

lemma all_throw_run:
  "updateFontSize (Some layer_all_throw) ''24'' =
     (Inl (PluginError ''Failed to update font size in layer text1'' ''FONT_SIZE_UPDATE_ERROR''
            [Error ''Font size change could not be verified after trying multiple methods: '']),
      [DomAssign, BatchPlayTextStyle, BatchPlayProperty])"
  by (simp add: updateFontSize_def updateFontSize_try_def layerNameOf_def parse24 isNaN_def
        layer_all_throw_def layer0_def)

lemma updateFontSize_trace:
  assumes "layer_name l \<noteq> []" and "\<not> isNaN (parseFloat fontSize)"
  shows "snd (updateFontSize (Some l) fontSize) =
     (if \<not> isl (set_textItem_size l) then
        [DomAssign, Wait fontUpdate, RelayWrite [''DOM API'']]
      else if \<not> isl (batchPlay_textStyle l) then
        [DomAssign, BatchPlayTextStyle, Wait fontUpdate, RelayWrite [''batchPlay textStyle'']]
      else if \<not> isl (batchPlay_property l) then
        [DomAssign, BatchPlayTextStyle, BatchPlayProperty, Wait fontUpdate,
         RelayWrite [''batchPlay property'']]
      else [DomAssign, BatchPlayTextStyle, BatchPlayProperty])"
  using assms
  by (cases "set_textItem_size l"; cases "batchPlay_textStyle l"; cases "batchPlay_property l")
     (simp_all add: updateFontSize_def updateFontSize_try_def split: sum.splits)

lemma updateFontSize_all_throw:
  assumes "layer_name l \<noteq> []" and "\<not> isNaN (parseFloat fontSize)"
    and "isl (set_textItem_size l)" "isl (batchPlay_textStyle l)" "isl (batchPlay_property l)"
  shows "\<exists>cause. fst (updateFontSize (Some l) fontSize) =
           Inl (PluginError (''Failed to update font size in layer '' @ layer_name l)
                  ''FONT_SIZE_UPDATE_ERROR'' [cause])"
  using assms
  by (cases "set_textItem_size l"; cases "batchPlay_textStyle l"; cases "batchPlay_property l")
     (simp_all add: updateFontSize_def updateFontSize_try_def layerNameOf_def)

lemma updateFontSize_accepted:
  assumes "layer_name l \<noteq> []" and "\<not> isNaN (parseFloat fontSize)"
    and "\<not> isl (set_textItem_size l) \<or> \<not> isl (batchPlay_textStyle l)
         \<or> \<not> isl (batchPlay_property l)"
    and "\<exists>path. fst (writeToMCPRelay (fontSize_relay l)
                        (Some (fontSizeEvent l (parseFloat fontSize) [strategyUsed l]))) =
                 Inr path"
  shows "fst (updateFontSize (Some l) fontSize) = Inr True"
  using assms
  by (cases "set_textItem_size l"; cases "batchPlay_textStyle l"; cases "batchPlay_property l")
     (auto simp: updateFontSize_def updateFontSize_try_def strategyUsed_def split: sum.splits)

text \<open>
  C3, as stated, fails: \<open>updateFontSize\<close> accepts an attempt without reading the size
  back. On a layer whose size reads 12 on both channels and whose DOM assignment returns
  without effect, a request for 24 succeeds after the assignment and the settle delay,
  although \<open>verifyFontSize\<close> of that layer against 24 is false. And when all three
  strategies throw, the message of the error's cause lists no strategy name.
\<close>

theorem updateFontSize_no_read_back_counterexample:
  "updateFontSize (Some layer0) ''24'' =
     (Inr True, [DomAssign, Wait 500, RelayWrite [''DOM API'']])
   \<and> verifyFontSize (Some layer0) (JsNumber (parseFloat ''24'')) = Inr False
   \<and> updateFontSize (Some layer_all_throw) ''24'' =
       (Inl (PluginError ''Failed to update font size in layer text1'' ''FONT_SIZE_UPDATE_ERROR''
              [Error ''Font size change could not be verified after trying multiple methods: '']),
        [DomAssign, BatchPlayTextStyle, BatchPlayProperty])"
  using silent_run silent_verify all_throw_run by (intro conjI)

text \<open>
  C3, amended. For a named layer and a numeric size, \<open>updateFontSize\<close> tries the DOM
  assignment, then the batchPlay command addressed by layer id, then the one addressed by
  property path, each only if every earlier one threw; the first strategy whose host call
  returns is accepted after the settle delay of 500 ms, with no read-back, and is
  followed by the relay write naming it; the call then returns true when the write of
  that event succeeds. If all three strategies throw, it raises
  \<open>FONT_SIZE_UPDATE_ERROR\<close>.
\<close>

theorem updateFontSize_strategies:
  assumes "layer_name l \<noteq> []" and "\<not> isNaN (parseFloat fontSize)"
  shows "snd (updateFontSize (Some l) fontSize) =
     (if \<not> isl (set_textItem_size l) then
        [DomAssign, Wait 500, RelayWrite [''DOM API'']]
      else if \<not> isl (batchPlay_textStyle l) then
        [DomAssign, BatchPlayTextStyle, Wait 500, RelayWrite [''batchPlay textStyle'']]
      else if \<not> isl (batchPlay_property l) then
        [DomAssign, BatchPlayTextStyle, BatchPlayProperty, Wait 500,
         RelayWrite [''batchPlay property'']]
      else [DomAssign, BatchPlayTextStyle, BatchPlayProperty])
   \<and> (isl (set_textItem_size l) \<and> isl (batchPlay_textStyle l) \<and> isl (batchPlay_property l) \<longrightarrow>
        (\<exists>cause. fst (updateFontSize (Some l) fontSize) =
           Inl (PluginError (''Failed to update font size in layer '' @ layer_name l)
                  ''FONT_SIZE_UPDATE_ERROR'' [cause])))
   \<and> ((\<not> isl (set_textItem_size l) \<or> \<not> isl (batchPlay_textStyle l)
        \<or> \<not> isl (batchPlay_property l))
       \<and> (\<exists>path. fst (writeToMCPRelay (fontSize_relay l)
                          (Some (fontSizeEvent l (parseFloat fontSize) [strategyUsed l]))) =
                   Inr path) \<longrightarrow>
        fst (updateFontSize (Some l) fontSize) = Inr True)"
proof -
  have a: "snd (updateFontSize (Some l) fontSize) =
     (if \<not> isl (set_textItem_size l) then
        [DomAssign, Wait 500, RelayWrite [''DOM API'']]
      else if \<not> isl (batchPlay_textStyle l) then
        [DomAssign, BatchPlayTextStyle, Wait 500, RelayWrite [''batchPlay textStyle'']]
      else if \<not> isl (batchPlay_property l) then
        [DomAssign, BatchPlayTextStyle, BatchPlayProperty, Wait 500,
         RelayWrite [''batchPlay property'']]
      else [DomAssign, BatchPlayTextStyle, BatchPlayProperty])"
    using updateFontSize_trace [OF assms] by (simp only: fontUpdate_def)
  have b: "isl (set_textItem_size l) \<and> isl (batchPlay_textStyle l) \<and> isl (batchPlay_property l) \<longrightarrow>
        (\<exists>cause. fst (updateFontSize (Some l) fontSize) =
           Inl (PluginError (''Failed to update font size in layer '' @ layer_name l)
                  ''FONT_SIZE_UPDATE_ERROR'' [cause]))"
    using updateFontSize_all_throw [OF assms] by blast
  have c: "(\<not> isl (set_textItem_size l) \<or> \<not> isl (batchPlay_textStyle l)
        \<or> \<not> isl (batchPlay_property l))
       \<and> (\<exists>path. fst (writeToMCPRelay (fontSize_relay l)
                          (Some (fontSizeEvent l (parseFloat fontSize) [strategyUsed l]))) =
                   Inr path) \<longrightarrow>
        fst (updateFontSize (Some l) fontSize) = Inr True"
    using updateFontSize_accepted [OF assms] by blast
  from a b c show ?thesis by (intro conjI)
qed

theorem updateFontSize_strategies_witness:
  "layer_name layer_third = ''text1''
   \<and> parseFloat ''24'' = Num 24
   \<and> snd (updateFontSize (Some layer_third) ''24'') =
       [DomAssign, BatchPlayTextStyle, BatchPlayProperty, Wait 500,
        RelayWrite [''batchPlay property'']]
   \<and> fst (updateFontSize (Some layer_third) ''24'') = Inr True"
proof -
  have n: "layer_name layer_third = ''text1''"
    by (simp add: layer_third_def layer0_def)
  have h1: "layer_name layer_third \<noteq> []" by (simp add: n)
  have h2: "\<not> isNaN (parseFloat ''24'')" by (simp add: parse24 isNaN_def)
  note inst = updateFontSize_strategies [OF h1 h2]
  have hosts: "isl (set_textItem_size layer_third) \<and> isl (batchPlay_textStyle layer_third)
               \<and> \<not> isl (batchPlay_property layer_third)"
    by (simp add: layer_third_def layer0_def)
  have relay: "\<exists>path. fst (writeToMCPRelay (fontSize_relay layer_third)
                  (Some (fontSizeEvent layer_third (parseFloat ''24'')
                           [strategyUsed layer_third]))) = Inr path"
    by (simp add: layer_third_def layer0_def relay_ok_run)
  have tr: "snd (updateFontSize (Some layer_third) ''24'') =
       [DomAssign, BatchPlayTextStyle, BatchPlayProperty, Wait 500,
        RelayWrite [''batchPlay property'']]"
    using inst [THEN conjunct1] hosts by simp
  have ok: "fst (updateFontSize (Some layer_third) ''24'') = Inr True"
    using inst [THEN conjunct2, THEN conjunct2] hosts relay by blast
  from n parse24 tr ok show ?thesis by (intro conjI)
qed

section \<open>External relay sink\<close>

lemma fallback_isl: "isl (fallbackWrite h p) = isl (fallbackWrite h q)"
  by (simp add: fallbackWrite_def split: sum.splits)

lemma attempts_trace:
  "snd (writeAttempts h p) = StandardWrite # (if isl (standardWrite h) then [FallbackWrite] else [])"
  by (simp add: writeAttempts_def split: sum.splits)

lemma attempts_raise:
  "(\<exists>e. fst (writeAttempts h p) = Inl e) \<longleftrightarrow> isl (standardWrite h) \<and> isl (fallbackWrite h p)"
  by (simp add: writeAttempts_def split: sum.splits)

lemma attempts_error:
  "fst (writeAttempts h p) = Inl e \<Longrightarrow>
     \<exists>writeError fallbackError. standardWrite h = Inl writeError
        \<and> fallbackWrite h p = Inl fallbackError \<and> e = bothFailed writeError fallbackError"
  by (simp add: writeAttempts_def split: sum.splits)

lemma relay_phases:
  "(snd (writeToMCPRelay h data) = [] \<and> (\<exists>e. fst (writeToMCPRelay h data) = Inl e))
   \<or> (\<exists>p. snd (writeToMCPRelay h data) = snd (writeAttempts h p)
          \<and> fst (writeToMCPRelay h data) =
              (case fst (writeAttempts h p) of Inl e \<Rightarrow> Inl (mcpWriteError e) | Inr q \<Rightarrow> Inr q))"
proof (cases data)
  case None
  then show ?thesis by (simp add: writeToMCPRelay_def)
next
  case (Some d)
  show ?thesis
  proof (cases "truthy d")
    case False
    with Some show ?thesis by (simp add: writeToMCPRelay_def)
  next
  case ok: True
  show ?thesis
  proof (cases "relay_utf8 h")
    case False
    with Some ok show ?thesis by (simp add: writeToMCPRelay_def)
  next
    case True
    show ?thesis
    proof (cases "relay_getTemporaryFolder h")
      case (Inl e)
      with Some ok True show ?thesis by (simp add: writeToMCPRelay_def)
    next
      case tmp: (Inr tempFolder)
      show ?thesis
      proof (cases "relayFolder (relay_getEntry_mcp h) (relay_createEntry_mcp h)")
        case (Inl e)
        with Some ok True tmp show ?thesis by (simp add: writeToMCPRelay_def)
      next
        case mcp: (Inr mcpRelayFolder)
        show ?thesis
        proof (cases "relayFolder (relay_getEntry_logs h) (relay_createEntry_logs h)")
          case (Inl e)
          with Some ok True tmp mcp show ?thesis by (simp add: writeToMCPRelay_def)
        next
          case logs: (Inr logsFolder)
          show ?thesis
          proof (cases "jsonString h d")
            case (Inl e)
            with Some ok True tmp mcp logs show ?thesis by (simp add: writeToMCPRelay_def)
          next
            case js: (Inr jsonText)
            let ?p = "nativePath logsFolder @ ''/'' @ ''mcp-out-'' @ showNat (relay_getTime h) @ ''.json''"
            have "snd (writeToMCPRelay h data) = snd (writeAttempts h ?p)
                \<and> fst (writeToMCPRelay h data) =
                    (case fst (writeAttempts h ?p) of
                       Inl e \<Rightarrow> Inl (mcpWriteError e) | Inr q \<Rightarrow> Inr q)"
              using Some ok True tmp mcp logs js
              by (simp add: writeToMCPRelay_def Let_def case_prod_beta split: prod.splits sum.splits)
            then show ?thesis by blast
          qed
        qed
      qed
    qed
  qed
qed
qed

lemma saveStep_relay:
  "fst (saveStep (h\<lparr>row_relay := relayA\<rparr>) doc r fs) = fst (saveStep (h\<lparr>row_relay := relayB\<rparr>) doc r fs)
   \<and> fst (snd (saveStep (h\<lparr>row_relay := relayA\<rparr>) doc r fs)) =
       fst (snd (saveStep (h\<lparr>row_relay := relayB\<rparr>) doc r fs))"
  by (simp add: saveStep_def Let_def case_prod_beta split: option.splits)

lemma processTextRow_relay:
  "fst (processTextRow (h\<lparr>row_relay := relayA\<rparr>) r i n fs) =
   fst (processTextRow (h\<lparr>row_relay := relayB\<rparr>) r i n fs)"
  using saveStep_relay [where h = h and relayA = relayA and relayB = relayB and r = r and fs = fs]
  by (simp add: processTextRow_def Let_def case_prod_beta split: option.splits)


lemma relay_trace:
  "snd (writeToMCPRelay h data) = [] \<or>
   snd (writeToMCPRelay h data) =
     StandardWrite # (if isl (standardWrite h) then [FallbackWrite] else [])"
  using relay_phases [of h data] by (auto simp: attempts_trace)

lemma relay_no_attempt:
  "snd (writeToMCPRelay h data) = [] \<Longrightarrow> \<exists>e. fst (writeToMCPRelay h data) = Inl e"
  using relay_phases [of h data] by (auto simp: attempts_trace)

lemma relay_attempted_raises:
  assumes "snd (writeToMCPRelay h data) \<noteq> []"
  shows "(\<exists>e. fst (writeToMCPRelay h data) = Inl e) \<longleftrightarrow>
           isl (standardWrite h) \<and> (\<forall>p. isl (fallbackWrite h p))"
proof -
  from assms relay_phases [of h data] obtain p where
    p: "fst (writeToMCPRelay h data) =
          (case fst (writeAttempts h p) of Inl e \<Rightarrow> Inl (mcpWriteError e) | Inr q \<Rightarrow> Inr q)"
    by blast
  have "(\<exists>e. fst (writeToMCPRelay h data) = Inl e) \<longleftrightarrow> (\<exists>e. fst (writeAttempts h p) = Inl e)"
    by (simp add: p split: sum.splits)
  also have "\<dots> \<longleftrightarrow> isl (standardWrite h) \<and> isl (fallbackWrite h p)"
    by (rule attempts_raise)
  also have "\<dots> \<longleftrightarrow> isl (standardWrite h) \<and> (\<forall>p. isl (fallbackWrite h p))"
    using fallback_isl [of h p] by auto
  finally show ?thesis .
qed

lemma relay_attempted_error:
  assumes "snd (writeToMCPRelay h data) \<noteq> []" and "fst (writeToMCPRelay h data) = Inl e"
  shows "\<exists>writeError fallbackError. standardWrite h = Inl writeError
            \<and> e = mcpWriteError (bothFailed writeError fallbackError)"
proof -
  from assms(1) relay_phases [of h data] obtain p where
    p: "fst (writeToMCPRelay h data) =
          (case fst (writeAttempts h p) of Inl e \<Rightarrow> Inl (mcpWriteError e) | Inr q \<Rightarrow> Inr q)"
    by blast
  with assms(2) obtain e' where e': "fst (writeAttempts h p) = Inl e'" "e = mcpWriteError e'"
    by (auto split: sum.splits)
  from attempts_error [OF e'(1)] e'(2) show ?thesis by blast
qed

lemma saveStep_trace:
  assumes "pngFolder f = Some png"
  shows "snd (snd (saveStep h doc r (Some f))) =
     (let pngNative = (if pngNativePath f \<noteq> [] then pngNativePath f else nativePath png);
          pngPath = slashes pngNative @ ''/'' @ baseFileNameOf r @ ''.png'';
          saved = saveAsPNG (save_host h) (Some doc) pngPath (Some f);
          pngSaved = (\<not> isl (fst saved))
      in map Png (snd saved) @ Relay (successEvent pngSaved pngPath) #
           (case fst (writeToMCPRelay (row_relay h) (Some (successEvent pngSaved pngPath))) of
              Inl mcpError \<Rightarrow> [Log (''[DEBUG] MCP relay write failed: '' @ message mcpError)]
            | Inr path \<Rightarrow> []))"
  using assms
  by (cases "pngNativePath f = []")
     (auto simp: saveStep_def Let_def case_prod_beta split: sum.splits)

lemma saveStep_logs:
  assumes "pngFolder f = Some png"
  shows "\<exists>pre pngSaved pngPath.
           snd (snd (saveStep h doc r (Some f))) =
             pre @ Relay (successEvent pngSaved pngPath) #
               (case fst (writeToMCPRelay (row_relay h) (Some (successEvent pngSaved pngPath))) of
                  Inl mcpError \<Rightarrow> [Log (''[DEBUG] MCP relay write failed: '' @ message mcpError)]
                | Inr path \<Rightarrow> [])"
  unfolding saveStep_trace [OF assms] Let_def by blast

lemma processTextRow_logs:
  assumes "fst (processTextRow h r i n (Some f)) = Inr res" and "success res"
    and "pngFolder f = Some png"
  shows "\<exists>pre pngSaved pngPath.
           snd (processTextRow h r i n (Some f)) =
             pre @ Relay (successEvent pngSaved pngPath) #
               (case fst (writeToMCPRelay (row_relay h) (Some (successEvent pngSaved pngPath))) of
                  Inl mcpError \<Rightarrow> [Log (''[DEBUG] MCP relay write failed: '' @ message mcpError)]
                | Inr path \<Rightarrow> [])"
proof -
  from assms(1) obtain doc where doc: "activeDocument h = Some doc" "textLayersOf doc \<noteq> []"
    by (auto simp: processTextRow_def split: option.splits if_splits)
  obtain layerUpdates errs tr where
    loop: "layerLoop r (textLayersOf doc) ([], [], []) = (layerUpdates, errs, tr)"
    by (cases "layerLoop r (textLayersOf doc) ([], [], [])") auto
  from assms(1,2) doc loop have upd: "layerUpdates \<noteq> []"
    by (auto simp: processTextRow_def Let_def case_prod_beta)
  from saveStep_logs [OF assms(3), of h doc r] obtain pre pngSaved pngPath where
    s: "snd (snd (saveStep h doc r (Some f))) =
             pre @ Relay (successEvent pngSaved pngPath) #
               (case fst (writeToMCPRelay (row_relay h) (Some (successEvent pngSaved pngPath))) of
                  Inl mcpError \<Rightarrow> [Log (''[DEBUG] MCP relay write failed: '' @ message mcpError)]
                | Inr path \<Rightarrow> [])"
    by blast
  have "snd (processTextRow h r i n (Some f)) = tr @ snd (snd (saveStep h doc r (Some f)))"
    using doc loop upd by (simp add: processTextRow_def Let_def case_prod_beta)
  with s have "snd (processTextRow h r i n (Some f)) =
      (tr @ pre) @ Relay (successEvent pngSaved pngPath) #
         (case fst (writeToMCPRelay (row_relay h) (Some (successEvent pngSaved pngPath))) of
            Inl mcpError \<Rightarrow> [Log (''[DEBUG] MCP relay write failed: '' @ message mcpError)]
          | Inr path \<Rightarrow> [])"
    by simp
  then show ?thesis by blast
qed

lemma relay_down_run:
  "truthy d \<Longrightarrow>
   writeToMCPRelay relay_down (Some d) =
     (Inl (PluginError
             ''Failed to write to MCP relay: Both standard and fallback write attempts failed''
             ''MCP_WRITE_ERROR''
             [PluginError ''Both standard and fallback write attempts failed'' ''FILE_WRITE_ERROR''
                [Error ''write failed'', Error ''no temporary file'']]),
      [StandardWrite, FallbackWrite])"
  by (simp add: model_defs)

lemma showNat42: "showNat 42 = ''42''"
  by code_simp

lemma relay_primary_fails_run:
  "truthy d \<Longrightarrow>
   writeToMCPRelay relay_primary_fails (Some d) =
     (Inr ''/tmp/mcp-relay/logs/mcp-out-42.json'', [StandardWrite, FallbackWrite])"
  by (simp add: model_defs showNat42)

lemma relay_no_temp_run:
  "truthy d \<Longrightarrow>
   writeToMCPRelay relay_no_temp (Some d) =
     (Inl (PluginError ''Failed to write to MCP relay: no temporary folder'' ''MCP_WRITE_ERROR''
             [Error ''no temporary folder'']), [])"
  by (simp add: model_defs)

lemma font_relay_down:
  "fst (updateFontSize (Some layer_relay_down) ''24'') =
     Inl (PluginError ''Failed to update font size in layer text1'' ''FONT_SIZE_UPDATE_ERROR''
            [PluginError
               ''Failed to write to MCP relay: Both standard and fallback write attempts failed''
               ''MCP_WRITE_ERROR''
               [PluginError ''Both standard and fallback write attempts failed''
                  ''FILE_WRITE_ERROR'' [Error ''write failed'', Error ''no temporary file'']]])"
  by (simp add: updateFontSize_def updateFontSize_try_def layerNameOf_def isNaN_def parse24
        layer_relay_down_def layer0_def relay_down_run)

lemma row_relay_down:
  "fst (processTextRow rowhost_relay_down row1 0 2 (Some folders_ready)) =
     Inr \<lparr>success = False, processed = 0,
          errors = [LayerError ''text1'' ''Failed to process layer text1''
                      (Some ''LAYER_PROCESS_ERROR'')],
          filesSaved_png = False\<rparr>"
  by (simp add: model_defs Let_def roundToDouble_24)

lemma row_ok:
  "fst (processTextRow rowhost_ok row1 0 2 (Some folders_ready)) = Inr result_ok"
  by (simp add: model_defs Let_def roundToDouble_24)

text \<open>
  C4, as stated, fails in two places. \<open>writeToMCPRelay\<close> also raises when no write was
  attempted at all: when the host gives no temporary folder, the error of that call is
  wrapped and raised without a primary write and without a retry. And the relay write
  inside \<open>updateFontSize\<close> is not guarded: with the relay down, a font-size update whose
  DOM assignment succeeded raises \<open>FONT_SIZE_UPDATE_ERROR\<close>, and \<open>processTextRow\<close>
  records the layer as failed and exports nothing.
\<close>

theorem relay_failure_counterexample:
  "writeToMCPRelay relay_no_temp (Some (successEvent True ''/out/Text_PNG/Hello_.png'')) =
     (Inl (PluginError ''Failed to write to MCP relay: no temporary folder'' ''MCP_WRITE_ERROR''
             [Error ''no temporary folder'']), [])
   \<and> set_textItem_size layer_relay_down = Inr ()
   \<and> fst (updateFontSize (Some layer_relay_down) ''24'') =
       Inl (PluginError ''Failed to update font size in layer text1'' ''FONT_SIZE_UPDATE_ERROR''
              [PluginError
                 ''Failed to write to MCP relay: Both standard and fallback write attempts failed''
                 ''MCP_WRITE_ERROR''
                 [PluginError ''Both standard and fallback write attempts failed''
                    ''FILE_WRITE_ERROR'' [Error ''write failed'', Error ''no temporary file'']]])
   \<and> fst (processTextRow rowhost_relay_down row1 0 2 (Some folders_ready)) =
       Inr \<lparr>success = False, processed = 0,
            errors = [LayerError ''text1'' ''Failed to process layer text1''
                        (Some ''LAYER_PROCESS_ERROR'')],
            filesSaved_png = False\<rparr>"
proof -
  have a: "writeToMCPRelay relay_no_temp (Some (successEvent True ''/out/Text_PNG/Hello_.png'')) =
     (Inl (PluginError ''Failed to write to MCP relay: no temporary folder'' ''MCP_WRITE_ERROR''
             [Error ''no temporary folder'']), [])"
    by (rule relay_no_temp_run) simp
  have b: "set_textItem_size layer_relay_down = Inr ()"
    by (simp add: layer_relay_down_def layer0_def)
  from a b font_relay_down row_relay_down show ?thesis by (intro conjI)
qed

text \<open>
  C4, amended. \<open>writeToMCPRelay\<close> makes the standard write at most once and the
  temp-file-then-move write exactly when the standard write was attempted and failed.
  Once the standard write has been attempted, it raises exactly when both writes fail,
  and the error is \<open>MCP_WRITE_ERROR\<close> wrapping \<open>FILE_WRITE_ERROR\<close>; with no write
  attempted (no data, no UTF-8 format, no relay folder, no serialisation) it raises as
  well. The relay write at the end of \<open>processTextRow\<close> is swallowed: the row result is
  the same whatever the relay answers, and a row that returns with success ends its
  trace with the event sent to the relay, followed, when that write raised, by the log
  line carrying the message of the error and by nothing else.
\<close>

theorem writeToMCPRelay_retries_once:
  "(snd (writeToMCPRelay h data) = [] \<or>
    snd (writeToMCPRelay h data) =
      StandardWrite # (if isl (standardWrite h) then [FallbackWrite] else []))
   \<and> (snd (writeToMCPRelay h data) \<noteq> [] \<longrightarrow>
        ((\<exists>e. fst (writeToMCPRelay h data) = Inl e) \<longleftrightarrow>
           isl (standardWrite h) \<and> (\<forall>p. isl (fallbackWrite h p))))
   \<and> (\<forall>e. snd (writeToMCPRelay h data) \<noteq> [] \<and> fst (writeToMCPRelay h data) = Inl e \<longrightarrow>
        (\<exists>writeError fallbackError. standardWrite h = Inl writeError
           \<and> e = mcpWriteError (bothFailed writeError fallbackError)))
   \<and> (snd (writeToMCPRelay h data) = [] \<longrightarrow> (\<exists>e. fst (writeToMCPRelay h data) = Inl e))
   \<and> fst (processTextRow (rh\<lparr>row_relay := relayA\<rparr>) r i n fs) =
       fst (processTextRow (rh\<lparr>row_relay := relayB\<rparr>) r i n fs)
   \<and> (\<forall>f png res.
         fs = Some f \<and> pngFolder f = Some png
         \<and> fst (processTextRow (rh\<lparr>row_relay := relayA\<rparr>) r i n fs) = Inr res \<and> success res \<longrightarrow>
         (\<exists>pre pngSaved pngPath.
            snd (processTextRow (rh\<lparr>row_relay := relayA\<rparr>) r i n fs) =
              pre @ Relay (successEvent pngSaved pngPath) #
                (case fst (writeToMCPRelay relayA (Some (successEvent pngSaved pngPath))) of
                   Inl mcpError \<Rightarrow>
                     [Log (''[DEBUG] MCP relay write failed: '' @ message mcpError)]
                 | Inr path \<Rightarrow> [])))"
proof -
  have b: "snd (writeToMCPRelay h data) \<noteq> [] \<longrightarrow>
        ((\<exists>e. fst (writeToMCPRelay h data) = Inl e) \<longleftrightarrow>
           isl (standardWrite h) \<and> (\<forall>p. isl (fallbackWrite h p)))"
    using relay_attempted_raises by blast
  have c: "\<forall>e. snd (writeToMCPRelay h data) \<noteq> [] \<and> fst (writeToMCPRelay h data) = Inl e \<longrightarrow>
        (\<exists>writeError fallbackError. standardWrite h = Inl writeError
           \<and> e = mcpWriteError (bothFailed writeError fallbackError))"
    using relay_attempted_error by blast
  have d: "snd (writeToMCPRelay h data) = [] \<longrightarrow> (\<exists>e. fst (writeToMCPRelay h data) = Inl e)"
    using relay_no_attempt by blast
  have e: "\<forall>f png res.
         fs = Some f \<and> pngFolder f = Some png
         \<and> fst (processTextRow (rh\<lparr>row_relay := relayA\<rparr>) r i n fs) = Inr res \<and> success res \<longrightarrow>
         (\<exists>pre pngSaved pngPath.
            snd (processTextRow (rh\<lparr>row_relay := relayA\<rparr>) r i n fs) =
              pre @ Relay (successEvent pngSaved pngPath) #
                (case fst (writeToMCPRelay relayA (Some (successEvent pngSaved pngPath))) of
                   Inl mcpError \<Rightarrow>
                     [Log (''[DEBUG] MCP relay write failed: '' @ message mcpError)]
                 | Inr path \<Rightarrow> []))"
  proof (intro allI impI)
    fix f png res
    assume h: "fs = Some f \<and> pngFolder f = Some png
         \<and> fst (processTextRow (rh\<lparr>row_relay := relayA\<rparr>) r i n fs) = Inr res \<and> success res"
    then have r: "fst (processTextRow (rh\<lparr>row_relay := relayA\<rparr>) r i n (Some f)) = Inr res"
      and s: "success res" and p: "pngFolder f = Some png" and fs: "fs = Some f"
      by auto
    from processTextRow_logs [OF r s p]
    show "\<exists>pre pngSaved pngPath.
            snd (processTextRow (rh\<lparr>row_relay := relayA\<rparr>) r i n fs) =
              pre @ Relay (successEvent pngSaved pngPath) #
                (case fst (writeToMCPRelay relayA (Some (successEvent pngSaved pngPath))) of
                   Inl mcpError \<Rightarrow>
                     [Log (''[DEBUG] MCP relay write failed: '' @ message mcpError)]
                 | Inr path \<Rightarrow> [])"
      by (simp add: fs)
  qed
  from relay_trace [of h data] b c d
    processTextRow_relay [where h = rh and relayA = relayA and relayB = relayB and r = r and i = i and n = n and fs = fs]
    e
  show ?thesis by (intro conjI)
qed

theorem writeToMCPRelay_retries_once_witness:
  "writeToMCPRelay relay_primary_fails (Some (successEvent True ''/out/Text_PNG/Hello_.png'')) =
     (Inr ''/tmp/mcp-relay/logs/mcp-out-42.json'', [StandardWrite, FallbackWrite])
   \<and> standardWrite relay_down = Inl (Error ''write failed'')
   \<and> fst (writeToMCPRelay relay_down (Some (successEvent True ''/out/Text_PNG/Hello_.png''))) =
       Inl (mcpWriteError (bothFailed (Error ''write failed'') (Error ''no temporary file'')))
   \<and> fst (processTextRow (rowhost_ok\<lparr>row_relay := relay_down\<rparr>) row1 0 2 (Some folders_ready)) =
       Inr result_ok
   \<and> last (snd (processTextRow (rowhost_ok\<lparr>row_relay := relay_down\<rparr>) row1 0 2
                (Some folders_ready))) =
       Log (''[DEBUG] MCP relay write failed: Failed to write to MCP relay: ''
            @ ''Both standard and fallback write attempts failed'')"
proof -
  let ?ev = "successEvent True ''/out/Text_PNG/Hello_.png''"
  note inst = writeToMCPRelay_retries_once
    [where h = relay_down and data = "Some ?ev" and rh = rowhost_ok and relayA = relay_down
       and relayB = relay_ok and r = row1 and i = 0 and n = 2 and fs = "Some folders_ready"]
  have run: "writeToMCPRelay relay_down (Some ?ev) =
     (Inl (PluginError
             ''Failed to write to MCP relay: Both standard and fallback write attempts failed''
             ''MCP_WRITE_ERROR''
             [PluginError ''Both standard and fallback write attempts failed'' ''FILE_WRITE_ERROR''
                [Error ''write failed'', Error ''no temporary file'']]),
      [StandardWrite, FallbackWrite])"
    by (rule relay_down_run) simp
  have tr: "snd (writeToMCPRelay relay_down (Some ?ev)) \<noteq> []"
    by (simp add: run)
  have raised: "fst (writeToMCPRelay relay_down (Some ?ev)) =
      Inl (PluginError
             ''Failed to write to MCP relay: Both standard and fallback write attempts failed''
             ''MCP_WRITE_ERROR''
             [PluginError ''Both standard and fallback write attempts failed'' ''FILE_WRITE_ERROR''
                [Error ''write failed'', Error ''no temporary file'']])"
    by (simp add: run)
  from inst [THEN conjunct2, THEN conjunct2, THEN conjunct1, rule_format, OF conjI [OF tr raised]]
  obtain writeError fallbackError where
    w: "standardWrite relay_down = Inl writeError"
       "PluginError
             ''Failed to write to MCP relay: Both standard and fallback write attempts failed''
             ''MCP_WRITE_ERROR''
             [PluginError ''Both standard and fallback write attempts failed'' ''FILE_WRITE_ERROR''
                [Error ''write failed'', Error ''no temporary file'']]
        = mcpWriteError (bothFailed writeError fallbackError)"
    by blast
  from w(2) have eqs: "writeError = Error ''write failed''" "fallbackError = Error ''no temporary file''"
    by (simp_all add: mcpWriteError_def bothFailed_def)
  have sw: "standardWrite relay_down = Inl (Error ''write failed'')"
    using w(1) eqs(1) by simp
  have err: "fst (writeToMCPRelay relay_down (Some ?ev)) =
       Inl (mcpWriteError (bothFailed (Error ''write failed'') (Error ''no temporary file'')))"
    using raised w(2) eqs by simp
  have same: "fst (processTextRow (rowhost_ok\<lparr>row_relay := relay_down\<rparr>) row1 0 2 (Some folders_ready)) =
       fst (processTextRow (rowhost_ok\<lparr>row_relay := relay_ok\<rparr>) row1 0 2 (Some folders_ready))"
    by (rule inst [THEN conjunct2, THEN conjunct2, THEN conjunct2, THEN conjunct2, THEN conjunct1])
  have "rowhost_ok\<lparr>row_relay := relay_ok\<rparr> = rowhost_ok"
    by (simp add: rowhost_ok_def)
  with same row_ok have row: "fst (processTextRow (rowhost_ok\<lparr>row_relay := relay_down\<rparr>) row1 0 2
        (Some folders_ready)) = Inr result_ok"
    by simp
  have png: "pngFolder folders_ready = Some (folder_entry ''/out/Text_PNG'')"
    by (simp add: folders_ready_def)
  have suc: "success result_ok" by (simp add: result_ok_def)
  from inst [THEN conjunct2, THEN conjunct2, THEN conjunct2, THEN conjunct2, THEN conjunct2,
      rule_format, OF conjI [OF refl conjI [OF png conjI [OF row suc]]]]
  obtain pre pngSaved pngPath where
    t: "snd (processTextRow (rowhost_ok\<lparr>row_relay := relay_down\<rparr>) row1 0 2 (Some folders_ready)) =
          pre @ Relay (successEvent pngSaved pngPath) #
            (case fst (writeToMCPRelay relay_down (Some (successEvent pngSaved pngPath))) of
               Inl mcpError \<Rightarrow> [Log (''[DEBUG] MCP relay write failed: '' @ message mcpError)]
             | Inr path \<Rightarrow> [])"
    by blast
  have "fst (writeToMCPRelay relay_down (Some (successEvent pngSaved pngPath))) =
      Inl (PluginError
             ''Failed to write to MCP relay: Both standard and fallback write attempts failed''
             ''MCP_WRITE_ERROR''
             [PluginError ''Both standard and fallback write attempts failed'' ''FILE_WRITE_ERROR''
                [Error ''write failed'', Error ''no temporary file'']])"
    by (simp add: relay_down_run)
  with t have "snd (processTextRow (rowhost_ok\<lparr>row_relay := relay_down\<rparr>) row1 0 2
                     (Some folders_ready)) =
          pre @ [Relay (successEvent pngSaved pngPath),
                 Log (''[DEBUG] MCP relay write failed: Failed to write to MCP relay: ''
                      @ ''Both standard and fallback write attempts failed'')]"
    by simp
  then have log: "last (snd (processTextRow (rowhost_ok\<lparr>row_relay := relay_down\<rparr>) row1 0 2
                (Some folders_ready))) =
       Log (''[DEBUG] MCP relay write failed: Failed to write to MCP relay: ''
            @ ''Both standard and fallback write attempts failed'')"
    by simp
  have prim: "writeToMCPRelay relay_primary_fails (Some ?ev) =
     (Inr ''/tmp/mcp-relay/logs/mcp-out-42.json'', [StandardWrite, FallbackWrite])"
    by (rule relay_primary_fails_run) simp
  from prim sw err row log show ?thesis by (intro conjI)
qed

section \<open>Batch controller\<close>

lemma clicks_frame [simp]:
  "csvData (clicks b st) = csvData st"
  "outputFolder (clicks b st) = outputFolder st"
  "processedRows (clicks b st) = processedRows st"
  by (simp_all add: clicks_def requestStopProcessing_def)

lemma reset_frame [simp]:
  "csvData (resetStopProcessing st) = csvData st"
  "outputFolder (resetStopProcessing st) = outputFolder st"
  "processedRows (resetStopProcessing st) = processedRows st"
  "stopProcessingRequested (resetStopProcessing st) = False"
  by (simp_all add: resetStopProcessing_def)










lemma afterSetup_frame [simp]:
  "csvData (afterSetup h st store) = csvData st"
  "outputFolder (afterSetup h st store) = store"
  "processedRows (afterSetup h st store) = processedRows st"
  by (simp_all add: afterSetup_def)









lemma row_ok2:
  "fst (processTextRow rowhost_ok row2 i n (Some folders_ready)) = Inr result_ok"
  by (simp add: model_defs Let_def)

lemma row_no_text:
  "fst (processTextRow rowhost_no_text r i n (Some folders_ready)) = Inl no_text_layers"
  by (simp add: model_defs Let_def)

lemma setup_store_ready:
  "setupTextOutputFolders (Some store_ready) =
     (Inr folders_ready, Some store_ready, [GetEntry ''Text_PNG''])"
  by (simp add: model_defs Let_def)


lemma throw_run:
  "processTextReplacement run_row0_throws state_loaded =
     (Inl no_text_layers, state_loaded\<lparr>currentOperation := Some ''text_replacement''\<rparr>,
      [ProcessedRow 0 (Inl no_text_layers)])"
  apply (simp add: processTextReplacement_def processTextReplacement_try_def Let_def
        run_row0_throws_def state_loaded_def state0_def resetStopProcessing_def
        setup_store_ready clicks_def requestStopProcessing_def shouldStopProcessing_def)
  apply (simp add: rowLoop.simps [of _ "[row1, row2]"] row_no_text clicks_def
        requestStopProcessing_def shouldStopProcessing_def)
  done

lemma csv_run:
  "snd (snd (processCSV run_row0_throws [row1, row2] state_loaded)) =
     [ProcessedRow 0 (Inl no_text_layers), ProcessedRow 1 (Inr result_ok)]"
  apply (simp add: processCSV_def Let_def
        run_row0_throws_def state_loaded_def state0_def
        setup_store_ready clicks_def requestStopProcessing_def shouldStopProcessing_def)
  apply (simp add: csvLoop.simps [of _ "[row1, row2]"] row_no_text row_ok2 clicks_def
        requestStopProcessing_def shouldStopProcessing_def relay_ok_run)
  done



subsection \<open>Row errors\<close>

lemma rowLoop_throws:
  assumes "i < length csv" and "\<not> shouldStopProcessing st"
    and "fst (processTextRow (row_hosts h i) (csv ! i) i (length csv) (Some fs)) = Inl e"
  shows "rowLoop h csv fs i st =
           (Inl e, clicks (stopDuringRow h i) st, [ProcessedRow i (Inl e)])"
  using assms by (subst rowLoop.simps) simp

lemma csvLoop_continues:
  assumes "i < length csv" and "\<not> shouldStopProcessing st"
    and "fst (processTextRow (row_hosts h i) (csv ! i) (i + 1) (length csv) (Some fs)) = Inl e"
  shows "snd (snd (csvLoop h csv fs i st c)) =
           ProcessedRow i (Inl e)
             # snd (snd (csvLoop h csv fs (i + 1) (clicks (stopDuringRow h i) st)
                           (countRowError c e)))"
  using assms by (subst csvLoop.simps) (simp add: case_prod_beta)

text \<open>
  C9, evaluated on \<open>processTextReplacement\<close>: in a run over two rows in which
  \<open>processTextRow\<close> throws on row 0 (the active document has no text layer then), the
  error leaves the loop and the function; row 1, which would succeed, is never
  processed, and the cursor stays at 0. \<open>processCSV\<close> on the same input catches the
  error of row 0 and goes on to row 1.
\<close>

theorem row_error_aborts_processTextReplacement:
  "processTextReplacement run_row0_throws state_loaded =
     (Inl no_text_layers, state_loaded\<lparr>currentOperation := Some ''text_replacement''\<rparr>,
      [ProcessedRow 0 (Inl no_text_layers)])
   \<and> fst (processTextRow (row_hosts run_row0_throws 1) row2 1 2 (Some folders_ready)) =
       Inr result_ok
   \<and> snd (snd (processCSV run_row0_throws [row1, row2] state_loaded)) =
       [ProcessedRow 0 (Inl no_text_layers), ProcessedRow 1 (Inr result_ok)]"
proof -
  have "fst (processTextRow (row_hosts run_row0_throws 1) row2 1 2 (Some folders_ready)) =
       Inr result_ok"
    by (simp add: run_row0_throws_def row_ok2)
  with throw_run csv_run show ?thesis by (intro conjI)
qed

end
